theory Spec2Isabelle
  imports Complex_Main
begin

section \<open>Values of the training script\<close>

text \<open>
  The module \<^verbatim>\<open>train.py\<close> has five functions: \<^verbatim>\<open>calculate_f1\<close>,
  \<^verbatim>\<open>compute_gradient_penalty\<close>, \<^verbatim>\<open>train_gan\<close>, \<^verbatim>\<open>train_combined_cgan\<close> and
  \<^verbatim>\<open>evaluate_model\<close>. Tensors are nested lists; floating-point numbers are exact reals
  (rounding, infinities and NaN are not represented: where the code divides a zero tensor
  by \<^verbatim>\<open>0.0\<close> the branch is written out). Integer arguments that only bound a
  \<^verbatim>\<open>range\<close> or a patience test (\<^verbatim>\<open>epochs\<close>, \<^verbatim>\<open>num_z_samples\<close>, \<^verbatim>\<open>patience\<close>) are
  naturals: a negative value behaves as 0 in every place they are used. Exceptions are
  values of \<open>py_error\<close>, returned on the left of a sum.
\<close>

datatype py_error = ZeroDivisionError | RuntimeError | IndexError

type_synonym layout = "real list list"
type_synonym adjm = "real list list"
type_synonym noise = "real list list"
type_synonym logits = "(real \<times> real) list"
type_synonym batch = "layout list \<times> adjm list \<times> int list"

text \<open>\<^verbatim>\<open>module.train()\<close> and \<^verbatim>\<open>module.eval()\<close> select the mode of a forward pass.\<close>

datatype mode = Train | Eval

datatype net = Generator | Discriminator | Classifier

text \<open>
  Elementwise operations on two one-dimensional tensors: equal sizes pair up, a tensor of
  size 1 is broadcast, anything else raises.
\<close>

definition broadcast_zip :: "'a list \<Rightarrow> 'b list \<Rightarrow> py_error + ('a \<times> 'b) list" where
  "broadcast_zip xs ys =
     (if length xs = length ys then Inr (zip xs ys)
      else if length xs = 1 then Inr (map (\<lambda>y. (hd xs, y)) ys)
      else if length ys = 1 then Inr (map (\<lambda>x. (x, hd ys)) xs)
      else Inl RuntimeError)"

definition tensor_mul :: "int list \<Rightarrow> int list \<Rightarrow> py_error + int list" where
  "tensor_mul xs ys =
     (case broadcast_zip xs ys of Inl e \<Rightarrow> Inl e | Inr ps \<Rightarrow> Inr (map (\<lambda>(x, y). x * y) ps))"

text \<open>\<^verbatim>\<open>(a == b).sum().item()\<close>\<close>

definition count_equal :: "int list \<Rightarrow> int list \<Rightarrow> py_error + nat" where
  "count_equal xs ys =
     (case broadcast_zip xs ys of Inl e \<Rightarrow> Inl e
      | Inr ps \<Rightarrow> Inr (length (filter (\<lambda>(x, y). x = y) ps)))"

text \<open>
  \<^verbatim>\<open>torch.mean\<close> of a non-empty tensor. On an empty tensor torch returns NaN, which
  the reals do not have; the means below are taken over the critic's scores of a batch,
  over the coordinates of a batch, or over the draws of a loop that has run at least once.
\<close>

definition mean_t :: "real list \<Rightarrow> real" where
  "mean_t xs = sum_list xs / real (length xs)"

text \<open>\<^verbatim>\<open>torch.norm(v, dim=...)\<close> and \<^verbatim>\<open>v.norm(2, dim=1)\<close>: the L2 norm of one row.\<close>

definition l2_norm :: "real list \<Rightarrow> real" where
  "l2_norm v = sqrt (sum_list (map (\<lambda>x. x * x) v))"

section \<open>calculate\_f1\<close>

definition eps :: real where
  "eps = 1 / 10 ^ 8"

text \<open>Lines 26 to 28: precision, recall and F1 from the three float32 sums.\<close>

definition f1_from_counts :: "real \<Rightarrow> real \<Rightarrow> real \<Rightarrow> real \<times> real \<times> real" where
  "f1_from_counts tp fp fn =
     (let precision = tp / (tp + fp + eps);
          recall = tp / (tp + fn + eps);
          f1 = 2 * (precision * recall) / (precision + recall + eps)
      in (precision, recall, f1))"

definition calculate_f1 :: "int list \<Rightarrow> int list \<Rightarrow> py_error + (real \<times> real \<times> real)" where
  "calculate_f1 preds labels =
     (case tensor_mul preds labels of Inl e \<Rightarrow> Inl e | Inr pl \<Rightarrow>
     (case tensor_mul (map (\<lambda>p. 1 - p) preds) (map (\<lambda>l. 1 - l) labels) of Inl e \<Rightarrow> Inl e | Inr nn \<Rightarrow>
     (case tensor_mul preds (map (\<lambda>l. 1 - l) labels) of Inl e \<Rightarrow> Inl e | Inr pn \<Rightarrow>
     (case tensor_mul (map (\<lambda>p. 1 - p) preds) labels of Inl e \<Rightarrow> Inl e | Inr np \<Rightarrow>
        (let tp = real_of_int (sum_list pl);
             tn = real_of_int (sum_list nn);
             fp = real_of_int (sum_list pn);
             fn = real_of_int (sum_list np)
         in Inr (f1_from_counts tp fp fn))))))"

definition f1_value :: "int list \<Rightarrow> int list \<Rightarrow> real option" where
  "f1_value preds labels =
     (case calculate_f1 preds labels of Inl e \<Rightarrow> None | Inr (p, r, f) \<Rightarrow> Some f)"

text \<open>
  The reference the specification compares with: confusion counts taken pair by pair, and
  the closed form \<open>2PR/(P+R+\<epsilon>)\<close> over them.
\<close>

definition binary :: "int list \<Rightarrow> bool" where
  "binary xs = list_all (\<lambda>x. x = 0 \<or> x = 1) xs"

definition count_pairs :: "int \<Rightarrow> int \<Rightarrow> int list \<Rightarrow> int list \<Rightarrow> nat" where
  "count_pairs a b preds labels = length (filter (\<lambda>(p, l). p = a \<and> l = b) (zip preds labels))"

definition closed_form_f1 :: "nat \<Rightarrow> nat \<Rightarrow> nat \<Rightarrow> real" where
  "closed_form_f1 tp fp fn =
     2 * (real tp / (real tp + real fp + 1 / 10 ^ 8)) * (real tp / (real tp + real fn + 1 / 10 ^ 8))
       / (real tp / (real tp + real fp + 1 / 10 ^ 8) + real tp / (real tp + real fn + 1 / 10 ^ 8)
            + 1 / 10 ^ 8)"

section \<open>Deriving num\_nodes\<close>

text \<open>
  The same two statements stand at lines 148 to 151 (\<^verbatim>\<open>train_gan\<close>), 384 to 387
  (\<^verbatim>\<open>train_combined_cgan\<close>) and 691 to 694 (\<^verbatim>\<open>evaluate_model\<close>):
  \<^verbatim>\<open>non_zero_nodes_mask = torch.norm(x, dim=2) > 0\<close> and
  \<^verbatim>\<open>num_nodes = non_zero_nodes_mask.sum(dim=1)\<close>.
\<close>

definition non_zero_nodes_mask :: "layout list \<Rightarrow> bool list list" where
  "non_zero_nodes_mask graph_layouts = map (map (\<lambda>row. l2_norm row > 0)) graph_layouts"

definition derive_num_nodes :: "layout list \<Rightarrow> nat list" where
  "derive_num_nodes graph_layouts =
     map (\<lambda>m. length (filter (\<lambda>b. b) m)) (non_zero_nodes_mask graph_layouts)"

text \<open>The count the specification names: the rows of a graph whose L2 norm is not zero.\<close>

definition nonzero_row_counts :: "layout list \<Rightarrow> nat list" where
  "nonzero_row_counts graph_layouts =
     map (\<lambda>g. length (filter (\<lambda>row. l2_norm row \<noteq> 0) g)) graph_layouts"

section \<open>compute\_gradient\_penalty\<close>

text \<open>
  The critic is an opaque differentiable function. \<open>autograd_grad x a\<close> stands for
  \<^verbatim>\<open>torch.autograd.grad(outputs=D(x, a), inputs=[x, a], grad_outputs=ones)\<close>: the pair of
  gradients with respect to the coordinates and to the adjacency matrices, each of the
  shape of its input. \<open>alpha_samples b\<close> and \<open>alpha_adj b i j\<close> are the entries of the two
  \<^verbatim>\<open>torch.rand\<close> draws. Shapes that do not agree raise (shapes that torch would still
  broadcast are reported as \<open>RuntimeError\<close> as well: the adjacency matrices of a batch are
  square and one per graph).
\<close>

definition size1 :: "'a list list \<Rightarrow> nat" where
  "size1 t = (case t of [] \<Rightarrow> 0 | x # _ \<Rightarrow> length x)"

definition has_shape3 :: "nat \<Rightarrow> nat \<Rightarrow> nat \<Rightarrow> real list list list \<Rightarrow> bool" where
  "has_shape3 b n m t =
     (length t = b \<and> list_all (\<lambda>x. length x = n \<and> list_all (\<lambda>r. length r = m) x) t)"

definition same_shape3 :: "real list list list \<Rightarrow> real list list list \<Rightarrow> bool" where
  "same_shape3 s t = (map (map length) s = map (map length) t)"

definition interpolate_samples :: "(nat \<Rightarrow> real) \<Rightarrow> layout list \<Rightarrow> layout list \<Rightarrow> layout list" where
  "interpolate_samples alpha_samples real_samples fake_samples =
     map (\<lambda>(b, r, f). map2 (map2 (\<lambda>x y. alpha_samples b * x + (1 - alpha_samples b) * y)) r f)
       (enumerate 0 (zip real_samples fake_samples))"

definition interpolate_adj :: "(nat \<Rightarrow> nat \<Rightarrow> nat \<Rightarrow> real) \<Rightarrow> adjm list \<Rightarrow> adjm list \<Rightarrow> adjm list" where
  "interpolate_adj alpha_adj real_adj fake_adj =
     map (\<lambda>(b, r, f).
            map (\<lambda>(i, rr, fr).
                   map (\<lambda>(j, x, y). alpha_adj b i j * x + (1 - alpha_adj b i j) * y)
                     (enumerate 0 (zip rr fr)))
              (enumerate 0 (zip r f)))
       (enumerate 0 (zip real_adj fake_adj))"

text \<open>
  Lines 65 to 73 end in \<^verbatim>\<open>)[0]\<close>: of the pair that \<^verbatim>\<open>autograd.grad\<close> returns, the
  first component is kept. \<^verbatim>\<open>view(batch_size, -1)\<close> raises on an empty batch.
\<close>

definition compute_gradient_penalty ::
  "(layout list \<Rightarrow> adjm list \<Rightarrow> layout list \<times> adjm list) \<Rightarrow> (nat \<Rightarrow> real) \<Rightarrow> (nat \<Rightarrow> nat \<Rightarrow> nat \<Rightarrow> real)
     \<Rightarrow> layout list \<Rightarrow> layout list \<Rightarrow> adjm list \<Rightarrow> adjm list \<Rightarrow> real \<Rightarrow> py_error + real" where
  "compute_gradient_penalty autograd_grad alpha_samples alpha_adj
       real_samples fake_samples real_adj fake_adj lambda_gp =
     (let batch_size = length real_samples;
          num_nodes = size1 real_adj
      in if \<not> same_shape3 real_samples fake_samples then Inl RuntimeError
         else if \<not> has_shape3 batch_size num_nodes num_nodes real_adj
                 \<or> \<not> has_shape3 batch_size num_nodes num_nodes fake_adj then Inl RuntimeError
         else
           (let interpolated_samples = interpolate_samples alpha_samples real_samples fake_samples;
                interpolated_adj = interpolate_adj alpha_adj real_adj fake_adj;
                gradients = fst (autograd_grad interpolated_samples interpolated_adj)
            in if batch_size = 0 then Inl RuntimeError
               else
                 (let gradient_norm = map (\<lambda>g. l2_norm (concat g)) gradients
                  in Inr (lambda_gp * mean_t (map (\<lambda>n. (n - 1) ^ 2) gradient_norm)))))"

text \<open>
  The penalty as the specification words it: the per-sample norm of the gradient with
  respect to both interpolated inputs, flattened together.
\<close>

definition joint_gradient_penalty ::
  "(layout list \<Rightarrow> adjm list \<Rightarrow> layout list \<times> adjm list) \<Rightarrow> layout list \<Rightarrow> adjm list \<Rightarrow> real \<Rightarrow> real" where
  "joint_gradient_penalty autograd_grad interpolated_samples interpolated_adj lambda_gp =
     (let (gs, ga) = autograd_grad interpolated_samples interpolated_adj
      in lambda_gp * mean_t (map (\<lambda>(g, a). (l2_norm (concat g @ concat a) - 1) ^ 2) (zip gs ga)))"

section \<open>The networks and the random generator\<close>

text \<open>
  Generator, critic, classifier, renderer and the two loss functions are outside the
  module (the last three come from \<^verbatim>\<open>utils\<close>); they are fields of an environment. A
  network is a function of its mode and its state dict. \<open>randn env k b\<close> is the tensor that
  \<^verbatim>\<open>torch.randn(b, 128)\<close> returns when it is the \<open>k\<close>-th draw of the run, \<open>rand_samples\<close>
  and \<open>rand_adj\<close> the entries of the two \<^verbatim>\<open>torch.rand\<close> draws of
  \<^verbatim>\<open>compute_gradient_penalty\<close>; the run carries the number of draws made so far.
  \<open>optimizer_step env which start now batch k\<close> is the effect of
  \<^verbatim>\<open>zero_grad(); loss.backward(); step()\<close> on one network and its optimizer: it returns
  their two new state dicts, from the state dicts at the start of the batch, the current
  ones, the batch and the index of the batch's first random draw.
\<close>

record 'p nets =
  generator_sd :: 'p
  discriminator_sd :: 'p
  classifier_sd :: 'p
  optimizer_g_sd :: 'p
  optimizer_d_sd :: 'p
  optimizer_c_sd :: 'p

record ('p, 'i) torch_env =
  generator :: "mode \<Rightarrow> 'p \<Rightarrow> noise \<Rightarrow> layout list \<Rightarrow> adjm list \<Rightarrow> nat list \<Rightarrow> layout list"
  discriminator :: "'p \<Rightarrow> layout list \<Rightarrow> adjm list \<Rightarrow> real list"
  discriminator_grad :: "'p \<Rightarrow> layout list \<Rightarrow> adjm list \<Rightarrow> layout list \<times> adjm list"
  classifier :: "mode \<Rightarrow> 'p \<Rightarrow> 'i list \<Rightarrow> logits"
  visualize_graph_layout :: "layout \<Rightarrow> adjm \<Rightarrow> 'i"
  criterion :: "logits \<Rightarrow> int list \<Rightarrow> real"
  wasserstein_loss :: "real list \<Rightarrow> real list \<Rightarrow> real"
  randn :: "nat \<Rightarrow> nat \<Rightarrow> noise"
  rand_samples :: "nat \<Rightarrow> nat \<Rightarrow> real"
  rand_adj :: "nat \<Rightarrow> nat \<Rightarrow> nat \<Rightarrow> nat \<Rightarrow> real"
  optimizer_step :: "net \<Rightarrow> 'p nets \<Rightarrow> 'p nets \<Rightarrow> batch \<Rightarrow> nat \<Rightarrow> 'p \<times> 'p"
  scheduler_step :: "net \<Rightarrow> 'p \<Rightarrow> 'p"

text \<open>
  The rendering loop \<^verbatim>\<open>for i, layout in enumerate(layouts): visualize_graph_layout(
  layout[:num_nodes[i]], adj_matrix=adj_matrices[i], ...)\<close> followed by \<^verbatim>\<open>torch.stack\<close>,
  which raises on an empty list.
\<close>

definition render_images ::
  "('p, 'i) torch_env \<Rightarrow> layout list \<Rightarrow> adjm list \<Rightarrow> nat list \<Rightarrow> py_error + 'i list" where
  "render_images env layouts adj_matrices num_nodes =
     (if length adj_matrices < length layouts \<or> length num_nodes < length layouts then Inl IndexError
      else if layouts = [] then Inl RuntimeError
      else Inr (map (\<lambda>(i, layout).
                       visualize_graph_layout env (take (num_nodes ! i) layout) (adj_matrices ! i))
                  (enumerate 0 layouts)))"

text \<open>\<^verbatim>\<open>torch.max(t, 1)\<close> over two classes: the index of the first maximal entry.\<close>

definition argmax2 :: "real \<times> real \<Rightarrow> int" where
  "argmax2 l = (if fst l < snd l then 1 else 0)"

section \<open>evaluate\_model\<close>

text \<open>Lines 714 to 727: one draw, generated, rendered and classified in evaluation mode.\<close>

definition forward_pass ::
  "('p, 'i) torch_env \<Rightarrow> 'p nets \<Rightarrow> layout list \<Rightarrow> adjm list \<Rightarrow> nat list \<Rightarrow> noise \<Rightarrow> py_error + logits" where
  "forward_pass env nets graph_layouts adj_matrices num_nodes z =
     (let gen_layouts = generator env Eval (generator_sd nets) z graph_layouts adj_matrices num_nodes
      in case render_images env gen_layouts adj_matrices num_nodes of
           Inl e \<Rightarrow> Inl e
         | Inr images \<Rightarrow> Inr (classifier env Eval (classifier_sd nets) images))"

text \<open>\<^verbatim>\<open>accum_logits += outputs\<close>: in place, so only \<open>outputs\<close> may be broadcast.\<close>

definition add_inplace :: "logits \<Rightarrow> logits \<Rightarrow> py_error + logits" where
  "add_inplace accum_logits outputs =
     (if length outputs = length accum_logits
        then Inr (map (\<lambda>(a, b). (fst a + fst b, snd a + snd b)) (zip accum_logits outputs))
      else if length outputs = 1
        then Inr (map (\<lambda>a. (fst a + fst (hd outputs), snd a + snd (hd outputs))) accum_logits)
      else Inl RuntimeError)"

text \<open>The loop \<^verbatim>\<open>for _ in range(num_z_samples)\<close> of lines 713 to 730.\<close>

fun accumulate_logits ::
  "('p, 'i) torch_env \<Rightarrow> 'p nets \<Rightarrow> layout list \<Rightarrow> adjm list \<Rightarrow> nat list \<Rightarrow> nat \<Rightarrow> nat \<Rightarrow> logits
     \<Rightarrow> py_error + (logits \<times> nat)" where
  "accumulate_logits env nets graph_layouts adj_matrices num_nodes 0 rng accum_logits =
     Inr (accum_logits, rng)"
| "accumulate_logits env nets graph_layouts adj_matrices num_nodes (Suc k) rng accum_logits =
     (case forward_pass env nets graph_layouts adj_matrices num_nodes
             (randn env rng (length graph_layouts)) of
        Inl e \<Rightarrow> Inl e
      | Inr outputs \<Rightarrow>
          (case add_inplace accum_logits outputs of
             Inl e \<Rightarrow> Inl e
           | Inr acc \<Rightarrow>
               accumulate_logits env nets graph_layouts adj_matrices num_nodes k (Suc rng) acc))"

text \<open>
  Lines 696 to 735 for one batch, given \<^verbatim>\<open>num_nodes\<close>: the predicted classes and the new
  draw count. With
  \<^verbatim>\<open>num_z_samples = 0\<close> the division \<^verbatim>\<open>accum_logits /= 0.0\<close> turns the zero tensor into
  NaN, for which \<^verbatim>\<open>torch.max\<close> returns index 0.
\<close>

definition predict_batch_body ::
  "('p, 'i) torch_env \<Rightarrow> 'p nets \<Rightarrow> nat \<Rightarrow> layout list \<Rightarrow> adjm list \<Rightarrow> nat list \<Rightarrow> nat
     \<Rightarrow> py_error + (int list \<times> nat)" where
  "predict_batch_body env nets num_z_samples graph_layouts adj_matrices num_nodes rng =
     (let batch_size = length graph_layouts
      in case accumulate_logits env nets graph_layouts adj_matrices num_nodes num_z_samples rng
                (replicate batch_size (0, 0)) of
           Inl e \<Rightarrow> Inl e
         | Inr (accum_logits, rng') \<Rightarrow>
             if num_z_samples = 0 then Inr (replicate batch_size 0, rng')
             else Inr (map (\<lambda>l. argmax2 (fst l / real num_z_samples, snd l / real num_z_samples))
                         accum_logits, rng'))"

definition predict_batch ::
  "('p, 'i) torch_env \<Rightarrow> 'p nets \<Rightarrow> nat \<Rightarrow> layout list \<Rightarrow> adjm list \<Rightarrow> nat \<Rightarrow> py_error + (int list \<times> nat)" where
  "predict_batch env nets num_z_samples graph_layouts adj_matrices rng =
     predict_batch_body env nets num_z_samples graph_layouts adj_matrices
       (derive_num_nodes graph_layouts) rng"

record eval_acc =
  correct :: nat
  total :: nat
  total_f1 :: real
  eval_rng :: nat

definition evaluate_batch ::
  "('p, 'i) torch_env \<Rightarrow> 'p nets \<Rightarrow> nat \<Rightarrow> batch \<Rightarrow> eval_acc \<Rightarrow> py_error + eval_acc" where
  "evaluate_batch env nets num_z_samples b acc =
     (case b of (graph_layouts, adj_matrices, labels) \<Rightarrow>
        (case predict_batch env nets num_z_samples graph_layouts adj_matrices (eval_rng acc) of
           Inl e \<Rightarrow> Inl e
         | Inr (predicted, rng') \<Rightarrow>
             (case count_equal predicted labels of
                Inl e \<Rightarrow> Inl e
              | Inr c \<Rightarrow>
                  (case calculate_f1 predicted labels of
                     Inl e \<Rightarrow> Inl e
                   | Inr (precision, recall, f1_score) \<Rightarrow>
                       Inr \<lparr>correct = correct acc + c, total = total acc + length labels,
                            total_f1 = total_f1 acc + f1_score, eval_rng = rng'\<rparr>))))"

fun evaluate_batches ::
  "('p, 'i) torch_env \<Rightarrow> 'p nets \<Rightarrow> nat \<Rightarrow> batch list \<Rightarrow> eval_acc \<Rightarrow> py_error + eval_acc" where
  "evaluate_batches env nets num_z_samples [] acc = Inr acc"
| "evaluate_batches env nets num_z_samples (b # bs) acc =
     (case evaluate_batch env nets num_z_samples b acc of
        Inl e \<Rightarrow> Inl e
      | Inr acc' \<Rightarrow> evaluate_batches env nets num_z_samples bs acc')"

text \<open>
  Lines 743 and 744 divide Python numbers: \<^verbatim>\<open>100 * correct / total\<close> raises
  \<^verbatim>\<open>ZeroDivisionError\<close> when \<open>total\<close> is 0, and so does the division by
  \<^verbatim>\<open>len(test_loader)\<close>. The result is the pair of accuracy and mean F1, with the draw count.
\<close>

definition evaluate_model ::
  "('p, 'i) torch_env \<Rightarrow> 'p nets \<Rightarrow> batch list \<Rightarrow> nat \<Rightarrow> nat \<Rightarrow> py_error + ((real \<times> real) \<times> nat)" where
  "evaluate_model env nets test_loader num_z_samples rng =
     (case evaluate_batches env nets num_z_samples test_loader
             \<lparr>correct = 0, total = 0, total_f1 = 0, eval_rng = rng\<rparr> of
        Inl e \<Rightarrow> Inl e
      | Inr acc \<Rightarrow>
          if total acc = 0 then Inl ZeroDivisionError
          else if length test_loader = 0 then Inl ZeroDivisionError
          else Inr ((100 * real (correct acc) / real (total acc),
                     total_f1 acc / real (length test_loader)), eval_rng acc))"



section \<open>The metrics file\<close>

text \<open>
  A CSV file is the list of the rows written to it: the header written when the file is
  opened with mode \<^verbatim>\<open>'w'\<close>, then one row per \<^verbatim>\<open>writer.writerow\<close> in append mode. The
  three loss columns of the combined loop's row hold \<^verbatim>\<open>None\<close> in the epoch-0 row.
\<close>

datatype csv_row =
    Header "string list"
  | GanRow nat real real real real
  | CombinedRow nat "real option" "real option" "real option" real real real real real real

fun is_data_row :: "csv_row \<Rightarrow> bool" where
  "is_data_row (Header names) = False"
| "is_data_row (GanRow epoch g rec d acc) = True"
| "is_data_row (CombinedRow epoch g d c tr_acc tr_f1 va_acc va_f1 te_acc te_f1) = True"

definition data_rows :: "csv_row list \<Rightarrow> csv_row list" where
  "data_rows rows = filter is_data_row rows"

fun row_epoch :: "csv_row \<Rightarrow> nat" where
  "row_epoch (Header names) = 0"
| "row_epoch (GanRow epoch g rec d acc) = epoch"
| "row_epoch (CombinedRow epoch g d c tr_acc tr_f1 va_acc va_f1 te_acc te_f1) = epoch"

fun row_generator_loss :: "csv_row \<Rightarrow> real option" where
  "row_generator_loss (Header names) = None"
| "row_generator_loss (GanRow epoch g rec d acc) = Some g"
| "row_generator_loss (CombinedRow epoch g d c tr_acc tr_f1 va_acc va_f1 te_acc te_f1) = g"

fun row_discriminator_loss :: "csv_row \<Rightarrow> real option" where
  "row_discriminator_loss (Header names) = None"
| "row_discriminator_loss (GanRow epoch g rec d acc) = Some d"
| "row_discriminator_loss (CombinedRow epoch g d c tr_acc tr_f1 va_acc va_f1 te_acc te_f1) = d"

fun row_val_accuracy :: "csv_row \<Rightarrow> real option" where
  "row_val_accuracy (Header names) = None"
| "row_val_accuracy (GanRow epoch g rec d acc) = None"
| "row_val_accuracy (CombinedRow epoch g d c tr_acc tr_f1 va_acc va_f1 te_acc te_f1) = Some va_acc"

section \<open>train\_gan\<close>

text \<open>
  The state of a pretraining run: the networks and optimizers, the number of random draws
  and of optimizer steps made, the early-stopping variables of lines 100 to 108, the
  per-epoch accumulators of lines 131 to 139, the metrics file and the history of what
  \<^verbatim>\<open>torch.save\<close> wrote to the two checkpoint paths (the file holds the last entry). The
  classifier fields of \<open>nets\<close> are carried along unused. The images written every 30th
  batch (lines 217 to 230) and the in-memory \<^verbatim>\<open>metrics\<close> dictionary, which repeats the
  rows of the file, are left out: nothing reads them.
\<close>

record 'p gan_state =
  g_nets :: "'p nets"
  g_rng :: nat
  steps_g :: nat
  steps_d :: nat
  best_g_loss :: "real option"
  best_d_loss :: "real option"
  g_epochs_without_improvement :: nat
  d_epochs_without_improvement :: nat
  stop_training_g :: bool
  stop_training_d :: bool
  total_g_loss :: real
  total_d_loss :: real
  total_reconstruction_loss :: real
  correct_real :: nat
  correct_fake :: nat
  total_real :: nat
  total_fake :: nat
  gan_log :: "csv_row list"
  saved_g :: "'p list"
  saved_d :: "'p list"

text \<open>\<^verbatim>\<open>torch.median\<close>: the lower of the two middle values; it raises on an empty tensor.\<close>

definition median_t :: "real list \<Rightarrow> real" where
  "median_t xs = sort xs ! ((length xs - 1) div 2)"

text \<open>\<^verbatim>\<open>F.mse_loss\<close> with the default mean reduction.\<close>

definition mse_loss :: "layout list \<Rightarrow> layout list \<Rightarrow> py_error + real" where
  "mse_loss input target =
     (if same_shape3 input target
        then Inr (mean_t (map (\<lambda>(x, y). (x - y) ^ 2)
                            (zip (concat (concat input)) (concat (concat target)))))
      else Inl RuntimeError)"

text \<open>Lines 164 to 178. Both adjacency arguments of the penalty are \<^verbatim>\<open>adj_matrices\<close>.\<close>

definition gan_critic_step ::
  "('p, 'i) torch_env \<Rightarrow> real \<Rightarrow> batch \<Rightarrow> 'p nets \<Rightarrow> nat \<Rightarrow> layout list \<Rightarrow> real list \<Rightarrow> real list
     \<Rightarrow> 'p gan_state \<Rightarrow> py_error + 'p gan_state" where
  "gan_critic_step env lambda_gp b nets0 rng0 generated_coords real_validity fake_validity st =
     (case b of (node_coords, adj_matrices, labels) \<Rightarrow>
        if stop_training_d st then Inr st
        else
          (let discriminator_loss = wasserstein_loss env real_validity fake_validity
           in case compute_gradient_penalty (discriminator_grad env (discriminator_sd (g_nets st)))
                     (rand_samples env (g_rng st)) (rand_adj env (Suc (g_rng st)))
                     node_coords generated_coords adj_matrices adj_matrices lambda_gp of
                Inl e \<Rightarrow> Inl e
              | Inr gp \<Rightarrow>
                  (let d_loss = discriminator_loss + gp;
                       upd = optimizer_step env Discriminator nets0 (g_nets st) b rng0
                   in Inr (st\<lparr>g_nets := (g_nets st)\<lparr>discriminator_sd := fst upd,
                                                      optimizer_d_sd := snd upd\<rparr>,
                              g_rng := g_rng st + 2,
                              steps_d := Suc (steps_d st),
                              total_d_loss := total_d_loss st + d_loss\<rparr>))))"

text \<open>Lines 182 to 193.\<close>

definition gan_accuracy_step :: "real list \<Rightarrow> real list \<Rightarrow> 'p gan_state \<Rightarrow> py_error + 'p gan_state" where
  "gan_accuracy_step real_validity fake_validity st =
     (let all_validity = real_validity @ fake_validity
      in if all_validity = [] then Inl RuntimeError
         else
           (let threshold = median_t all_validity;
                real_predictions = map (\<lambda>v. v > threshold) real_validity;
                fake_predictions = map (\<lambda>v. v \<le> threshold) fake_validity
            in Inr (st\<lparr>correct_real := correct_real st + length (filter (\<lambda>b. b) real_predictions),
                       correct_fake := correct_fake st + length (filter (\<lambda>b. b) fake_predictions),
                       total_real := total_real st + length real_predictions,
                       total_fake := total_fake st + length fake_predictions\<rparr>)))"

text \<open>Lines 196 to 214.\<close>

definition gan_generator_step ::
  "('p, 'i) torch_env \<Rightarrow> real \<Rightarrow> batch \<Rightarrow> 'p nets \<Rightarrow> nat \<Rightarrow> layout list \<Rightarrow> 'p gan_state
     \<Rightarrow> py_error + 'p gan_state" where
  "gan_generator_step env lambda_rec b nets0 rng0 generated_coords st =
     (case b of (node_coords, adj_matrices, labels) \<Rightarrow>
        if stop_training_g st then Inr st
        else
          (let fake_validity =
                 discriminator env (discriminator_sd (g_nets st)) generated_coords adj_matrices;
               generate_loss = - mean_t fake_validity
           in case mse_loss generated_coords node_coords of
                Inl e \<Rightarrow> Inl e
              | Inr reconstruction_loss \<Rightarrow>
                  (let g_loss = generate_loss + lambda_rec * reconstruction_loss;
                       upd = optimizer_step env Generator nets0 (g_nets st) b rng0
                   in Inr (st\<lparr>g_nets := (g_nets st)\<lparr>generator_sd := fst upd,
                                                      optimizer_g_sd := snd upd\<rparr>,
                              steps_g := Suc (steps_g st),
                              total_g_loss := total_g_loss st + g_loss,
                              total_reconstruction_loss :=
                                total_reconstruction_loss st + reconstruction_loss\<rparr>))))"

text \<open>
  One iteration of the batch loop, lines 141 to 214: \<open>gan_batch_body\<close> is the iteration
  given \<^verbatim>\<open>num_nodes\<close>, \<open>gan_batch\<close> derives it first (lines 148 to 151).
\<close>

definition gan_batch_body ::
  "('p, 'i) torch_env \<Rightarrow> real \<Rightarrow> real \<Rightarrow> batch \<Rightarrow> nat list \<Rightarrow> 'p gan_state \<Rightarrow> py_error + 'p gan_state" where
  "gan_batch_body env lambda_gp lambda_rec b num_nodes st =
     (case b of (node_coords, adj_matrices, labels) \<Rightarrow>
        (let nets0 = g_nets st;
             rng0 = g_rng st;
             z = randn env rng0 (length node_coords);
             generated_coords =
               generator env Train (generator_sd nets0) z node_coords adj_matrices num_nodes;
             real_validity = discriminator env (discriminator_sd nets0) node_coords adj_matrices;
             fake_validity = discriminator env (discriminator_sd nets0) generated_coords adj_matrices
         in case gan_critic_step env lambda_gp b nets0 rng0 generated_coords real_validity
                   fake_validity (st\<lparr>g_rng := Suc rng0\<rparr>) of
              Inl e \<Rightarrow> Inl e
            | Inr st1 \<Rightarrow>
                (case gan_accuracy_step real_validity fake_validity st1 of
                   Inl e \<Rightarrow> Inl e
                 | Inr st2 \<Rightarrow> gan_generator_step env lambda_rec b nets0 rng0 generated_coords st2)))"

definition gan_batch ::
  "('p, 'i) torch_env \<Rightarrow> real \<Rightarrow> real \<Rightarrow> batch \<Rightarrow> 'p gan_state \<Rightarrow> py_error + 'p gan_state" where
  "gan_batch env lambda_gp lambda_rec b st =
     gan_batch_body env lambda_gp lambda_rec b (derive_num_nodes (fst b)) st"

fun gan_batches ::
  "('p, 'i) torch_env \<Rightarrow> real \<Rightarrow> real \<Rightarrow> batch list \<Rightarrow> 'p gan_state \<Rightarrow> py_error + 'p gan_state" where
  "gan_batches env lambda_gp lambda_rec [] st = Inr st"
| "gan_batches env lambda_gp lambda_rec (b # bs) st =
     (case gan_batch env lambda_gp lambda_rec b st of
        Inl e \<Rightarrow> Inl e
      | Inr st' \<Rightarrow> gan_batches env lambda_gp lambda_rec bs st')"

text \<open>\<^verbatim>\<open>avg < best\<close>, where \<open>None\<close> is the initial \<^verbatim>\<open>float('inf')\<close>.\<close>

definition improves :: "real \<Rightarrow> real option \<Rightarrow> bool" where
  "improves avg best = (case best of None \<Rightarrow> True | Some b \<Rightarrow> avg < b)"

text \<open>Lines 256 to 266.\<close>

definition early_stopping_g :: "nat \<Rightarrow> real \<Rightarrow> 'p gan_state \<Rightarrow> 'p gan_state" where
  "early_stopping_g patience avg_g_loss st =
     (if improves avg_g_loss (best_g_loss st)
        then st\<lparr>best_g_loss := Some avg_g_loss,
                g_epochs_without_improvement := 0,
                saved_g := saved_g st @ [generator_sd (g_nets st)]\<rparr>
      else
        (let n = Suc (g_epochs_without_improvement st)
         in st\<lparr>g_epochs_without_improvement := n,
               stop_training_g := (if patience \<le> n then True else stop_training_g st)\<rparr>))"

text \<open>Lines 269 to 279.\<close>

definition early_stopping_d :: "nat \<Rightarrow> real \<Rightarrow> 'p gan_state \<Rightarrow> 'p gan_state" where
  "early_stopping_d patience avg_d_loss st =
     (if improves avg_d_loss (best_d_loss st)
        then st\<lparr>best_d_loss := Some avg_d_loss,
                d_epochs_without_improvement := 0,
                saved_d := saved_d st @ [discriminator_sd (g_nets st)]\<rparr>
      else
        (let n = Suc (d_epochs_without_improvement st)
         in st\<lparr>d_epochs_without_improvement := n,
               stop_training_d := (if patience \<le> n then True else stop_training_d st)\<rparr>))"

text \<open>
  The body of the epoch loop after the early-exit test, lines 128 to 297. The three
  averages divide by \<^verbatim>\<open>len(data_loader)\<close> and raise \<^verbatim>\<open>ZeroDivisionError\<close> on an empty
  loader; the accuracy of lines 244 to 249 is guarded.
\<close>

definition gan_epoch ::
  "('p, 'i) torch_env \<Rightarrow> real \<Rightarrow> real \<Rightarrow> nat \<Rightarrow> batch list \<Rightarrow> nat \<Rightarrow> 'p gan_state \<Rightarrow> py_error + 'p gan_state" where
  "gan_epoch env lambda_gp lambda_rec patience data_loader epoch st =
     (case gan_batches env lambda_gp lambda_rec data_loader
             (st\<lparr>total_g_loss := 0, total_d_loss := 0, total_reconstruction_loss := 0,
                 correct_real := 0, correct_fake := 0, total_real := 0, total_fake := 0\<rparr>) of
        Inl e \<Rightarrow> Inl e
      | Inr st1 \<Rightarrow>
          if length data_loader = 0 then Inl ZeroDivisionError
          else
            (let avg_g_loss = total_g_loss st1 / real (length data_loader);
                 avg_d_loss = total_d_loss st1 / real (length data_loader);
                 avg_reconstruction_loss =
                   total_reconstruction_loss st1 / real (length data_loader);
                 discriminator_accuracy =
                   (if total_real st1 + total_fake st1 > 0
                      then real (correct_real st1 + correct_fake st1)
                             / real (total_real st1 + total_fake st1) * 100
                    else 0);
                 st2 = early_stopping_g patience avg_g_loss st1;
                 st3 = early_stopping_d patience avg_d_loss st2
             in Inr (st3\<lparr>gan_log := gan_log st3 @
                          [GanRow (epoch + 1) avg_g_loss avg_reconstruction_loss avg_d_loss
                             discriminator_accuracy]\<rparr>)))"

text \<open>The loop \<^verbatim>\<open>for epoch in range(epochs)\<close> with its \<^verbatim>\<open>break\<close> of lines 124 to 126.\<close>

fun gan_epochs ::
  "('p, 'i) torch_env \<Rightarrow> real \<Rightarrow> real \<Rightarrow> nat \<Rightarrow> batch list \<Rightarrow> nat list \<Rightarrow> 'p gan_state
     \<Rightarrow> py_error + 'p gan_state" where
  "gan_epochs env lambda_gp lambda_rec patience data_loader [] st = Inr st"
| "gan_epochs env lambda_gp lambda_rec patience data_loader (epoch # rest) st =
     (if stop_training_g st \<and> stop_training_d st then Inr st
      else
        (case gan_epoch env lambda_gp lambda_rec patience data_loader epoch st of
           Inl e \<Rightarrow> Inl e
         | Inr st' \<Rightarrow> gan_epochs env lambda_gp lambda_rec patience data_loader rest st'))"

definition gan_initial :: "'p nets \<Rightarrow> nat \<Rightarrow> 'p gan_state" where
  "gan_initial nets rng =
     \<lparr>g_nets = nets, g_rng = rng, steps_g = 0, steps_d = 0,
      best_g_loss = None, best_d_loss = None,
      g_epochs_without_improvement = 0, d_epochs_without_improvement = 0,
      stop_training_g = False, stop_training_d = False,
      total_g_loss = 0, total_d_loss = 0, total_reconstruction_loss = 0,
      correct_real = 0, correct_fake = 0, total_real = 0, total_fake = 0,
      gan_log = [Header [''epoch'', ''generator_loss'', ''reconstruction_loss'',
                         ''discriminator_loss'', ''discriminator_accuracy'']],
      saved_g = [], saved_d = []\<rparr>"

definition train_gan ::
  "('p, 'i) torch_env \<Rightarrow> 'p nets \<Rightarrow> nat \<Rightarrow> batch list \<Rightarrow> nat \<Rightarrow> real \<Rightarrow> real \<Rightarrow> nat
     \<Rightarrow> py_error + 'p gan_state" where
  "train_gan env nets rng data_loader epochs lambda_gp lambda_rec patience =
     gan_epochs env lambda_gp lambda_rec patience data_loader [0..<epochs] (gan_initial nets rng)"

text \<open>
  Three views of a pretraining state, used to state what a batch leaves alone: the
  early-stopping variables with the files; what the generator's optimizer step changes;
  what the critic's optimizer step changes. \<open>generator_losses\<close> and
  \<open>discriminator_losses\<close> read a loss column of the metrics file.
\<close>

definition gan_control :: "'p gan_state \<Rightarrow> (real option \<times> real option \<times> nat \<times> nat \<times> bool \<times> bool \<times> csv_row list \<times> 'p list \<times> 'p list)" where
  "gan_control st = (best_g_loss st, best_d_loss st, g_epochs_without_improvement st,
     d_epochs_without_improvement st, stop_training_g st, stop_training_d st, gan_log st,
     saved_g st, saved_d st)"

definition gan_frozen_g :: "'p gan_state \<Rightarrow> nat \<times> 'p \<times> 'p" where
  "gan_frozen_g st = (steps_g st, generator_sd (g_nets st), optimizer_g_sd (g_nets st))"

definition gan_frozen_d :: "'p gan_state \<Rightarrow> nat \<times> 'p \<times> 'p" where
  "gan_frozen_d st = (steps_d st, discriminator_sd (g_nets st), optimizer_d_sd (g_nets st))"

definition generator_losses :: "csv_row list \<Rightarrow> real list" where
  "generator_losses rows = List.map_filter row_generator_loss rows"

definition discriminator_losses :: "csv_row list \<Rightarrow> real list" where
  "discriminator_losses rows = List.map_filter row_discriminator_loss rows"

fun is_gan_row :: "csv_row \<Rightarrow> bool" where
  "is_gan_row (Header names) = False"
| "is_gan_row (GanRow epoch g rec d acc) = True"
| "is_gan_row (CombinedRow epoch g d c tr_acc tr_f1 va_acc va_f1 te_acc te_f1) = False"

section \<open>train\_combined\_cgan\<close>

text \<open>
  What \<^verbatim>\<open>torch.save\<close> writes to \<^verbatim>\<open>best_model.pth\<close> at lines 596 to 606: the six state
  dicts, the epoch index and the two accuracies.
\<close>

record 'p checkpoint =
  ck_nets :: "'p nets"
  ck_epoch :: nat
  ck_val_accuracy :: real
  ck_test_accuracy :: real

text \<open>
  The state of a combined run: networks, draws and optimizer steps made, the two
  early-stopping variables of lines 310 and 311, the per-epoch accumulators of lines 367
  to 372, the metrics file and the history of writes to the checkpoint path. The
  in-memory \<^verbatim>\<open>metrics\<close> dictionary and its backup at line 618 repeat the rows of the file
  and are left out.
\<close>

record 'p cgan_state =
  c_nets :: "'p nets"
  c_rng :: nat
  c_steps_g :: nat
  c_steps_d :: nat
  c_steps_c :: nat
  best_accuracy :: real
  epochs_without_improvement :: nat
  c_total_g_loss :: real
  c_total_d_loss :: real
  c_total_c_loss :: real
  correct_train :: nat
  total_train :: nat
  total_f1_train :: real
  c_log :: "csv_row list"
  saved_models :: "'p checkpoint list"

text \<open>
  The critic's sampling loop, lines 400 to 405: every iteration rebinds
  \<^verbatim>\<open>generated_layouts\<close> and appends the critic's score of it.
\<close>

fun critic_draws ::
  "('p, 'i) torch_env \<Rightarrow> 'p nets \<Rightarrow> layout list \<Rightarrow> adjm list \<Rightarrow> nat list \<Rightarrow> nat \<Rightarrow> nat
     \<Rightarrow> (layout list \<times> real list) list" where
  "critic_draws env nets graph_layouts adj_matrices num_nodes 0 rng = []"
| "critic_draws env nets graph_layouts adj_matrices num_nodes (Suc k) rng =
     (let z = randn env rng (length graph_layouts);
          generated_layouts =
            generator env Train (generator_sd nets) z graph_layouts adj_matrices num_nodes;
          fv = discriminator env (discriminator_sd nets) generated_layouts adj_matrices
      in (generated_layouts, fv)
           # critic_draws env nets graph_layouts adj_matrices num_nodes k (Suc rng))"

text \<open>
  \<^verbatim>\<open>torch.stack(fake_validities, dim=0).mean(dim=0)\<close>: stacking raises on an empty list and
  on tensors of different sizes.
\<close>

definition stack_mean :: "real list list \<Rightarrow> py_error + real list" where
  "stack_mean ts =
     (case ts of
        [] \<Rightarrow> Inl RuntimeError
      | t # rest \<Rightarrow>
          if list_all (\<lambda>u. length u = length t) rest
            then Inr (map (\<lambda>i. mean_t (map (\<lambda>u. u ! i) ts)) [0..<length t])
          else Inl RuntimeError)"

text \<open>
  The generator's sampling loop, lines 431 to 455, one triple of adversarial loss,
  classifier loss and classifier outputs per iteration. \<open>generated_layouts\<close> is the variable
  as the critic's loop left it: the rendering loop of line 442 iterates over it, while the
  layout generated at line 433 is bound to \<^verbatim>\<open>gen_layouts\<close>.
\<close>

fun generator_draws ::
  "('p, 'i) torch_env \<Rightarrow> 'p nets \<Rightarrow> layout list \<Rightarrow> adjm list \<Rightarrow> int list \<Rightarrow> nat list \<Rightarrow> layout list
     \<Rightarrow> nat \<Rightarrow> nat \<Rightarrow> py_error + (real \<times> real \<times> logits) list" where
  "generator_draws env nets graph_layouts adj_matrices labels num_nodes generated_layouts 0 rng =
     Inr []"
| "generator_draws env nets graph_layouts adj_matrices labels num_nodes generated_layouts (Suc k) rng =
     (let z = randn env rng (length graph_layouts);
          gen_layouts =
            generator env Train (generator_sd nets) z graph_layouts adj_matrices num_nodes;
          f_validity = discriminator env (discriminator_sd nets) gen_layouts adj_matrices;
          adv_loss = - mean_t f_validity
      in case render_images env generated_layouts adj_matrices num_nodes of
           Inl e \<Rightarrow> Inl e
         | Inr images \<Rightarrow>
             (let outputs = classifier env Train (classifier_sd nets) images;
                  c_loss = criterion env outputs labels
              in case generator_draws env nets graph_layouts adj_matrices labels num_nodes
                        generated_layouts k (Suc rng) of
                   Inl e \<Rightarrow> Inl e
                 | Inr rest \<Rightarrow> Inr ((adv_loss, c_loss, outputs) # rest)))"

text \<open>
  The same loop as the specification words it (4.5 b): every draw renders and classifies
  the layout generated from that draw.
\<close>

fun fresh_generator_draws ::
  "('p, 'i) torch_env \<Rightarrow> 'p nets \<Rightarrow> layout list \<Rightarrow> adjm list \<Rightarrow> int list \<Rightarrow> nat list
     \<Rightarrow> nat \<Rightarrow> nat \<Rightarrow> py_error + (real \<times> real \<times> logits) list" where
  "fresh_generator_draws env nets graph_layouts adj_matrices labels num_nodes 0 rng = Inr []"
| "fresh_generator_draws env nets graph_layouts adj_matrices labels num_nodes (Suc k) rng =
     (let z = randn env rng (length graph_layouts);
          gen_layouts =
            generator env Train (generator_sd nets) z graph_layouts adj_matrices num_nodes;
          f_validity = discriminator env (discriminator_sd nets) gen_layouts adj_matrices;
          adv_loss = - mean_t f_validity
      in case render_images env gen_layouts adj_matrices num_nodes of
           Inl e \<Rightarrow> Inl e
         | Inr images \<Rightarrow>
             (let outputs = classifier env Train (classifier_sd nets) images;
                  c_loss = criterion env outputs labels
              in case fresh_generator_draws env nets graph_layouts adj_matrices labels num_nodes
                        k (Suc rng) of
                   Inl e \<Rightarrow> Inl e
                 | Inr rest \<Rightarrow> Inr ((adv_loss, c_loss, outputs) # rest)))"

text \<open>
  The critic step of one batch, lines 396 to 424: the state after it and the value of
  \<^verbatim>\<open>generated_layouts\<close>.
\<close>

definition cgan_critic_step ::
  "('p, 'i) torch_env \<Rightarrow> real \<Rightarrow> nat \<Rightarrow> batch \<Rightarrow> nat list \<Rightarrow> 'p cgan_state
     \<Rightarrow> py_error + ('p cgan_state \<times> layout list)" where
  "cgan_critic_step env lambda_gp num_z_samples b num_nodes st =
     (case b of (graph_layouts, adj_matrices, labels) \<Rightarrow>
        (let real_validity =
               discriminator env (discriminator_sd (c_nets st)) graph_layouts adj_matrices;
             draws = critic_draws env (c_nets st) graph_layouts adj_matrices num_nodes
                       num_z_samples (c_rng st);
             rng1 = c_rng st + num_z_samples
         in case stack_mean (map snd draws) of
              Inl e \<Rightarrow> Inl e
            | Inr fake_validity \<Rightarrow>
                (let generated_layouts = fst (last draws);
                     discriminator_loss = wasserstein_loss env real_validity fake_validity
                 in case compute_gradient_penalty
                           (discriminator_grad env (discriminator_sd (c_nets st)))
                           (rand_samples env rng1) (rand_adj env (Suc rng1))
                           graph_layouts generated_layouts adj_matrices adj_matrices lambda_gp of
                      Inl e \<Rightarrow> Inl e
                    | Inr gp \<Rightarrow>
                        (let d_loss = discriminator_loss + gp;
                             upd = optimizer_step env Discriminator (c_nets st) (c_nets st) b
                                     (c_rng st)
                         in Inr (st\<lparr>c_nets := (c_nets st)\<lparr>discriminator_sd := fst upd,
                                                            optimizer_d_sd := snd upd\<rparr>,
                                    c_rng := rng1 + 2,
                                    c_steps_d := Suc (c_steps_d st),
                                    c_total_d_loss := c_total_d_loss st + d_loss\<rparr>,
                                 generated_layouts)))))"

text \<open>
  The generator and classifier steps and the bookkeeping, lines 428 to 519. \<open>nets0\<close> and
  \<open>rng0\<close> are the networks and the draw count at the start of the batch. The loop has run
  at least once here (an empty \<^verbatim>\<open>fake_validities\<close> has raised before), so \<^verbatim>\<open>outputs\<close> is
  bound by its last iteration.
\<close>

definition cgan_generator_step ::
  "('p, 'i) torch_env \<Rightarrow> real \<Rightarrow> nat \<Rightarrow> batch \<Rightarrow> nat list \<Rightarrow> 'p nets \<Rightarrow> nat \<Rightarrow> layout list
     \<Rightarrow> 'p cgan_state \<Rightarrow> py_error + 'p cgan_state" where
  "cgan_generator_step env alpha num_z_samples b num_nodes nets0 rng0 generated_layouts st =
     (case b of (graph_layouts, adj_matrices, labels) \<Rightarrow>
        (case generator_draws env (c_nets st) graph_layouts adj_matrices labels num_nodes
                generated_layouts num_z_samples (c_rng st) of
           Inl e \<Rightarrow> Inl e
         | Inr draws \<Rightarrow>
             (let mean_adv_loss = mean_t (map fst draws);
                  mean_clf_loss = mean_t (map (\<lambda>d. fst (snd d)) draws);
                  g_loss = mean_adv_loss + alpha * mean_clf_loss;
                  upd_g = optimizer_step env Generator nets0 (c_nets st) b rng0;
                  nets1 = (c_nets st)\<lparr>generator_sd := fst upd_g, optimizer_g_sd := snd upd_g\<rparr>;
                  c_loss = mean_clf_loss;
                  upd_c = optimizer_step env Classifier nets0 nets1 b rng0;
                  nets2 = nets1\<lparr>classifier_sd := fst upd_c, optimizer_c_sd := snd upd_c\<rparr>;
                  outputs = snd (snd (last draws));
                  predicted_train = map argmax2 outputs
              in case count_equal predicted_train labels of
                   Inl e \<Rightarrow> Inl e
                 | Inr c \<Rightarrow>
                     (case calculate_f1 predicted_train labels of
                        Inl e \<Rightarrow> Inl e
                      | Inr (precision, recall, f1_score) \<Rightarrow>
                          Inr (st\<lparr>c_nets := nets2,
                                  c_rng := c_rng st + num_z_samples,
                                  c_steps_g := Suc (c_steps_g st),
                                  c_steps_c := Suc (c_steps_c st),
                                  c_total_g_loss := c_total_g_loss st + g_loss,
                                  c_total_c_loss := c_total_c_loss st + c_loss,
                                  correct_train := correct_train st + c,
                                  total_train := total_train st + length labels,
                                  total_f1_train := total_f1_train st + f1_score\<rparr>)))))"

text \<open>
  One iteration of the batch loop, lines 375 to 519 (the images of lines 526 to 539 are
  left out): \<open>cgan_batch_body\<close> is the iteration given \<^verbatim>\<open>num_nodes\<close>, \<open>cgan_batch\<close>
  derives it first (lines 384 to 387).
\<close>

definition cgan_batch_body ::
  "('p, 'i) torch_env \<Rightarrow> real \<Rightarrow> real \<Rightarrow> nat \<Rightarrow> batch \<Rightarrow> nat list \<Rightarrow> 'p cgan_state
     \<Rightarrow> py_error + 'p cgan_state" where
  "cgan_batch_body env lambda_gp alpha num_z_samples b num_nodes st =
     (case cgan_critic_step env lambda_gp num_z_samples b num_nodes st of
        Inl e \<Rightarrow> Inl e
      | Inr (st1, generated_layouts) \<Rightarrow>
          cgan_generator_step env alpha num_z_samples b num_nodes (c_nets st) (c_rng st)
            generated_layouts st1)"

definition cgan_batch ::
  "('p, 'i) torch_env \<Rightarrow> real \<Rightarrow> real \<Rightarrow> nat \<Rightarrow> batch \<Rightarrow> 'p cgan_state \<Rightarrow> py_error + 'p cgan_state" where
  "cgan_batch env lambda_gp alpha num_z_samples b st =
     cgan_batch_body env lambda_gp alpha num_z_samples b (derive_num_nodes (fst b)) st"

fun cgan_batches ::
  "('p, 'i) torch_env \<Rightarrow> real \<Rightarrow> real \<Rightarrow> nat \<Rightarrow> batch list \<Rightarrow> 'p cgan_state \<Rightarrow> py_error + 'p cgan_state" where
  "cgan_batches env lambda_gp alpha num_z_samples [] st = Inr st"
| "cgan_batches env lambda_gp alpha num_z_samples (b # bs) st =
     (case cgan_batch env lambda_gp alpha num_z_samples b st of
        Inl e \<Rightarrow> Inl e
      | Inr st' \<Rightarrow> cgan_batches env lambda_gp alpha num_z_samples bs st')"

text \<open>
  Lines 590 to 610: the checkpoint and the shared counter, from the epoch's validation and
  test accuracy.
\<close>

definition check_improvement :: "nat \<Rightarrow> real \<Rightarrow> real \<Rightarrow> 'p cgan_state \<Rightarrow> 'p cgan_state" where
  "check_improvement epoch val_accuracy test_accuracy st =
     (if val_accuracy > best_accuracy st
        then st\<lparr>best_accuracy := val_accuracy,
                epochs_without_improvement := 0,
                saved_models := saved_models st @
                  [\<lparr>ck_nets = c_nets st, ck_epoch = epoch, ck_val_accuracy = val_accuracy,
                    ck_test_accuracy = test_accuracy\<rparr>]\<rparr>
      else st\<lparr>epochs_without_improvement := epochs_without_improvement st + 1\<rparr>)"

text \<open>
  The body of the epoch loop up to the early-stopping test, lines 362 to 610. Both calls of
  \<^verbatim>\<open>evaluate_model\<close> leave \<^verbatim>\<open>num_z_samples\<close> at its default 5.
\<close>

definition cgan_epoch ::
  "('p, 'i) torch_env \<Rightarrow> real \<Rightarrow> real \<Rightarrow> nat \<Rightarrow> batch list \<Rightarrow> batch list \<Rightarrow> batch list \<Rightarrow> nat
     \<Rightarrow> 'p cgan_state \<Rightarrow> py_error + 'p cgan_state" where
  "cgan_epoch env lambda_gp alpha num_z_samples train_loader val_loader test_loader epoch st =
     (case cgan_batches env lambda_gp alpha num_z_samples train_loader
             (st\<lparr>c_total_g_loss := 0, c_total_d_loss := 0, c_total_c_loss := 0,
                 correct_train := 0, total_train := 0, total_f1_train := 0\<rparr>) of
        Inl e \<Rightarrow> Inl e
      | Inr st1 \<Rightarrow>
          if total_train st1 = 0 then Inl ZeroDivisionError
          else if length train_loader = 0 then Inl ZeroDivisionError
          else
            (let train_accuracy = 100 * real (correct_train st1) / real (total_train st1);
                 avg_f1_train = total_f1_train st1 / real (length train_loader)
             in case evaluate_model env (c_nets st1) val_loader 5 (c_rng st1) of
                  Inl e \<Rightarrow> Inl e
                | Inr ((val_accuracy, val_f1), rng1) \<Rightarrow>
                    (case evaluate_model env (c_nets st1) test_loader 5 rng1 of
                       Inl e \<Rightarrow> Inl e
                     | Inr ((test_accuracy, test_f1), rng2) \<Rightarrow>
                         (let avg_g_loss = c_total_g_loss st1 / real (length train_loader);
                              avg_d_loss = c_total_d_loss st1 / real (length train_loader);
                              avg_c_loss = c_total_c_loss st1 / real (length train_loader);
                              nets1 = (c_nets st1)
                                \<lparr>optimizer_g_sd :=
                                   scheduler_step env Generator (optimizer_g_sd (c_nets st1)),
                                 optimizer_d_sd :=
                                   scheduler_step env Discriminator (optimizer_d_sd (c_nets st1)),
                                 optimizer_c_sd :=
                                   scheduler_step env Classifier (optimizer_c_sd (c_nets st1))\<rparr>;
                              st2 = st1\<lparr>c_nets := nets1, c_rng := rng2,
                                        c_log := c_log st1 @
                                          [CombinedRow (epoch + 1) (Some avg_g_loss)
                                             (Some avg_d_loss) (Some avg_c_loss) train_accuracy
                                             avg_f1_train val_accuracy val_f1 test_accuracy
                                             test_f1]\<rparr>
                          in Inr (check_improvement epoch val_accuracy test_accuracy st2)))))"

text \<open>The loop \<^verbatim>\<open>for epoch in range(epochs)\<close> with the \<^verbatim>\<open>break\<close> of lines 613 to 615.\<close>

fun cgan_epochs ::
  "('p, 'i) torch_env \<Rightarrow> real \<Rightarrow> real \<Rightarrow> nat \<Rightarrow> nat \<Rightarrow> batch list \<Rightarrow> batch list \<Rightarrow> batch list
     \<Rightarrow> nat list \<Rightarrow> 'p cgan_state \<Rightarrow> py_error + 'p cgan_state" where
  "cgan_epochs env lambda_gp alpha num_z_samples patience train_loader val_loader test_loader
       [] st = Inr st"
| "cgan_epochs env lambda_gp alpha num_z_samples patience train_loader val_loader test_loader
       (epoch # rest) st =
     (case cgan_epoch env lambda_gp alpha num_z_samples train_loader val_loader test_loader
             epoch st of
        Inl e \<Rightarrow> Inl e
      | Inr st' \<Rightarrow>
          if patience \<le> epochs_without_improvement st' then Inr st'
          else cgan_epochs env lambda_gp alpha num_z_samples patience train_loader val_loader
                 test_loader rest st')"

text \<open>
  Lines 304 to 358: the header, the three evaluations of the untrained model and the
  epoch-0 row; then the epoch loop.
\<close>

definition cgan_initial :: "'p nets \<Rightarrow> nat \<Rightarrow> csv_row \<Rightarrow> 'p cgan_state" where
  "cgan_initial nets rng baseline =
     \<lparr>c_nets = nets, c_rng = rng, c_steps_g = 0, c_steps_d = 0, c_steps_c = 0,
      best_accuracy = 0, epochs_without_improvement = 0,
      c_total_g_loss = 0, c_total_d_loss = 0, c_total_c_loss = 0,
      correct_train = 0, total_train = 0, total_f1_train = 0,
      c_log =
        [Header [''epoch'', ''generator_loss'', ''discriminator_loss'', ''classifier_loss'',
                 ''train_accuracy'', ''train_f1'', ''val_accuracy'', ''val_f1'',
                 ''test_accuracy'', ''test_f1''],
         baseline],
      saved_models = []\<rparr>"

definition train_combined_cgan ::
  "('p, 'i) torch_env \<Rightarrow> 'p nets \<Rightarrow> nat \<Rightarrow> batch list \<Rightarrow> batch list \<Rightarrow> batch list \<Rightarrow> nat \<Rightarrow> nat
     \<Rightarrow> real \<Rightarrow> real \<Rightarrow> nat \<Rightarrow> py_error + 'p cgan_state" where
  "train_combined_cgan env nets rng train_loader val_loader test_loader epochs patience
       lambda_gp alpha num_z_samples =
     (case evaluate_model env nets train_loader 5 rng of
        Inl e \<Rightarrow> Inl e
      | Inr ((train_accuracy, train_f1), rng1) \<Rightarrow>
          (case evaluate_model env nets val_loader 5 rng1 of
             Inl e \<Rightarrow> Inl e
           | Inr ((val_accuracy, val_f1), rng2) \<Rightarrow>
               (case evaluate_model env nets test_loader 5 rng2 of
                  Inl e \<Rightarrow> Inl e
                | Inr ((test_accuracy, test_f1), rng3) \<Rightarrow>
                    cgan_epochs env lambda_gp alpha num_z_samples patience train_loader
                      val_loader test_loader [0..<epochs]
                      (cgan_initial nets rng3
                         (CombinedRow 0 None None None train_accuracy train_f1 val_accuracy
                            val_f1 test_accuracy test_f1)))))"

text \<open>
  The checkpoint gate as the specification words it, read off the metrics file: the best
  validation accuracy so far, the counter of epochs without improvement, and for every
  checkpoint written its epoch index and its two accuracies. The row of epoch index
  \<open>e\<close> carries \<open>e + 1\<close> in its first column. A row whose validation accuracy strictly
  exceeds the best so far writes a checkpoint and resets the counter; any other epoch row
  adds 1 to the counter.
\<close>

type_synonym gate = "real \<times> nat \<times> (nat \<times> real \<times> real) list"

definition gate_of :: "'p cgan_state \<Rightarrow> gate" where
  "gate_of st =
     (best_accuracy st, epochs_without_improvement st,
      map (\<lambda>ck. (ck_epoch ck, ck_val_accuracy ck, ck_test_accuracy ck)) (saved_models st))"

fun gate_row :: "gate \<Rightarrow> csv_row \<Rightarrow> gate" where
  "gate_row (best, counter, saved)
       (CombinedRow epoch g d c tr_acc tr_f1 va_acc va_f1 te_acc te_f1) =
     (if va_acc > best then (va_acc, 0, saved @ [(epoch - 1, va_acc, te_acc)])
      else (best, counter + 1, saved))"
| "gate_row s (Header names) = s"
| "gate_row s (GanRow epoch g rec d acc) = s"

definition replay_gate :: "gate \<Rightarrow> csv_row list \<Rightarrow> gate" where
  "replay_gate s rows = foldl gate_row s rows"

definition gate_counter :: "gate \<Rightarrow> nat" where
  "gate_counter s = fst (snd s)"

section \<open>A small concrete instance\<close>

text \<open>
  Networks over state dicts that are plain counters, used to run the definitions above on
  concrete inputs: the generator shifts every coordinate by the first entry of the noise,
  the critic scores every graph with minus its counter, an image is the sum of the
  rendered coordinates, the classifier's logits are \<open>(0, image)\<close>, the criterion sums the
  second logits, an optimizer step increments the counter of its network, and the \<open>k\<close>-th
  noise draw is the number \<open>k\<close>.
\<close>

definition demo_env :: "(nat, real) torch_env" where
  "demo_env =
     \<lparr>generator = (\<lambda>m p z graph_layouts adj_matrices num_nodes.
                     map (map (map (\<lambda>x. x + hd (hd z)))) graph_layouts),
      discriminator = (\<lambda>p x a. map (\<lambda>g. - real p) x),
      discriminator_grad = (\<lambda>p x a. (map (map (map (\<lambda>v. 0))) x, a)),
      classifier = (\<lambda>m p images. map (\<lambda>i. (0, i)) images),
      visualize_graph_layout = (\<lambda>l a. sum_list (concat l)),
      criterion = (\<lambda>outputs labels. sum_list (map snd outputs)),
      wasserstein_loss = (\<lambda>r f. - sum_list r),
      randn = (\<lambda>k b. [[real k]]),
      rand_samples = (\<lambda>k b. 1 / 2),
      rand_adj = (\<lambda>k b i j. 1 / 2),
      optimizer_step = (\<lambda>which nets0 nets b k.
                          case which of
                            Generator \<Rightarrow> (Suc (generator_sd nets), Suc (optimizer_g_sd nets))
                          | Discriminator \<Rightarrow> (Suc (discriminator_sd nets), Suc (optimizer_d_sd nets))
                          | Classifier \<Rightarrow> (Suc (classifier_sd nets), Suc (optimizer_c_sd nets))),
      scheduler_step = (\<lambda>which p. p)\<rparr>"

definition demo_nets :: "nat nets" where
  "demo_nets =
     \<lparr>generator_sd = 0, discriminator_sd = 0, classifier_sd = 0,
      optimizer_g_sd = 0, optimizer_d_sd = 0, optimizer_c_sd = 0\<rparr>"

text \<open>One graph with one node at \<open>(1, 0)\<close>, a self-loop, and label 1.\<close>

definition demo_batch :: batch where
  "demo_batch = ([[[1, 0]]], [[[1]]], [1])"

text \<open>
  The F1 of one correct positive prediction, and the states of a combined run on the
  loaders \<open>[demo_batch]\<close> with \<^verbatim>\<open>lambda_gp = 5\<close>, \<^verbatim>\<open>alpha = 30\<close> and
  \<^verbatim>\<open>num_z_samples = 2\<close>: after the three evaluations of the untrained model (15 draws),
  after one epoch and after two.
\<close>

definition demo_f1 :: real where
  "demo_f1 = snd (snd (f1_from_counts 1 0 0))"

definition demo_cgan_state :: "nat cgan_state" where
  "demo_cgan_state =
     cgan_initial demo_nets 15
       (CombinedRow 0 None None None 100 demo_f1 100 demo_f1 100 demo_f1)"

definition demo_cgan_epoch1 :: "nat cgan_state" where
  "demo_cgan_epoch1 =
     \<lparr>c_nets = \<lparr>generator_sd = 1, discriminator_sd = 1, classifier_sd = 1,
                optimizer_g_sd = 1, optimizer_d_sd = 1, optimizer_c_sd = 1\<rparr>,
      c_rng = 31, c_steps_g = 1, c_steps_d = 1, c_steps_c = 1,
      best_accuracy = 100, epochs_without_improvement = 0,
      c_total_g_loss = 991, c_total_d_loss = 5, c_total_c_loss = 33,
      correct_train = 1, total_train = 1, total_f1_train = demo_f1,
      c_log = c_log demo_cgan_state @
        [CombinedRow 1 (Some 991) (Some 5) (Some 33) 100 demo_f1 100 demo_f1 100 demo_f1],
      saved_models =
        [\<lparr>ck_nets = \<lparr>generator_sd = 1, discriminator_sd = 1, classifier_sd = 1,
                       optimizer_g_sd = 1, optimizer_d_sd = 1, optimizer_c_sd = 1\<rparr>,
          ck_epoch = 0, ck_val_accuracy = 100, ck_test_accuracy = 100\<rparr>]\<rparr>"

definition demo_cgan_epoch2 :: "nat cgan_state" where
  "demo_cgan_epoch2 =
     \<lparr>c_nets = \<lparr>generator_sd = 2, discriminator_sd = 2, classifier_sd = 2,
                optimizer_g_sd = 2, optimizer_d_sd = 2, optimizer_c_sd = 2\<rparr>,
      c_rng = 47, c_steps_g = 2, c_steps_d = 2, c_steps_c = 2,
      best_accuracy = 100, epochs_without_improvement = 1,
      c_total_g_loss = 1952, c_total_d_loss = 6, c_total_c_loss = 65,
      correct_train = 1, total_train = 1, total_f1_train = demo_f1,
      c_log = c_log demo_cgan_epoch1 @
        [CombinedRow 2 (Some 1952) (Some 6) (Some 65) 100 demo_f1 100 demo_f1 100 demo_f1],
      saved_models = saved_models demo_cgan_epoch1\<rparr>"

text \<open>
  The same graph with label 0, which the concrete classifier gets wrong, and the states
  after the first epoch from \<open>demo_cgan_state\<close> when this batch is the test loader (the
  validation accuracy is 100, the test accuracy 0) and when it is the validation loader
  (the validation accuracy is 0, the test accuracy 100).
\<close>

definition demo_batch_neg :: batch where
  "demo_batch_neg = ([[[1, 0]]], [[[1]]], [0])"

definition demo_ckpt_saved :: "nat cgan_state" where
  "demo_ckpt_saved =
     \<lparr>c_nets = \<lparr>generator_sd = 1, discriminator_sd = 1, classifier_sd = 1,
                optimizer_g_sd = 1, optimizer_d_sd = 1, optimizer_c_sd = 1\<rparr>,
      c_rng = 31, c_steps_g = 1, c_steps_d = 1, c_steps_c = 1,
      best_accuracy = 100, epochs_without_improvement = 0,
      c_total_g_loss = 991, c_total_d_loss = 5, c_total_c_loss = 33,
      correct_train = 1, total_train = 1, total_f1_train = demo_f1,
      c_log = c_log demo_cgan_state @
        [CombinedRow 1 (Some 991) (Some 5) (Some 33) 100 demo_f1 100 demo_f1 0 0],
      saved_models =
        [\<lparr>ck_nets = \<lparr>generator_sd = 1, discriminator_sd = 1, classifier_sd = 1,
                       optimizer_g_sd = 1, optimizer_d_sd = 1, optimizer_c_sd = 1\<rparr>,
          ck_epoch = 0, ck_val_accuracy = 100, ck_test_accuracy = 0\<rparr>]\<rparr>"

definition demo_ckpt_skipped :: "nat cgan_state" where
  "demo_ckpt_skipped =
     \<lparr>c_nets = \<lparr>generator_sd = 1, discriminator_sd = 1, classifier_sd = 1,
                optimizer_g_sd = 1, optimizer_d_sd = 1, optimizer_c_sd = 1\<rparr>,
      c_rng = 31, c_steps_g = 1, c_steps_d = 1, c_steps_c = 1,
      best_accuracy = 0, epochs_without_improvement = 1,
      c_total_g_loss = 991, c_total_d_loss = 5, c_total_c_loss = 33,
      correct_train = 1, total_train = 1, total_f1_train = demo_f1,
      c_log = c_log demo_cgan_state @
        [CombinedRow 1 (Some 991) (Some 5) (Some 33) 100 demo_f1 0 0 100 demo_f1],
      saved_models = []\<rparr>"

text \<open>
  The pretraining states after one and after two epochs of the concrete instance, on the
  loader \<open>[demo_batch]\<close> with \<^verbatim>\<open>lambda_gp = 1\<close>, \<^verbatim>\<open>lambda_rec = 100\<close> and
  \<^verbatim>\<open>patience = 1\<close>.
\<close>

definition demo_gan_epoch1 :: "nat gan_state" where
  "demo_gan_epoch1 =
     \<lparr>g_nets = \<lparr>generator_sd = 1, discriminator_sd = 1, classifier_sd = 0,
                optimizer_g_sd = 1, optimizer_d_sd = 1, optimizer_c_sd = 0\<rparr>,
      g_rng = 3, steps_g = 1, steps_d = 1,
      best_g_loss = Some 1, best_d_loss = Some 1,
      g_epochs_without_improvement = 0, d_epochs_without_improvement = 0,
      stop_training_g = False, stop_training_d = False,
      total_g_loss = 1, total_d_loss = 1, total_reconstruction_loss = 0,
      correct_real = 0, correct_fake = 1, total_real = 1, total_fake = 1,
      gan_log = [Header [''epoch'', ''generator_loss'', ''reconstruction_loss'',
                         ''discriminator_loss'', ''discriminator_accuracy''],
                 GanRow 1 1 0 1 50],
      saved_g = [1], saved_d = [1]\<rparr>"

definition demo_gan_epoch2 :: "nat gan_state" where
  "demo_gan_epoch2 =
     \<lparr>g_nets = \<lparr>generator_sd = 2, discriminator_sd = 2, classifier_sd = 0,
                optimizer_g_sd = 2, optimizer_d_sd = 2, optimizer_c_sd = 0\<rparr>,
      g_rng = 6, steps_g = 2, steps_d = 2,
      best_g_loss = Some 1, best_d_loss = Some 1,
      g_epochs_without_improvement = 1, d_epochs_without_improvement = 1,
      stop_training_g = True, stop_training_d = True,
      total_g_loss = 902, total_d_loss = 2, total_reconstruction_loss = 9,
      correct_real = 0, correct_fake = 1, total_real = 1, total_fake = 1,
      gan_log = [Header [''epoch'', ''generator_loss'', ''reconstruction_loss'',
                         ''discriminator_loss'', ''discriminator_accuracy''],
                 GanRow 1 1 0 1 50, GanRow 2 902 9 2 50],
      saved_g = [1], saved_d = [1]\<rparr>"

section \<open>Properties of calculate\_f1\<close>

lemma sum_products_count:
  assumes "length ps = length ls" "binary ps" "binary ls"
  shows "sum_list (map (\<lambda>(x, y). x * y) (zip ps ls)) = int (count_pairs 1 1 ps ls)"
    and "sum_list (map (\<lambda>(x, y). x * y) (zip ps (map (\<lambda>l. 1 - l) ls))) = int (count_pairs 1 0 ps ls)"
    and "sum_list (map (\<lambda>(x, y). x * y) (zip (map (\<lambda>p. 1 - p) ps) ls)) = int (count_pairs 0 1 ps ls)"
    and "sum_list (map (\<lambda>(x, y). x * y) (zip (map (\<lambda>p. 1 - p) ps) (map (\<lambda>l. 1 - l) ls))) = int (count_pairs 0 0 ps ls)"
  using assms
  by (induction ps ls rule: list_induct2) (auto simp: count_pairs_def binary_def)

lemma calculate_f1_counts:
  assumes "length ps = length ls" "binary ps" "binary ls"
  shows "calculate_f1 ps ls =
           Inr (f1_from_counts (real (count_pairs 1 1 ps ls)) (real (count_pairs 1 0 ps ls))
                  (real (count_pairs 0 1 ps ls)))"
  using assms
  by (simp add: calculate_f1_def tensor_mul_def broadcast_zip_def sum_products_count Let_def)

lemma f1_from_counts_zero: "f1_from_counts 0 fp fn = (0, 0, 0)"
  by (simp add: f1_from_counts_def)

lemma f1_perfect_bounds:
  fixes n :: real
  assumes "1 \<le> n"
  shows "1 - 2 * eps < snd (snd (f1_from_counts n 0 0))" "snd (snd (f1_from_counts n 0 0)) < 1"
proof -
  define P where "P = n / (n + eps)"
  have e: "0 < eps" "eps < 1 / 4" by (simp_all add: eps_def)
  have P1: "P < 1" using assms e by (simp add: P_def)
  have "n / (n + eps) \<ge> 1 / 2" using assms e by (simp add: field_simps)
  then have Ph: "1 / 2 \<le> P" by (simp add: P_def)
  have "1 - P = eps / (n + eps)" using assms e by (simp add: P_def field_simps)
  also have "\<dots> < eps"
  proof -
    have "eps * 1 < eps * (n + eps)" using assms e by (intro mult_strict_left_mono) simp_all
    then show ?thesis using assms e by (simp add: pos_divide_less_eq)
  qed
  finally have Pd: "1 - P < eps" .
  have F: "snd (snd (f1_from_counts n 0 0)) = 2 * (P * P) / (P + P + eps)"
    by (simp add: f1_from_counts_def P_def Let_def)
  have den: "0 < P + P + eps" using Ph e by simp
  have "2 * (P * P) < 1 * (P + P + eps)"
  proof -
    have "P * P \<le> P * 1" using Ph P1 by (intro mult_left_mono) simp_all
    then show ?thesis using e by simp
  qed
  then show "snd (snd (f1_from_counts n 0 0)) < 1"
    unfolding F using den by (simp add: pos_divide_less_eq)
  have "(1 - 2 * eps) * (P + P + eps) < 2 * (P * P)"
  proof -
    define X Y Z where "X = P * P" and "Y = P * eps" and "Z = eps * eps"
    have "P * (1 - P) \<le> P * eps"
      using Pd Ph by (intro mult_left_mono) simp_all
    then have b: "P - X \<le> Y" by (simp add: X_def Y_def algebra_simps)
    have "(1 / 2) * eps \<le> P * eps" using Ph e by (intro mult_right_mono) simp_all
    then have d: "eps \<le> 2 * Y" by (simp add: Y_def)
    have z: "0 < Z" using e by (simp add: Z_def)
    have "(1 - 2 * eps) * (P + P + eps) = 2 * P + eps - 4 * Y - 2 * Z"
      by (simp add: Y_def Z_def algebra_simps)
    also have "\<dots> < 2 * X" using b d z by linarith
    finally show ?thesis by (simp add: X_def)
  qed
  then show "1 - 2 * eps < snd (snd (f1_from_counts n 0 0))"
    unfolding F using den by (simp add: pos_less_divide_eq)
qed

lemma count_pairs_disjoint:
  assumes "\<forall>i < length ps. ps ! i \<noteq> ls ! i" "length ps = length ls"
  shows "count_pairs 1 1 ps ls = 0"
proof -
  have "\<And>p l. (p, l) \<in> set (zip ps ls) \<Longrightarrow> p \<noteq> l"
    using assms by (auto simp: set_zip)
  then show ?thesis by (auto simp: count_pairs_def filter_empty_conv)
qed

lemma count_pairs_same:
  "binary ls \<Longrightarrow>
   count_pairs 1 1 ls ls = count_list ls 1 \<and> count_pairs 1 0 ls ls = 0 \<and> count_pairs 0 1 ls ls = 0"
  by (induction ls) (auto simp: count_pairs_def binary_def)

text \<open>
  Claim C3, as the code has it. For same-shape binary predictions and labels the F1 that
  \<open>calculate_f1\<close> returns is the closed form \<open>2PR/(P+R+\<epsilon>)\<close> over the confusion counts taken
  pair by pair; it is 0 when every prediction is wrong; when predictions and labels are
  identical it is 0 if no label is positive, and otherwise it is 1 up to the \<open>\<epsilon>\<close>
  terms: above \<open>1 - 2\<epsilon>\<close> and at most 1.
\<close>

theorem calculate_f1_closed_form:
  assumes "length preds = length labels" "binary preds" "binary labels"
  shows "f1_value preds labels =
           Some (closed_form_f1 (count_pairs 1 1 preds labels) (count_pairs 1 0 preds labels)
                   (count_pairs 0 1 preds labels))
       \<and> ((\<forall>i < length preds. preds ! i \<noteq> labels ! i) \<longrightarrow> f1_value preds labels = Some 0)
       \<and> (preds = labels \<and> 1 \<notin> set labels \<longrightarrow> f1_value preds labels = Some 0)
       \<and> (preds = labels \<and> 1 \<in> set labels \<longrightarrow>
            (\<exists>f. f1_value preds labels = Some f \<and> 1 - 2 / 10 ^ 8 < f \<and> f \<le> 1))"
proof (intro conjI impI)
  note cf = calculate_f1_counts[OF assms]
  show "f1_value preds labels =
           Some (closed_form_f1 (count_pairs 1 1 preds labels) (count_pairs 1 0 preds labels)
                   (count_pairs 0 1 preds labels))"
    by (simp add: f1_value_def cf f1_from_counts_def closed_form_f1_def eps_def Let_def)
  show "f1_value preds labels = Some 0" if "\<forall>i < length preds. preds ! i \<noteq> labels ! i"
    using count_pairs_disjoint[OF that assms(1)]
    by (simp add: f1_value_def cf f1_from_counts_zero)
  show "f1_value preds labels = Some 0" if "preds = labels \<and> 1 \<notin> set labels"
  proof -
    have "count_pairs 1 1 preds labels = 0"
      using that by (auto simp: count_pairs_def filter_empty_conv dest: set_zip_leftD)
    then show ?thesis by (simp add: f1_value_def cf f1_from_counts_zero)
  qed
  show "\<exists>f. f1_value preds labels = Some f \<and> 1 - 2 / 10 ^ 8 < f \<and> f \<le> 1"
    if h: "preds = labels \<and> 1 \<in> set labels"
  proof -
    from h have eq: "preds = labels" and one: "1 \<in> set labels" by simp_all
    have cp: "count_pairs 1 1 labels labels = count_list labels 1"
      "count_pairs 1 0 labels labels = 0" "count_pairs 0 1 labels labels = 0"
      using count_pairs_same[OF assms(3)] by simp_all
    have "count_list labels 1 \<noteq> 0" using one by (simp add: count_list_0_iff)
    then have n1: "1 \<le> real (count_list labels 1)" by simp
    have "f1_value preds labels = Some (snd (snd (f1_from_counts (real (count_list labels 1)) 0 0)))"
      using cf by (simp add: f1_value_def eq cp split: prod.splits)
    moreover note f1_perfect_bounds[OF n1]
    ultimately show ?thesis by (simp add: eps_def less_imp_le)
  qed
qed

theorem calculate_f1_closed_form_witness:
  "f1_value [1, 0, 1, 1] [1, 1, 0, 1] = Some (closed_form_f1 2 1 1)
   \<and> f1_value [1, 0] [0, 1] = Some 0
   \<and> f1_value [0, 0] [0, 0] = Some 0
   \<and> (\<exists>f. f1_value [1, 0] [1, 0] = Some f \<and> 1 - 2 / 10 ^ 8 < f \<and> f \<le> 1)"
proof -
  have a: "f1_value [1, 0, 1, 1] [1, 1, 0, 1] = Some (closed_form_f1 2 1 1)"
    using calculate_f1_closed_form[of "[1, 0, 1, 1]" "[1, 1, 0, 1]"]
    by (simp add: binary_def count_pairs_def numeral_2_eq_2)
  have b: "f1_value [1, 0] [0, 1] = Some 0"
    using calculate_f1_closed_form[of "[1, 0]" "[0, 1]"]
    by (simp add: binary_def less_Suc_eq count_pairs_def closed_form_f1_def)
  have c: "f1_value [0, 0] [0, 0] = Some 0"
    using calculate_f1_closed_form[of "[0, 0]" "[0, 0]"]
    by (simp add: binary_def count_pairs_def closed_form_f1_def)
  have d: "\<exists>f. f1_value [1, 0] [1, 0] = Some f \<and> 1 - 2 / 10 ^ 8 < f \<and> f \<le> 1"
    using calculate_f1_closed_form[of "[1, 0]" "[1, 0]", THEN conjunct2, THEN conjunct2, THEN conjunct2]
    by (simp add: binary_def)
  from a b c d show ?thesis by blast
qed

text \<open>
  Identical predictions and labels without a positive entry: \<open>tp = 0\<close>, so precision,
  recall and F1 are all 0, not 1.
\<close>

theorem calculate_f1_identical_counterexample:
  "binary [0, 0] \<and> calculate_f1 [0, 0] [0, 0] = Inr (0, 0, 0) \<and> f1_value [0, 0] [0, 0] \<noteq> Some 1"
  by (simp add: binary_def f1_value_def calculate_f1_def tensor_mul_def broadcast_zip_def
      f1_from_counts_def eps_def)

section \<open>Properties of num\_nodes, the empty loader and the gradient penalty\<close>

lemma sum_squares_nonneg: "0 \<le> sum_list (map (\<lambda>x. x * x) (v :: real list))"
  by (induction v) simp_all

lemma l2_norm_nonneg: "0 \<le> l2_norm v"
  by (simp add: l2_norm_def sum_squares_nonneg)

lemma l2_norm_pos_iff: "0 < l2_norm v \<longleftrightarrow> l2_norm v \<noteq> 0"
  using l2_norm_nonneg[of v] by auto

lemma sum_squares_zero_iff: "sum_list (map (\<lambda>x. x * x) (v :: real list)) = 0 \<longleftrightarrow> (\<forall>x \<in> set v. x = 0)"
proof (induction v)
  case Nil
  then show ?case by simp
next
  case (Cons a v)
  have "a * a + sum_list (map (\<lambda>x. x * x) v) = 0 \<longleftrightarrow> a * a = 0 \<and> sum_list (map (\<lambda>x. x * x) v) = 0"
    using sum_squares_nonneg[of v] by (intro add_nonneg_eq_0_iff) simp_all
  with Cons show ?case by simp
qed

lemma l2_norm_zero_iff: "l2_norm v = 0 \<longleftrightarrow> (\<forall>x \<in> set v. x = 0)"
  by (simp add: l2_norm_def sum_squares_zero_iff)

lemma derive_num_nodes_counts: "derive_num_nodes graph_layouts = nonzero_row_counts graph_layouts"
  by (simp add: derive_num_nodes_def non_zero_nodes_mask_def nonzero_row_counts_def
      filter_map comp_def l2_norm_pos_iff)

text \<open>
  Claim C9. The derived \<open>num_nodes\<close> of every graph is the number of its coordinate rows
  with nonzero L2 norm; a graph whose rows are all zero gets 0; and the pretraining loop,
  the combined loop and the evaluation each run their batch on this count.
\<close>

theorem num_nodes_counts_nonzero_rows:
  "derive_num_nodes graph_layouts = nonzero_row_counts graph_layouts
   \<and> (\<forall>i < length graph_layouts.
        (\<forall>row \<in> set (graph_layouts ! i). \<forall>x \<in> set row. x = 0)
          \<longrightarrow> derive_num_nodes graph_layouts ! i = 0)
   \<and> gan_batch env lambda_gp lambda_rec (graph_layouts, adj_matrices, labels) gst =
       gan_batch_body env lambda_gp lambda_rec (graph_layouts, adj_matrices, labels)
         (nonzero_row_counts graph_layouts) gst
   \<and> cgan_batch env lambda_gp alpha num_z_samples (graph_layouts, adj_matrices, labels) cst =
       cgan_batch_body env lambda_gp alpha num_z_samples (graph_layouts, adj_matrices, labels)
         (nonzero_row_counts graph_layouts) cst
   \<and> predict_batch env nets num_z_samples graph_layouts adj_matrices rng =
       predict_batch_body env nets num_z_samples graph_layouts adj_matrices
         (nonzero_row_counts graph_layouts) rng"
proof (intro conjI allI impI)
  show "derive_num_nodes graph_layouts = nonzero_row_counts graph_layouts"
    by (rule derive_num_nodes_counts)
  show "derive_num_nodes graph_layouts ! i = 0"
    if "i < length graph_layouts" "\<forall>row \<in> set (graph_layouts ! i). \<forall>x \<in> set row. x = 0" for i
    using that
    by (simp add: derive_num_nodes_counts nonzero_row_counts_def l2_norm_zero_iff filter_empty_conv)
qed (simp_all add: gan_batch_def cgan_batch_def predict_batch_def derive_num_nodes_counts)

theorem num_nodes_counts_nonzero_rows_witness:
  "derive_num_nodes [[[1, 0], [0, 2], [0, 0]], [[0, 0], [0, 0], [0, 0]]] = [2, 0]"
proof -
  have a: "l2_norm [1, 0] \<noteq> 0" "l2_norm [0, 2] \<noteq> 0" "l2_norm [0, 0] = 0"
    by (simp_all add: l2_norm_zero_iff)
  note t = num_nodes_counts_nonzero_rows[of "[[[1, 0], [0, 2], [0, 0]], [[0, 0], [0, 0], [0, 0]]]"]
  have "derive_num_nodes [[[1, 0], [0, 2], [0, 0]], [[0, 0], [0, 0], [0, 0]]] ! 1 = 0"
    using t[THEN conjunct2, THEN conjunct1] by simp
  moreover have "derive_num_nodes [[[1, 0], [0, 2], [0, 0]], [[0, 0], [0, 0], [0, 0]]]
      = nonzero_row_counts [[[1, 0], [0, 2], [0, 0]], [[0, 0], [0, 0], [0, 0]]]"
    using t[THEN conjunct1] .
  ultimately show ?thesis by (simp add: nonzero_row_counts_def a)
qed

text \<open>
  Claim C6. On an empty loader \<open>evaluate_model\<close> returns no accuracy and no F1: the
  division \<^verbatim>\<open>100 * correct / total\<close> of line 743 raises \<^verbatim>\<open>ZeroDivisionError\<close>.
\<close>

theorem evaluate_model_empty_loader_raises:
  "evaluate_model env nets [] num_z_samples rng = Inl ZeroDivisionError"
  by (simp add: evaluate_model_def)

lemma enumerate_zip_same_map:
  "map (\<lambda>(i, x, y). f i x y) (enumerate n (zip xs xs)) = map (\<lambda>(i, x). f i x x) (enumerate n xs)"
  by (induction xs arbitrary: n) simp_all

lemma map_enumerate_snd: "map (\<lambda>(i, x). x) (enumerate n xs) = xs"
  by (induction xs arbitrary: n) simp_all

lemma lerp_same: "a * x + (1 - a) * x = (x::real)"
  by (simp add: algebra_simps)

lemma interpolate_adj_same: "interpolate_adj alpha_adj adj adj = adj"
proof -
  have row: "\<And>b i (r :: real list). map (\<lambda>(j, x, y). alpha_adj b i j * x + (1 - alpha_adj b i j) * y) (enumerate 0 (zip r r)) = r"
    by (simp add: enumerate_zip_same_map[where f = "\<lambda>j x y. alpha_adj _ _ j * x + (1 - alpha_adj _ _ j) * y"] lerp_same map_enumerate_snd)
  have mat: "\<And>b (m :: real list list). map (\<lambda>(i, rr, fr). map (\<lambda>(j, x, y). alpha_adj b i j * x + (1 - alpha_adj b i j) * y) (enumerate 0 (zip rr fr))) (enumerate 0 (zip m m)) = m"
    by (simp add: enumerate_zip_same_map[where f = "\<lambda>i rr fr. map (\<lambda>(j, x, y). alpha_adj _ i j * x + (1 - alpha_adj _ i j) * y) (enumerate 0 (zip rr fr))"] row map_enumerate_snd)
  show ?thesis
    unfolding interpolate_adj_def
    by (simp add: enumerate_zip_same_map[where f = "\<lambda>b r f. map (\<lambda>(i, rr, fr). map (\<lambda>(j, x, y). alpha_adj b i j * x + (1 - alpha_adj b i j) * y) (enumerate 0 (zip rr fr))) (enumerate 0 (zip r f))"] mat map_enumerate_snd)
qed

lemma gradient_penalty_same_adj:
  "compute_gradient_penalty g alpha_samples alpha_adj real_samples fake_samples adj adj lambda_gp =
   compute_gradient_penalty (\<lambda>x a. g x adj) alpha_samples alpha_adj' real_samples fake_samples adj adj lambda_gp"
  by (simp add: compute_gradient_penalty_def interpolate_adj_same Let_def)

lemma gradient_penalty_canonical_alpha:
  "NO_MATCH (\<lambda>b i j. 0::real) alpha_adj \<Longrightarrow>
   compute_gradient_penalty g alpha_samples alpha_adj real_samples fake_samples adj adj lambda_gp =
   compute_gradient_penalty g alpha_samples (\<lambda>b i j. 0) real_samples fake_samples adj adj lambda_gp"
  by (simp add: compute_gradient_penalty_def interpolate_adj_same Let_def)

lemma critic_draws_rand_adj:
  "critic_draws (env\<lparr>rand_adj := r\<rparr>) nets graph_layouts adj_matrices num_nodes k rng =
   critic_draws env nets graph_layouts adj_matrices num_nodes k rng"
  by (induction k arbitrary: rng) simp_all

text \<open>
  Claim C10. Interpolating an adjacency batch with itself returns it, whatever the
  coefficients; the penalty therefore evaluates the critic's gradient at the batch's own
  adjacency matrices; and the critic steps of both loops, which pass \<^verbatim>\<open>adj_matrices\<close>
  for both adjacency arguments, do not depend on the adjacency coefficients drawn.
\<close>

theorem adjacency_interpolation_is_identity:
  "interpolate_adj alpha_adj adj_matrices adj_matrices = adj_matrices
   \<and> compute_gradient_penalty g alpha_samples alpha_adj real_samples fake_samples
         adj_matrices adj_matrices lambda_gp =
       compute_gradient_penalty (\<lambda>x a. g x adj_matrices) alpha_samples alpha_adj'
         real_samples fake_samples adj_matrices adj_matrices lambda_gp
   \<and> gan_critic_step (env\<lparr>rand_adj := r\<rparr>) lambda_gp b nets0 rng0 generated_coords real_validity
         fake_validity gst =
       gan_critic_step env lambda_gp b nets0 rng0 generated_coords real_validity fake_validity gst
   \<and> cgan_critic_step (env\<lparr>rand_adj := r\<rparr>) lambda_gp num_z_samples b num_nodes cst =
       cgan_critic_step env lambda_gp num_z_samples b num_nodes cst"
proof (intro conjI)
  show "interpolate_adj alpha_adj adj_matrices adj_matrices = adj_matrices"
    by (rule interpolate_adj_same)
  show "compute_gradient_penalty g alpha_samples alpha_adj real_samples fake_samples
         adj_matrices adj_matrices lambda_gp =
       compute_gradient_penalty (\<lambda>x a. g x adj_matrices) alpha_samples alpha_adj'
         real_samples fake_samples adj_matrices adj_matrices lambda_gp"
    by (rule gradient_penalty_same_adj)
  show "gan_critic_step (env\<lparr>rand_adj := r\<rparr>) lambda_gp b nets0 rng0 generated_coords real_validity
         fake_validity gst =
       gan_critic_step env lambda_gp b nets0 rng0 generated_coords real_validity fake_validity gst"
    by (cases b)
      (simp add: gan_critic_step_def gradient_penalty_canonical_alpha cong: sum.case_cong)
  show "cgan_critic_step (env\<lparr>rand_adj := r\<rparr>) lambda_gp num_z_samples b num_nodes cst =
       cgan_critic_step env lambda_gp num_z_samples b num_nodes cst"
    by (cases b)
      (simp add: cgan_critic_step_def critic_draws_rand_adj gradient_penalty_canonical_alpha
         cong: sum.case_cong)
qed

theorem adjacency_interpolation_is_identity_witness:
  "interpolate_adj (\<lambda>b i j. 1 / 3) [[[0, 1], [1, 0]]] [[[0, 1], [1, 0]]] = [[[0, 1], [1, 0]]]
   \<and> gan_critic_step (demo_env\<lparr>rand_adj := (\<lambda>k b i j. 0)\<rparr>) 1 demo_batch demo_nets 0
         [[[1, 0]]] [0] [0] (gan_initial demo_nets 0) =
       gan_critic_step demo_env 1 demo_batch demo_nets 0 [[[1, 0]]] [0] [0]
         (gan_initial demo_nets 0)"
  using adjacency_interpolation_is_identity[where alpha_adj = "\<lambda>b i j. 1 / 3"
      and adj_matrices = "[[[0, 1], [1, 0]]]" and env = demo_env and r = "\<lambda>k b i j. 0"
      and lambda_gp = 1 and b = demo_batch and ?nets0.0 = demo_nets and ?rng0.0 = 0
      and generated_coords = "[[[1, 0]]]" and real_validity = "[0]" and fake_validity = "[0]"
      and gst = "gan_initial demo_nets 0"]
  by simp

lemma gradient_penalty_formula:
  assumes "compute_gradient_penalty g alpha_samples alpha_adj real_samples fake_samples
             real_adj fake_adj lambda_gp = Inr p"
  shows "p = lambda_gp * mean_t (map (\<lambda>c. (l2_norm (concat c) - 1) ^ 2)
               (fst (g (interpolate_samples alpha_samples real_samples fake_samples)
                       (interpolate_adj alpha_adj real_adj fake_adj))))"
  using assms
  by (simp add: compute_gradient_penalty_def Let_def comp_def split: if_splits)

text \<open>
  Claim C2, as the code has it. The per-sample norm that enters the penalty is the L2 norm
  of the flattened gradient with respect to the interpolated coordinates, the first
  component of what \<^verbatim>\<open>autograd.grad\<close> returns; the gradient with respect to the
  interpolated adjacency matrices does not enter: two critics whose coordinate gradients
  agree get the same penalty.
\<close>

theorem gradient_penalty_uses_coordinate_gradient:
  "(compute_gradient_penalty g alpha_samples alpha_adj real_samples fake_samples
        real_adj fake_adj lambda_gp = Inr p \<longrightarrow>
      p = lambda_gp * mean_t (map (\<lambda>c. (l2_norm (concat c) - 1) ^ 2)
               (fst (g (interpolate_samples alpha_samples real_samples fake_samples)
                       (interpolate_adj alpha_adj real_adj fake_adj)))))
   \<and> ((\<forall>x a. fst (g' x a) = fst (g x a)) \<longrightarrow>
        compute_gradient_penalty g' alpha_samples alpha_adj real_samples fake_samples
          real_adj fake_adj lambda_gp =
        compute_gradient_penalty g alpha_samples alpha_adj real_samples fake_samples
          real_adj fake_adj lambda_gp)"
  by (auto simp: gradient_penalty_formula compute_gradient_penalty_def Let_def)

lemma sqrt_169: "sqrt 169 = 13"
  by (rule real_sqrt_unique) simp_all

theorem gradient_penalty_uses_coordinate_gradient_witness:
  "compute_gradient_penalty (\<lambda>x a. ([[[3, 4]]], [[[12]]])) (\<lambda>b. 1 / 2) (\<lambda>b i j. 1 / 2)
       [[[0, 0]]] [[[2, 2]]] [[[1]]] [[[1]]] 1 = Inr 16
   \<and> compute_gradient_penalty (\<lambda>x a. ([[[3, 4]]], [[[0]]])) (\<lambda>b. 1 / 2) (\<lambda>b i j. 1 / 2)
       [[[0, 0]]] [[[2, 2]]] [[[1]]] [[[1]]] 1 = Inr 16"
proof -
  have n: "l2_norm [3, 4] = 5" by (simp add: l2_norm_def)
  have a: "compute_gradient_penalty (\<lambda>x a. ([[[3, 4]]], [[[12]]])) (\<lambda>b. 1 / 2) (\<lambda>b i j. 1 / 2)
       [[[0, 0]]] [[[2, 2]]] [[[1]]] [[[1]]] 1 = Inr 16"
    by (simp add: compute_gradient_penalty_def same_shape3_def has_shape3_def size1_def
        mean_t_def n)
  from gradient_penalty_uses_coordinate_gradient[
      of "\<lambda>x a. ([[[3, 4]]], [[[12]]])" "\<lambda>b. 1 / 2" "\<lambda>b i j. 1 / 2"
         "[[[0, 0]]]" "[[[2, 2]]]" "[[[1]]]" "[[[1]]]" 1 16 "\<lambda>x a. ([[[3, 4]]], [[[0]]])"] a
  show ?thesis by simp
qed

text \<open>
  A critic with coordinate gradient \<open>(3, 4)\<close> and adjacency gradient \<open>12\<close> on one graph:
  the code penalises \<open>(5 - 1)\<^sup>2\<close>, the joint norm would give \<open>(13 - 1)\<^sup>2\<close>.
\<close>

theorem gradient_penalty_joint_norm_counterexample:
  "compute_gradient_penalty (\<lambda>x a. ([[[3, 4]]], [[[12]]])) (\<lambda>b. 1 / 2) (\<lambda>b i j. 1 / 2)
       [[[0, 0]]] [[[2, 2]]] [[[1]]] [[[1]]] 1 = Inr 16
   \<and> joint_gradient_penalty (\<lambda>x a. ([[[3, 4]]], [[[12]]]))
       (interpolate_samples (\<lambda>b. 1 / 2) [[[0, 0]]] [[[2, 2]]])
       (interpolate_adj (\<lambda>b i j. 1 / 2) [[[1]]] [[[1]]]) 1 = 144"
proof -
  have n: "l2_norm [3, 4] = 5" by (simp add: l2_norm_def)
  have m: "l2_norm [3, 4, 12] = 13" by (simp add: l2_norm_def sqrt_169)
  show ?thesis
    by (simp add: compute_gradient_penalty_def joint_gradient_penalty_def same_shape3_def
        has_shape3_def size1_def mean_t_def n m)
qed

section \<open>Properties of evaluate\_model\<close>

lemma add_inplace_same_length:
  "length outputs = length acc \<Longrightarrow>
   add_inplace acc outputs = Inr (map (\<lambda>i. (fst (acc ! i) + fst (outputs ! i), snd (acc ! i) + snd (outputs ! i))) [0..<length acc])"
  by (auto simp: add_inplace_def intro!: nth_equalityI)

lemma accumulate_logits_sum:
  assumes "\<forall>k<n. forward_pass env nets gl adj nn (randn env (rng + k) (length gl)) = Inr (outs k)
                  \<and> length (outs k) = length acc"
  shows "accumulate_logits env nets gl adj nn n rng acc =
           Inr (map (\<lambda>i. (fst (acc ! i) + (\<Sum>k<n. fst (outs k ! i)),
                          snd (acc ! i) + (\<Sum>k<n. snd (outs k ! i)))) [0..<length acc], rng + n)"
  using assms
proof (induction n arbitrary: rng acc outs)
  case 0
  then show ?case by (simp add: map_nth)
next
  case (Suc n)
  from Suc.prems have f0: "forward_pass env nets gl adj nn (randn env rng (length gl)) = Inr (outs 0)"
    and l0: "length (outs 0) = length acc" by force+
  define acc' where "acc' = map (\<lambda>i. (fst (acc ! i) + fst (outs 0 ! i), snd (acc ! i) + snd (outs 0 ! i))) [0..<length acc]"
  have a: "add_inplace acc (outs 0) = Inr acc'"
    using add_inplace_same_length[OF l0] by (simp add: acc'_def)
  have len: "length acc' = length acc" by (simp add: acc'_def)
  have "\<forall>k<n. forward_pass env nets gl adj nn (randn env (Suc rng + k) (length gl)) = Inr (outs (Suc k))
                  \<and> length (outs (Suc k)) = length acc'"
    using Suc.prems by (auto simp: len)
  from Suc.IH[OF this]
  have "accumulate_logits env nets gl adj nn n (Suc rng) acc' =
           Inr (map (\<lambda>i. (fst (acc' ! i) + (\<Sum>k<n. fst (outs (Suc k) ! i)),
                          snd (acc' ! i) + (\<Sum>k<n. snd (outs (Suc k) ! i)))) [0..<length acc'], Suc rng + n)" .
  moreover have "map (\<lambda>i. (fst (acc' ! i) + (\<Sum>k<n. fst (outs (Suc k) ! i)),
                          snd (acc' ! i) + (\<Sum>k<n. snd (outs (Suc k) ! i)))) [0..<length acc']
               = map (\<lambda>i. (fst (acc ! i) + (\<Sum>k<Suc n. fst (outs k ! i)),
                          snd (acc ! i) + (\<Sum>k<Suc n. snd (outs k ! i)))) [0..<length acc]"
    unfolding len
    by (rule map_cong[OF refl])
      (simp add: acc'_def sum.lessThan_Suc_shift add.assoc del: sum.lessThan_Suc)
  ultimately show ?case by (simp add: f0 a)
qed







lemma demo_f1_neg: "f1_from_counts 0 1 0 = (0, 0, 0)"
  by (simp add: f1_from_counts_def)




section \<open>The generator step of the combined loop\<close>

lemma critic_draws_length: "length (critic_draws env nets gl adj nn n rng) = n"
  by (induction n arbitrary: rng) (simp_all add: Let_def)

lemma critic_draws_last:
  "0 < n \<Longrightarrow>
   fst (last (critic_draws env nets gl adj nn n rng)) =
     generator env Train (generator_sd nets) (randn env (rng + n - 1) (length gl)) gl adj nn"
proof (induction n arbitrary: rng)
  case 0
  then show ?case by simp
next
  case (Suc n)
  show ?case
  proof (cases n)
    case 0
    then show ?thesis by (simp add: Let_def)
  next
    case (Suc m)
    then have ne: "critic_draws env nets gl adj nn n (Suc rng) \<noteq> []"
      using critic_draws_length[of env nets gl adj nn n "Suc rng"] by auto
    from Suc have "0 < n" by simp
    from Suc.IH[OF this, of "Suc rng"] ne show ?thesis by (simp add: Let_def)
  qed
qed

lemma mean_t_replicate: "0 < n \<Longrightarrow> mean_t (replicate n x) = x"
  by (simp add: mean_t_def sum_list_replicate)

lemma generator_draws_stale:
  assumes "generator_draws env nets gl adj labels nn generated_layouts n rng = Inr draws"
    and "0 < n"
  shows "\<exists>images. render_images env generated_layouts adj nn = Inr images
           \<and> map (\<lambda>d. fst (snd d)) draws =
               replicate n (criterion env (classifier env Train (classifier_sd nets) images) labels)
           \<and> snd (snd (last draws)) = classifier env Train (classifier_sd nets) images"
  using assms
proof (induction n arbitrary: rng draws)
  case 0
  then show ?case by simp
next
  case (Suc n)
  from Suc.prems(1) obtain images rest where
    r: "render_images env generated_layouts adj nn = Inr images"
    and rest: "generator_draws env nets gl adj labels nn generated_layouts n (Suc rng) = Inr rest"
    and d: "draws = (- mean_t (discriminator env (discriminator_sd nets)
                       (generator env Train (generator_sd nets) (randn env rng (length gl)) gl adj nn) adj),
                     criterion env (classifier env Train (classifier_sd nets) images) labels,
                     classifier env Train (classifier_sd nets) images) # rest"
    by (auto simp: Let_def split: sum.splits)
  show ?case
  proof (cases n)
    case 0
    with rest have "rest = []" by simp
    with r d 0 show ?thesis by simp
  next
    case (Suc m)
    then have "0 < n" by simp
    from Suc.IH[OF rest this] r obtain
      m: "map (\<lambda>d. fst (snd d)) rest =
               replicate n (criterion env (classifier env Train (classifier_sd nets) images) labels)"
      and l: "snd (snd (last rest)) = classifier env Train (classifier_sd nets) images"
      by auto
    from m \<open>0 < n\<close> have "rest \<noteq> []" by auto
    with r d m l show ?thesis by simp
  qed
qed

lemma stack_mean_nonempty: "stack_mean ts = Inr v \<Longrightarrow> ts \<noteq> []"
  by (auto simp: stack_mean_def)

text \<open>
  Claim C1, what the code does instead. Whenever a batch of the combined loop completes,
  the classifier loss it adds to the epoch's total is the loss on the rendering of one
  layout: the one the critic's loop generated last (draw \<open>c_rng st + num_z_samples - 1\<close>).
  Every iteration of the generator's loop renders that same layout, so the mean over the
  draws is the loss of a single rendering and none of the \<open>num_z_samples\<close> fresh
  generations enters it.
\<close>

theorem generator_step_classifies_stale_layout:
  assumes "cgan_batch env lambda_gp alpha num_z_samples (graph_layouts, adj_matrices, labels) st = Inr st'"
  shows "0 < num_z_samples
       \<and> (\<exists>images.
            render_images env
              (generator env Train (generator_sd (c_nets st))
                 (randn env (c_rng st + num_z_samples - 1) (length graph_layouts))
                 graph_layouts adj_matrices (derive_num_nodes graph_layouts))
              adj_matrices (derive_num_nodes graph_layouts) = Inr images
          \<and> c_total_c_loss st' =
              c_total_c_loss st
                + criterion env (classifier env Train (classifier_sd (c_nets st)) images) labels)"
proof -
  let ?nn = "derive_num_nodes graph_layouts"
  let ?b = "(graph_layouts, adj_matrices, labels)"
  from assms obtain st1 g where
    c: "cgan_critic_step env lambda_gp num_z_samples ?b ?nn st = Inr (st1, g)"
    and gs: "cgan_generator_step env alpha num_z_samples ?b ?nn (c_nets st) (c_rng st) g st1 = Inr st'"
    by (auto simp: cgan_batch_def cgan_batch_body_def split: sum.splits)
  let ?draws = "critic_draws env (c_nets st) graph_layouts adj_matrices ?nn num_z_samples (c_rng st)"
  from c obtain fv where sm: "stack_mean (map snd ?draws) = Inr fv"
    by (auto simp: cgan_critic_step_def Let_def split: sum.splits)
  from stack_mean_nonempty[OF sm] have pos: "0 < num_z_samples"
    using critic_draws_length[of env "c_nets st" graph_layouts adj_matrices ?nn num_z_samples "c_rng st"]
    by (cases num_z_samples) auto
  from c have g: "g = fst (last ?draws)"
    and cl: "classifier_sd (c_nets st1) = classifier_sd (c_nets st)"
    and tl: "c_total_c_loss st1 = c_total_c_loss st"
    by (auto simp: cgan_critic_step_def Let_def split: sum.splits)
  from gs obtain draws where
    gd: "generator_draws env (c_nets st1) graph_layouts adj_matrices labels ?nn g num_z_samples
           (c_rng st1) = Inr draws"
    and tot: "c_total_c_loss st' = c_total_c_loss st1 + mean_t (map (\<lambda>d. fst (snd d)) draws)"
    by (auto simp: cgan_generator_step_def Let_def split: sum.splits prod.splits)
  from generator_draws_stale[OF gd pos] obtain images where
    r: "render_images env g adj_matrices ?nn = Inr images"
    and m: "map (\<lambda>d. fst (snd d)) draws =
              replicate num_z_samples
                (criterion env (classifier env Train (classifier_sd (c_nets st1)) images) labels)"
    by auto
  have "g = generator env Train (generator_sd (c_nets st))
                 (randn env (c_rng st + num_z_samples - 1) (length graph_layouts))
                 graph_layouts adj_matrices ?nn"
    unfolding g by (rule critic_draws_last[OF pos])
  with r m tot tl cl pos show ?thesis by (simp add: mean_t_replicate)
qed


lemma demo_num_nodes: "derive_num_nodes [[[1, 0]]] = [Suc 0]"
  by (simp add: derive_num_nodes_def non_zero_nodes_mask_def l2_norm_def)

lemma demo_calculate_f1: "calculate_f1 [1] [1] = Inr (f1_from_counts 1 0 0)"
  by (simp add: calculate_f1_def tensor_mul_def broadcast_zip_def)

lemma demo_critic_step:
  "cgan_critic_step demo_env 5 2 ([[[1, 0]]], [[[1]]], [1]) [Suc 0] demo_cgan_state =
     Inr (demo_cgan_state\<lparr>c_nets := demo_nets\<lparr>discriminator_sd := 1, optimizer_d_sd := 1\<rparr>,
                           c_rng := 19, c_steps_d := 1, c_total_d_loss := 5\<rparr>, [[[17, 16]]])"
  by (simp add: cgan_critic_step_def demo_cgan_state_def cgan_initial_def
      demo_env_def demo_nets_def numeral_2_eq_2 stack_mean_def mean_t_def
      compute_gradient_penalty_def same_shape3_def has_shape3_def size1_def
      interpolate_samples_def interpolate_adj_def l2_norm_def)

lemma demo_fresh_generator_draws:
  "fresh_generator_draws demo_env (demo_nets\<lparr>discriminator_sd := 1, optimizer_d_sd := 1\<rparr>)
     [[[1, 0]]] [[[1]]] [1] [Suc 0] 2 19 = Inr [(1, 39, [(0, 39)]), (1, 41, [(0, 41)])]"
  by (simp add: demo_env_def demo_nets_def numeral_2_eq_2 render_images_def mean_t_def Let_def)

lemma demo_generator_step:
  "cgan_generator_step demo_env 30 2 ([[[1, 0]]], [[[1]]], [1]) [Suc 0] demo_nets 15 [[[17, 16]]]
     (demo_cgan_state\<lparr>c_nets := demo_nets\<lparr>discriminator_sd := 1, optimizer_d_sd := 1\<rparr>,
                       c_rng := 19, c_steps_d := 1, c_total_d_loss := 5\<rparr>) =
     Inr (demo_cgan_state
            \<lparr>c_nets := \<lparr>generator_sd = 1, discriminator_sd = 1, classifier_sd = 1,
                        optimizer_g_sd = 1, optimizer_d_sd = 1, optimizer_c_sd = 1\<rparr>,
             c_rng := 21, c_steps_g := 1, c_steps_d := 1, c_steps_c := 1,
             c_total_g_loss := 991, c_total_d_loss := 5, c_total_c_loss := 33,
             correct_train := 1, total_train := 1, total_f1_train := demo_f1\<rparr>)"
  by (simp add: cgan_generator_step_def numeral_2_eq_2 render_images_def
      calculate_f1_def tensor_mul_def count_equal_def broadcast_zip_def argmax2_def mean_t_def
      demo_env_def demo_cgan_state_def cgan_initial_def demo_nets_def demo_f1_def Let_def
      case_prod_beta)

lemma demo_cgan_batch:
  "cgan_batch demo_env 5 30 2 demo_batch demo_cgan_state =
     Inr (demo_cgan_state
            \<lparr>c_nets := \<lparr>generator_sd = 1, discriminator_sd = 1, classifier_sd = 1,
                        optimizer_g_sd = 1, optimizer_d_sd = 1, optimizer_c_sd = 1\<rparr>,
             c_rng := 21, c_steps_g := 1, c_steps_d := 1, c_steps_c := 1,
             c_total_g_loss := 991, c_total_d_loss := 5, c_total_c_loss := 33,
             correct_train := 1, total_train := 1, total_f1_train := demo_f1\<rparr>)"
proof -
  have n: "c_nets demo_cgan_state = demo_nets" "c_rng demo_cgan_state = 15"
    by (simp_all add: demo_cgan_state_def cgan_initial_def)
  show ?thesis
    unfolding demo_batch_def cgan_batch_def cgan_batch_body_def
    by (simp only: fst_conv demo_num_nodes demo_critic_step sum.case prod.case n
        demo_generator_step)
qed

text \<open>
  On the concrete batch with two draws: the critic's loop leaves the layout \<open>(17, 16)\<close>,
  whose image is 33, and the batch's classifier loss is 33; the layouts generated in the
  generator's loop are \<open>(20, 19)\<close> and \<open>(21, 20)\<close>, whose images 39 and 41 are what the
  loop of the specification classifies.
\<close>

theorem generator_step_classifies_stale_layout_witness:
  "(\<exists>st'. cgan_batch demo_env 5 30 2 demo_batch demo_cgan_state = Inr st'
          \<and> c_total_c_loss st' = c_total_c_loss demo_cgan_state + 33)
   \<and> render_images demo_env [[[17, 16]]] [[[1]]] [Suc 0] = Inr [33]
   \<and> fresh_generator_draws demo_env (demo_nets\<lparr>discriminator_sd := 1, optimizer_d_sd := 1\<rparr>)
        [[[1, 0]]] [[[1]]] [1] [Suc 0] 2 19 = Inr [(1, 39, [(0, 39)]), (1, 41, [(0, 41)])]"
proof -
  have r: "render_images demo_env [[[17, 16]]] [[[1]]] [Suc 0] = Inr [33]"
    by (simp add: render_images_def demo_env_def)
  from generator_step_classifies_stale_layout[OF demo_cgan_batch[unfolded demo_batch_def]]
  have "c_total_c_loss
          (demo_cgan_state
            \<lparr>c_nets := \<lparr>generator_sd = 1, discriminator_sd = 1, classifier_sd = 1,
                        optimizer_g_sd = 1, optimizer_d_sd = 1, optimizer_c_sd = 1\<rparr>,
             c_rng := 21, c_steps_g := 1, c_steps_d := 1, c_steps_c := 1,
             c_total_g_loss := 991, c_total_d_loss := 5, c_total_c_loss := 33,
             correct_train := 1, total_train := 1, total_f1_train := demo_f1\<rparr>)
        = c_total_c_loss demo_cgan_state + 33"
    by (simp add: demo_cgan_state_def cgan_initial_def)
  with demo_cgan_batch r demo_fresh_generator_draws show ?thesis by simp
qed

section \<open>The epoch loop of the combined training\<close>

lemma cgan_batch_frame:
  assumes "cgan_batch env lambda_gp alpha n b st = Inr st'"
  shows "c_log st' = c_log st \<and> saved_models st' = saved_models st
       \<and> best_accuracy st' = best_accuracy st
       \<and> epochs_without_improvement st' = epochs_without_improvement st"
proof -
  obtain gl adj labels where b: "b = (gl, adj, labels)" by (cases b)
  from assms obtain st1 g where
    c: "cgan_critic_step env lambda_gp n b (derive_num_nodes (fst b)) st = Inr (st1, g)"
    and gs: "cgan_generator_step env alpha n b (derive_num_nodes (fst b)) (c_nets st) (c_rng st) g st1 = Inr st'"
    by (auto simp: cgan_batch_def cgan_batch_body_def split: sum.splits)
  from c have 1: "c_log st1 = c_log st \<and> saved_models st1 = saved_models st
       \<and> best_accuracy st1 = best_accuracy st
       \<and> epochs_without_improvement st1 = epochs_without_improvement st"
    by (auto simp: b cgan_critic_step_def Let_def split: sum.splits)
  from gs have 2: "c_log st' = c_log st1 \<and> saved_models st' = saved_models st1
       \<and> best_accuracy st' = best_accuracy st1
       \<and> epochs_without_improvement st' = epochs_without_improvement st1"
    by (auto simp: b cgan_generator_step_def Let_def split: sum.splits prod.splits)
  from 1 2 show ?thesis by simp
qed

lemma cgan_batches_frame:
  "cgan_batches env lambda_gp alpha n bs st = Inr st' \<Longrightarrow>
   c_log st' = c_log st \<and> saved_models st' = saved_models st
       \<and> best_accuracy st' = best_accuracy st
       \<and> epochs_without_improvement st' = epochs_without_improvement st"
proof (induction bs arbitrary: st)
  case Nil
  then show ?case by simp
next
  case (Cons b bs)
  from Cons.prems obtain st1 where
    1: "cgan_batch env lambda_gp alpha n b st = Inr st1"
    and 2: "cgan_batches env lambda_gp alpha n bs st1 = Inr st'"
    by (auto split: sum.splits)
  from cgan_batch_frame[OF 1] Cons.IH[OF 2] show ?case by simp
qed

lemma check_improvement_frame [simp]:
  "c_log (check_improvement epoch va ta s) = c_log s"
  "c_nets (check_improvement epoch va ta s) = c_nets s"
  by (simp_all add: check_improvement_def)

lemma cgan_epoch_effect:
  assumes "cgan_epoch env lambda_gp alpha n train_loader val_loader test_loader epoch st = Inr st'"
  shows "\<exists>row va ta.
           c_log st' = c_log st @ [row] \<and> row_epoch row = epoch + 1 \<and> is_data_row row
         \<and> row_val_accuracy row = Some va
         \<and> (if va > best_accuracy st
              then saved_models st' = saved_models st @
                     [\<lparr>ck_nets = c_nets st', ck_epoch = epoch, ck_val_accuracy = va,
                       ck_test_accuracy = ta\<rparr>]
                   \<and> best_accuracy st' = va \<and> epochs_without_improvement st' = 0
              else saved_models st' = saved_models st
                   \<and> best_accuracy st' = best_accuracy st
                   \<and> epochs_without_improvement st' = epochs_without_improvement st + 1)"
proof -
  let ?st0 = "st\<lparr>c_total_g_loss := 0, c_total_d_loss := 0, c_total_c_loss := 0,
                 correct_train := 0, total_train := 0, total_f1_train := 0\<rparr>"
  from assms obtain st1 where
    b: "cgan_batches env lambda_gp alpha n train_loader ?st0 = Inr st1"
    by (auto simp: cgan_epoch_def split: sum.splits)
  from cgan_batches_frame[OF b] have f: "c_log st1 = c_log st" "saved_models st1 = saved_models st"
    "best_accuracy st1 = best_accuracy st"
    "epochs_without_improvement st1 = epochs_without_improvement st"
    by simp_all
  from assms b obtain va va_f1 rng1 ta ta_f1 rng2 where
    v: "evaluate_model env (c_nets st1) val_loader 5 (c_rng st1) = Inr ((va, va_f1), rng1)"
    and t: "evaluate_model env (c_nets st1) test_loader 5 rng1 = Inr ((ta, ta_f1), rng2)"
    by (auto simp: cgan_epoch_def Let_def split: sum.splits if_splits)
  define row where "row = CombinedRow (epoch + 1)
      (Some (c_total_g_loss st1 / real (length train_loader)))
      (Some (c_total_d_loss st1 / real (length train_loader)))
      (Some (c_total_c_loss st1 / real (length train_loader)))
      (100 * real (correct_train st1) / real (total_train st1))
      (total_f1_train st1 / real (length train_loader)) va va_f1 ta ta_f1"
  define st2 where "st2 = st1\<lparr>c_nets := (c_nets st1)
                                \<lparr>optimizer_g_sd :=
                                   scheduler_step env Generator (optimizer_g_sd (c_nets st1)),
                                 optimizer_d_sd :=
                                   scheduler_step env Discriminator (optimizer_d_sd (c_nets st1)),
                                 optimizer_c_sd :=
                                   scheduler_step env Classifier (optimizer_c_sd (c_nets st1))\<rparr>,
                              c_rng := rng2, c_log := c_log st1 @ [row]\<rparr>"
  from assms b v t have st': "st' = check_improvement epoch va ta st2"
    by (simp add: cgan_epoch_def Let_def st2_def row_def split: if_splits)
  have 1: "c_log st' = c_log st @ [row]" by (simp add: st' st2_def f)
  have 2: "row_epoch row = epoch + 1" "is_data_row row" "row_val_accuracy row = Some va"
    by (simp_all add: row_def)
  have 3: "if va > best_accuracy st
              then saved_models st' = saved_models st @
                     [\<lparr>ck_nets = c_nets st', ck_epoch = epoch, ck_val_accuracy = va,
                       ck_test_accuracy = ta\<rparr>]
                   \<and> best_accuracy st' = va \<and> epochs_without_improvement st' = 0
              else saved_models st' = saved_models st
                   \<and> best_accuracy st' = best_accuracy st
                   \<and> epochs_without_improvement st' = epochs_without_improvement st + 1"
    by (simp add: st' check_improvement_def st2_def f)
  from 1 2 3 show ?thesis
    by (intro exI[of _ row] exI[of _ va] exI[of _ ta]) simp
qed

lemma cgan_epochs_log:
  "cgan_epochs env lambda_gp alpha n patience train_loader val_loader test_loader es st = Inr st' \<Longrightarrow>
   \<exists>k rows. k \<le> length es \<and> c_log st' = c_log st @ rows
        \<and> map row_epoch rows = map Suc (take k es) \<and> list_all is_data_row rows
        \<and> (epochs_without_improvement st' < patience \<longrightarrow> k = length es)"
proof (induction es arbitrary: st)
  case Nil
  then show ?case by simp
next
  case (Cons e es)
  from Cons.prems obtain st1 where
    1: "cgan_epoch env lambda_gp alpha n train_loader val_loader test_loader e st = Inr st1"
    by (auto split: sum.splits)
  from cgan_epoch_effect[OF 1] obtain row where
    row: "c_log st1 = c_log st @ [row]" "row_epoch row = e + 1" "is_data_row row"
    by blast
  show ?case
  proof (cases "patience \<le> epochs_without_improvement st1")
    case True
    with Cons.prems 1 have "st' = st1" by simp
    with row True show ?thesis
      by (intro exI[of _ "Suc 0"] exI[of _ "[row]"]) simp
  next
    case False
    with Cons.prems 1 have
      "cgan_epochs env lambda_gp alpha n patience train_loader val_loader test_loader es st1 = Inr st'"
      by simp
    from Cons.IH[OF this] obtain k rows where
      k: "k \<le> length es" "c_log st' = c_log st1 @ rows"
         "map row_epoch rows = map Suc (take k es)" "list_all is_data_row rows"
         "epochs_without_improvement st' < patience \<longrightarrow> k = length es"
      by blast
    with row show ?thesis
      by (intro exI[of _ "Suc k"] exI[of _ "row # rows"]) simp
  qed
qed

lemma combined_log_rows:
  assumes "train_combined_cgan env nets rng train_loader val_loader test_loader epochs patience
             lambda_gp alpha n = Inr st"
  shows "\<exists>N \<le> epochs. map row_epoch (data_rows (c_log st)) = [0..<Suc N]
           \<and> length (data_rows (c_log st)) = N + 1
           \<and> (epochs_without_improvement st < patience \<longrightarrow> N = epochs)"
proof -
  from assms have "\<exists>rng3 a b c d e f.
      cgan_epochs env lambda_gp alpha n patience train_loader val_loader test_loader
           [0..<epochs] (cgan_initial nets rng3 (CombinedRow 0 None None None a b c d e f)) = Inr st"
    by (auto simp: train_combined_cgan_def split: sum.splits prod.splits) blast
  then obtain rng3 a b c d e f where
    run0: "cgan_epochs env lambda_gp alpha n patience train_loader val_loader test_loader
           [0..<epochs] (cgan_initial nets rng3 (CombinedRow 0 None None None a b c d e f)) = Inr st"
    by blast
  define base where "base = CombinedRow 0 None None None a b c d e f"
  have base: "row_epoch base = 0" "is_data_row base" by (simp_all add: base_def)
  have run: "cgan_epochs env lambda_gp alpha n patience train_loader val_loader test_loader
           [0..<epochs] (cgan_initial nets rng3 base) = Inr st"
    using run0 by (simp add: base_def)
  from cgan_epochs_log[OF run] obtain k rows where
    k0: "k \<le> length [0..<epochs]" "c_log st = c_log (cgan_initial nets rng3 base) @ rows"
       "map row_epoch rows = map Suc (take k [0..<epochs])" "list_all is_data_row rows"
       "epochs_without_improvement st < patience \<longrightarrow> k = length [0..<epochs]"
    by blast
  then have k: "k \<le> epochs" "c_log st = c_log (cgan_initial nets rng3 base) @ rows"
       "map row_epoch rows = map Suc (take k [0..<epochs])" "list_all is_data_row rows"
       "epochs_without_improvement st < patience \<longrightarrow> k = epochs"
    by simp_all
  have d: "data_rows (c_log st) = base # rows"
    using k(2,4) base(2) by (simp add: data_rows_def cgan_initial_def list_all_iff filter_id_conv)
  have "map Suc (take k [0..<epochs]) = [Suc 0..<Suc k]"
    using k(1) by (simp add: take_upt map_Suc_upt)
  with k(3) base(1) have m: "map row_epoch (base # rows) = [0..<Suc k]"
    by (simp add: upt_conv_Cons)
  then have "length (base # rows) = Suc k"
    by (metis length_map length_upt diff_zero)
  with m d k(1,5) show ?thesis
    by (intro exI[of _ k]) simp
qed

lemma cgan_epoch_full:
  assumes "cgan_epoch env lambda_gp alpha n train_loader val_loader test_loader epoch st = Inr st'"
  shows "\<exists>st1 va va_f1 rng1 ta ta_f1 rng2.
           cgan_batches env lambda_gp alpha n train_loader
             (st\<lparr>c_total_g_loss := 0, c_total_d_loss := 0, c_total_c_loss := 0,
                 correct_train := 0, total_train := 0, total_f1_train := 0\<rparr>) = Inr st1
         \<and> evaluate_model env (c_nets st1) val_loader 5 (c_rng st1) = Inr ((va, va_f1), rng1)
         \<and> evaluate_model env (c_nets st1) test_loader 5 rng1 = Inr ((ta, ta_f1), rng2)
         \<and> c_log st' = c_log st @
             [CombinedRow (epoch + 1)
                (Some (c_total_g_loss st1 / real (length train_loader)))
                (Some (c_total_d_loss st1 / real (length train_loader)))
                (Some (c_total_c_loss st1 / real (length train_loader)))
                (100 * real (correct_train st1) / real (total_train st1))
                (total_f1_train st1 / real (length train_loader)) va va_f1 ta ta_f1]
         \<and> c_nets st' = (c_nets st1)
              \<lparr>optimizer_g_sd := scheduler_step env Generator (optimizer_g_sd (c_nets st1)),
               optimizer_d_sd := scheduler_step env Discriminator (optimizer_d_sd (c_nets st1)),
               optimizer_c_sd := scheduler_step env Classifier (optimizer_c_sd (c_nets st1))\<rparr>
         \<and> (if va > best_accuracy st
              then saved_models st' = saved_models st @
                     [\<lparr>ck_nets = c_nets st', ck_epoch = epoch, ck_val_accuracy = va,
                       ck_test_accuracy = ta\<rparr>]
                   \<and> best_accuracy st' = va \<and> epochs_without_improvement st' = 0
              else saved_models st' = saved_models st
                   \<and> best_accuracy st' = best_accuracy st
                   \<and> epochs_without_improvement st' = epochs_without_improvement st + 1)"
proof -
  let ?st0 = "st\<lparr>c_total_g_loss := 0, c_total_d_loss := 0, c_total_c_loss := 0,
                 correct_train := 0, total_train := 0, total_f1_train := 0\<rparr>"
  from assms obtain st1 where
    b: "cgan_batches env lambda_gp alpha n train_loader ?st0 = Inr st1"
    by (auto simp: cgan_epoch_def split: sum.splits)
  from cgan_batches_frame[OF b] have f: "c_log st1 = c_log st" "saved_models st1 = saved_models st"
    "best_accuracy st1 = best_accuracy st"
    "epochs_without_improvement st1 = epochs_without_improvement st"
    by simp_all
  from assms b obtain va va_f1 rng1 ta ta_f1 rng2 where
    v: "evaluate_model env (c_nets st1) val_loader 5 (c_rng st1) = Inr ((va, va_f1), rng1)"
    and t: "evaluate_model env (c_nets st1) test_loader 5 rng1 = Inr ((ta, ta_f1), rng2)"
    by (auto simp: cgan_epoch_def Let_def split: sum.splits if_splits)
  define row where "row = CombinedRow (epoch + 1)
      (Some (c_total_g_loss st1 / real (length train_loader)))
      (Some (c_total_d_loss st1 / real (length train_loader)))
      (Some (c_total_c_loss st1 / real (length train_loader)))
      (100 * real (correct_train st1) / real (total_train st1))
      (total_f1_train st1 / real (length train_loader)) va va_f1 ta ta_f1"
  define nets1 where "nets1 = (c_nets st1)
              \<lparr>optimizer_g_sd := scheduler_step env Generator (optimizer_g_sd (c_nets st1)),
               optimizer_d_sd := scheduler_step env Discriminator (optimizer_d_sd (c_nets st1)),
               optimizer_c_sd := scheduler_step env Classifier (optimizer_c_sd (c_nets st1))\<rparr>"
  define st2 where "st2 = st1\<lparr>c_nets := nets1, c_rng := rng2, c_log := c_log st1 @ [row]\<rparr>"
  from assms b v t have st': "st' = check_improvement epoch va ta st2"
    by (simp add: cgan_epoch_def Let_def st2_def row_def nets1_def split: if_splits)
  have 1: "c_log st' = c_log st @ [row]" by (simp add: st' st2_def f)
  have 2: "c_nets st' = nets1" by (simp add: st' st2_def)
  have 3: "if va > best_accuracy st
              then saved_models st' = saved_models st @
                     [\<lparr>ck_nets = c_nets st', ck_epoch = epoch, ck_val_accuracy = va,
                       ck_test_accuracy = ta\<rparr>]
                   \<and> best_accuracy st' = va \<and> epochs_without_improvement st' = 0
              else saved_models st' = saved_models st
                   \<and> best_accuracy st' = best_accuracy st
                   \<and> epochs_without_improvement st' = epochs_without_improvement st + 1"
    by (simp add: st' check_improvement_def st2_def f)
  from b v t 1 2 3 show ?thesis
    unfolding row_def nets1_def
    by (intro exI[of _ st1] exI[of _ va] exI[of _ va_f1] exI[of _ rng1] exI[of _ ta]
        exI[of _ ta_f1] exI[of _ rng2] conjI)
qed

lemma replay_gate_simps:
  "replay_gate s [] = s"
  "replay_gate s (row # rows) = replay_gate (gate_row s row) rows"
  by (simp_all add: replay_gate_def)

lemma cgan_epoch_gate:
  assumes "cgan_epoch env lambda_gp alpha n train_loader val_loader test_loader epoch st = Inr st'"
  shows "\<exists>row. c_log st' = c_log st @ [row] \<and> is_data_row row
           \<and> gate_of st' = gate_row (gate_of st) row
           \<and> (\<exists>e g d c tr trf va vf ta tf nets' r r' r''.
                  row = CombinedRow e g d c tr trf va vf ta tf
                \<and> evaluate_model env nets' val_loader 5 r = Inr ((va, vf), r')
                \<and> evaluate_model env nets' test_loader 5 r' = Inr ((ta, tf), r''))"
proof -
  from cgan_epoch_full[OF assms] obtain st1 va va_f1 rng1 ta ta_f1 rng2 where
    b: "cgan_batches env lambda_gp alpha n train_loader
             (st\<lparr>c_total_g_loss := 0, c_total_d_loss := 0, c_total_c_loss := 0,
                 correct_train := 0, total_train := 0, total_f1_train := 0\<rparr>) = Inr st1"
    and v: "evaluate_model env (c_nets st1) val_loader 5 (c_rng st1) = Inr ((va, va_f1), rng1)"
    and t: "evaluate_model env (c_nets st1) test_loader 5 rng1 = Inr ((ta, ta_f1), rng2)"
    and l: "c_log st' = c_log st @
             [CombinedRow (epoch + 1)
                (Some (c_total_g_loss st1 / real (length train_loader)))
                (Some (c_total_d_loss st1 / real (length train_loader)))
                (Some (c_total_c_loss st1 / real (length train_loader)))
                (100 * real (correct_train st1) / real (total_train st1))
                (total_f1_train st1 / real (length train_loader)) va va_f1 ta ta_f1]"
    and g: "if va > best_accuracy st
              then saved_models st' = saved_models st @
                     [\<lparr>ck_nets = c_nets st', ck_epoch = epoch, ck_val_accuracy = va,
                       ck_test_accuracy = ta\<rparr>]
                   \<and> best_accuracy st' = va \<and> epochs_without_improvement st' = 0
              else saved_models st' = saved_models st
                   \<and> best_accuracy st' = best_accuracy st
                   \<and> epochs_without_improvement st' = epochs_without_improvement st + 1"
    by blast
  define row where "row = CombinedRow (epoch + 1)
                (Some (c_total_g_loss st1 / real (length train_loader)))
                (Some (c_total_d_loss st1 / real (length train_loader)))
                (Some (c_total_c_loss st1 / real (length train_loader)))
                (100 * real (correct_train st1) / real (total_train st1))
                (total_f1_train st1 / real (length train_loader)) va va_f1 ta ta_f1"
  have 1: "c_log st' = c_log st @ [row]" using l by (simp add: row_def)
  have 2: "is_data_row row" by (simp add: row_def)
  have 3: "gate_of st' = gate_row (gate_of st) row"
    using g by (simp add: gate_of_def row_def split: if_splits)
  have 4: "\<exists>e g d c tr trf va vf ta tf nets' r r' r''.
                  row = CombinedRow e g d c tr trf va vf ta tf
                \<and> evaluate_model env nets' val_loader 5 r = Inr ((va, vf), r')
                \<and> evaluate_model env nets' test_loader 5 r' = Inr ((ta, tf), r'')"
    unfolding row_def using v t by blast
  from 1 2 3 4 show ?thesis by blast
qed

lemma cgan_epochs_gate:
  "cgan_epochs env lambda_gp alpha n patience train_loader val_loader test_loader es st = Inr st' \<Longrightarrow>
   \<exists>rows. c_log st' = c_log st @ rows \<and> length rows \<le> length es \<and> list_all is_data_row rows
        \<and> gate_of st' = replay_gate (gate_of st) rows
        \<and> (\<forall>k. 0 < k \<and> k < length rows \<longrightarrow>
              gate_counter (replay_gate (gate_of st) (take k rows)) < patience)
        \<and> (length rows < length es \<longrightarrow> patience \<le> epochs_without_improvement st')
        \<and> (\<forall>row\<in>set rows. \<exists>e g d c tr trf va vf ta tf nets' r r' r''.
                  row = CombinedRow e g d c tr trf va vf ta tf
                \<and> evaluate_model env nets' val_loader 5 r = Inr ((va, vf), r')
                \<and> evaluate_model env nets' test_loader 5 r' = Inr ((ta, tf), r''))"
proof (induction es arbitrary: st)
  case Nil
  then show ?case by (simp add: replay_gate_simps)
next
  case (Cons e es)
  from Cons.prems obtain st1 where
    1: "cgan_epoch env lambda_gp alpha n train_loader val_loader test_loader e st = Inr st1"
    by (auto split: sum.splits)
  from cgan_epoch_gate[OF 1] obtain row where
    row: "c_log st1 = c_log st @ [row]" "is_data_row row"
         "gate_of st1 = gate_row (gate_of st) row"
         "\<exists>e g d c tr trf va vf ta tf nets' r r' r''.
                  row = CombinedRow e g d c tr trf va vf ta tf
                \<and> evaluate_model env nets' val_loader 5 r = Inr ((va, vf), r')
                \<and> evaluate_model env nets' test_loader 5 r' = Inr ((ta, tf), r'')"
    by blast
  show ?case
  proof (cases "patience \<le> epochs_without_improvement st1")
    case True
    with Cons.prems 1 have "st' = st1" by simp
    with row True show ?thesis
      by (intro exI[of _ "[row]"]) (simp add: replay_gate_simps)
  next
    case False
    with Cons.prems 1 have
      "cgan_epochs env lambda_gp alpha n patience train_loader val_loader test_loader es st1 = Inr st'"
      by simp
    from Cons.IH[OF this] obtain rows where
      k: "c_log st' = c_log st1 @ rows" "length rows \<le> length es" "list_all is_data_row rows"
         "gate_of st' = replay_gate (gate_of st1) rows"
         "\<forall>k. 0 < k \<and> k < length rows \<longrightarrow>
              gate_counter (replay_gate (gate_of st1) (take k rows)) < patience"
         "length rows < length es \<longrightarrow> patience \<le> epochs_without_improvement st'"
         "\<forall>row\<in>set rows. \<exists>e g d c tr trf va vf ta tf nets' r r' r''.
                  row = CombinedRow e g d c tr trf va vf ta tf
                \<and> evaluate_model env nets' val_loader 5 r = Inr ((va, vf), r')
                \<and> evaluate_model env nets' test_loader 5 r' = Inr ((ta, tf), r'')"
      by blast
    have c1: "gate_counter (gate_of st1) < patience"
      using False by (simp add: gate_counter_def gate_of_def)
    have p: "\<forall>k. 0 < k \<and> k < length (row # rows) \<longrightarrow>
              gate_counter (replay_gate (gate_of st) (take k (row # rows))) < patience"
    proof (intro allI impI)
      fix k assume kk: "0 < k \<and> k < length (row # rows)"
      then obtain j where j: "k = Suc j" by (cases k) auto
      show "gate_counter (replay_gate (gate_of st) (take k (row # rows))) < patience"
      proof (cases j)
        case 0
        with j c1 row(3) show ?thesis by (simp add: replay_gate_simps)
      next
        case (Suc i)
        with kk j have "0 < j \<and> j < length rows" by simp
        with k(5) have "gate_counter (replay_gate (gate_of st1) (take j rows)) < patience"
          by blast
        with j row(3) show ?thesis by (simp add: replay_gate_simps)
      qed
    qed
    from row k(1-4,6,7) p show ?thesis
      by (intro exI[of _ "row # rows"]) (simp add: replay_gate_simps)
  qed
qed

lemma combined_gate_run:
  assumes "train_combined_cgan env nets rng train_loader val_loader test_loader epochs patience
             lambda_gp alpha n = Inr fin"
  shows "\<exists>base rows. data_rows (c_log fin) = base # rows \<and> row_epoch base = 0
        \<and> length rows \<le> epochs
        \<and> gate_of fin = replay_gate (0, 0, []) rows
        \<and> (\<forall>k. 0 < k \<and> k < length rows \<longrightarrow>
              gate_counter (replay_gate (0, 0, []) (take k rows)) < patience)
        \<and> (length rows < epochs \<longrightarrow> patience \<le> epochs_without_improvement fin)
        \<and> (\<forall>row\<in>set rows. \<exists>e g d c tr trf va vf ta tf nets' r r' r''.
                  row = CombinedRow e g d c tr trf va vf ta tf
                \<and> evaluate_model env nets' val_loader 5 r = Inr ((va, vf), r')
                \<and> evaluate_model env nets' test_loader 5 r' = Inr ((ta, tf), r''))"
proof -
  from assms have "\<exists>rng3 a b c d e f.
      cgan_epochs env lambda_gp alpha n patience train_loader val_loader test_loader
           [0..<epochs] (cgan_initial nets rng3 (CombinedRow 0 None None None a b c d e f)) = Inr fin"
    by (auto simp: train_combined_cgan_def split: sum.splits prod.splits) blast
  then obtain rng3 a b c d e f where
    run0: "cgan_epochs env lambda_gp alpha n patience train_loader val_loader test_loader
           [0..<epochs] (cgan_initial nets rng3 (CombinedRow 0 None None None a b c d e f)) = Inr fin"
    by blast
  define base where "base = CombinedRow 0 None None None a b c d e f"
  have base: "row_epoch base = 0" "is_data_row base" by (simp_all add: base_def)
  have run: "cgan_epochs env lambda_gp alpha n patience train_loader val_loader test_loader
           [0..<epochs] (cgan_initial nets rng3 base) = Inr fin"
    using run0 by (simp add: base_def)
  have g0: "gate_of (cgan_initial nets rng3 base) = (0, 0, [])"
    by (simp add: gate_of_def cgan_initial_def)
  from cgan_epochs_gate[OF run] obtain rows where
    k: "c_log fin = c_log (cgan_initial nets rng3 base) @ rows"
       "length rows \<le> length [0..<epochs]" "list_all is_data_row rows"
       "gate_of fin = replay_gate (gate_of (cgan_initial nets rng3 base)) rows"
       "\<forall>k. 0 < k \<and> k < length rows \<longrightarrow>
              gate_counter (replay_gate (gate_of (cgan_initial nets rng3 base)) (take k rows)) < patience"
       "length rows < length [0..<epochs] \<longrightarrow> patience \<le> epochs_without_improvement fin"
       "\<forall>row\<in>set rows. \<exists>e g d c tr trf va vf ta tf nets' r r' r''.
                  row = CombinedRow e g d c tr trf va vf ta tf
                \<and> evaluate_model env nets' val_loader 5 r = Inr ((va, vf), r')
                \<and> evaluate_model env nets' test_loader 5 r' = Inr ((ta, tf), r'')"
    by blast
  have d: "data_rows (c_log fin) = base # rows"
    using k(1,3) base(2) by (simp add: data_rows_def cgan_initial_def list_all_iff filter_id_conv)
  from d base(1) k(2,4,5,6,7) show ?thesis
    unfolding g0 by (intro exI[of _ base] exI[of _ rows]) simp
qed

section \<open>The epoch loop of the pretraining\<close>

lemma gan_batch_frame:
  assumes "gan_batch env lambda_gp lambda_rec b st = Inr st'"
  shows "gan_control st' = gan_control st
       \<and> (stop_training_g st \<longrightarrow> gan_frozen_g st' = gan_frozen_g st)
       \<and> (stop_training_d st \<longrightarrow> gan_frozen_d st' = gan_frozen_d st)"
proof -
  obtain nc adj labels where b: "b = (nc, adj, labels)" by (cases b)
  let ?g = "generator env Train (generator_sd (g_nets st)) (randn env (g_rng st) (length nc)) nc adj
              (derive_num_nodes nc)"
  let ?rv = "discriminator env (discriminator_sd (g_nets st)) nc adj"
  let ?fv = "discriminator env (discriminator_sd (g_nets st)) ?g adj"
  from assms obtain st1 st2 where
    1: "gan_critic_step env lambda_gp b (g_nets st) (g_rng st) ?g ?rv ?fv (st\<lparr>g_rng := Suc (g_rng st)\<rparr>) = Inr st1"
    and 2: "gan_accuracy_step ?rv ?fv st1 = Inr st2"
    and 3: "gan_generator_step env lambda_rec b (g_nets st) (g_rng st) ?g st2 = Inr st'"
    by (auto simp: b gan_batch_def gan_batch_body_def Let_def split: sum.splits)
  from 1 have a: "gan_control st1 = gan_control st \<and> gan_frozen_g st1 = gan_frozen_g st
      \<and> (stop_training_d st \<longrightarrow> gan_frozen_d st1 = gan_frozen_d st)"
    by (auto simp: b gan_critic_step_def gan_control_def gan_frozen_g_def gan_frozen_d_def Let_def
        split: sum.splits if_splits)
  from 2 have c: "gan_control st2 = gan_control st1 \<and> gan_frozen_g st2 = gan_frozen_g st1
      \<and> gan_frozen_d st2 = gan_frozen_d st1"
    by (auto simp: gan_accuracy_step_def gan_control_def gan_frozen_g_def gan_frozen_d_def Let_def
        split: if_splits)
  from 3 have d: "gan_control st' = gan_control st2 \<and> gan_frozen_d st' = gan_frozen_d st2
      \<and> (stop_training_g st2 \<longrightarrow> gan_frozen_g st' = gan_frozen_g st2)"
    by (auto simp: b gan_generator_step_def gan_control_def gan_frozen_g_def gan_frozen_d_def Let_def
        split: sum.splits if_splits)
  from a c have "stop_training_g st2 = stop_training_g st" by (simp add: gan_control_def)
  with a c d show ?thesis by simp
qed

lemma gan_batches_frame:
  "gan_batches env lambda_gp lambda_rec bs st = Inr st' \<Longrightarrow>
   gan_control st' = gan_control st
       \<and> (stop_training_g st \<longrightarrow> gan_frozen_g st' = gan_frozen_g st)
       \<and> (stop_training_d st \<longrightarrow> gan_frozen_d st' = gan_frozen_d st)"
proof (induction bs arbitrary: st)
  case Nil
  then show ?case by simp
next
  case (Cons b bs)
  from Cons.prems obtain st1 where
    1: "gan_batch env lambda_gp lambda_rec b st = Inr st1"
    and 2: "gan_batches env lambda_gp lambda_rec bs st1 = Inr st'"
    by (auto split: sum.splits)
  from gan_batch_frame[OF 1] have "stop_training_g st1 = stop_training_g st"
    "stop_training_d st1 = stop_training_d st" by (simp_all add: gan_control_def)
  with gan_batch_frame[OF 1] Cons.IH[OF 2] show ?case by simp
qed

lemma gan_epoch_effect:
  assumes "gan_epoch env lambda_gp lambda_rec patience data_loader epoch st = Inr st'"
  shows "\<exists>row g d.
           gan_log st' = gan_log st @ [row] \<and> row_epoch row = epoch + 1 \<and> is_data_row row
         \<and> row_generator_loss row = Some g \<and> row_discriminator_loss row = Some d
         \<and> best_g_loss st' = (if improves g (best_g_loss st) then Some g else best_g_loss st)
         \<and> g_epochs_without_improvement st' =
             (if improves g (best_g_loss st) then 0 else Suc (g_epochs_without_improvement st))
         \<and> stop_training_g st' =
             (stop_training_g st
              \<or> (\<not> improves g (best_g_loss st) \<and> patience \<le> Suc (g_epochs_without_improvement st)))
         \<and> best_d_loss st' = (if improves d (best_d_loss st) then Some d else best_d_loss st)
         \<and> d_epochs_without_improvement st' =
             (if improves d (best_d_loss st) then 0 else Suc (d_epochs_without_improvement st))
         \<and> stop_training_d st' =
             (stop_training_d st
              \<or> (\<not> improves d (best_d_loss st) \<and> patience \<le> Suc (d_epochs_without_improvement st)))
         \<and> (stop_training_g st \<longrightarrow> gan_frozen_g st' = gan_frozen_g st)
         \<and> (stop_training_d st \<longrightarrow> gan_frozen_d st' = gan_frozen_d st)"
proof -
  let ?st0 = "st\<lparr>total_g_loss := 0, total_d_loss := 0, total_reconstruction_loss := 0,
                 correct_real := 0, correct_fake := 0, total_real := 0, total_fake := 0\<rparr>"
  from assms obtain st1 where
    b: "gan_batches env lambda_gp lambda_rec data_loader ?st0 = Inr st1"
    by (auto simp: gan_epoch_def split: sum.splits)
  from gan_batches_frame[OF b] have f: "gan_control st1 = gan_control st"
    "stop_training_g st \<longrightarrow> gan_frozen_g st1 = gan_frozen_g st"
    "stop_training_d st \<longrightarrow> gan_frozen_d st1 = gan_frozen_d st"
    by (simp_all add: gan_control_def gan_frozen_g_def gan_frozen_d_def)
  define g where "g = total_g_loss st1 / real (length data_loader)"
  define d where "d = total_d_loss st1 / real (length data_loader)"
  define row where "row = GanRow (epoch + 1) g
      (total_reconstruction_loss st1 / real (length data_loader)) d
      (if total_real st1 + total_fake st1 > 0
                      then real (correct_real st1 + correct_fake st1)
                             / real (total_real st1 + total_fake st1) * 100
                    else 0)"
  from assms b have ne: "length data_loader \<noteq> 0"
    by (auto simp: gan_epoch_def split: if_splits)
  from assms b ne have st': "st' = (early_stopping_d patience d (early_stopping_g patience g st1))
      \<lparr>gan_log := gan_log (early_stopping_d patience d (early_stopping_g patience g st1)) @ [row]\<rparr>"
    by (simp add: gan_epoch_def Let_def g_def d_def row_def del: of_nat_add)
  have r: "row_epoch row = epoch + 1" "is_data_row row" "row_generator_loss row = Some g"
    "row_discriminator_loss row = Some d"
    by (simp_all add: row_def)
  from f(1) have c: "best_g_loss st1 = best_g_loss st" "best_d_loss st1 = best_d_loss st"
    "g_epochs_without_improvement st1 = g_epochs_without_improvement st"
    "d_epochs_without_improvement st1 = d_epochs_without_improvement st"
    "stop_training_g st1 = stop_training_g st" "stop_training_d st1 = stop_training_d st"
    "gan_log st1 = gan_log st"
    by (simp_all add: gan_control_def)
  have fr: "gan_frozen_g st' = gan_frozen_g st1" "gan_frozen_d st' = gan_frozen_d st1"
    by (simp_all add: st' gan_frozen_g_def gan_frozen_d_def early_stopping_g_def
        early_stopping_d_def Let_def)
  have main: "gan_log st' = gan_log st @ [row]
         \<and> best_g_loss st' = (if improves g (best_g_loss st) then Some g else best_g_loss st)
         \<and> g_epochs_without_improvement st' =
             (if improves g (best_g_loss st) then 0 else Suc (g_epochs_without_improvement st))
         \<and> stop_training_g st' =
             (stop_training_g st
              \<or> (\<not> improves g (best_g_loss st) \<and> patience \<le> Suc (g_epochs_without_improvement st)))
         \<and> best_d_loss st' = (if improves d (best_d_loss st) then Some d else best_d_loss st)
         \<and> d_epochs_without_improvement st' =
             (if improves d (best_d_loss st) then 0 else Suc (d_epochs_without_improvement st))
         \<and> stop_training_d st' =
             (stop_training_d st
              \<or> (\<not> improves d (best_d_loss st) \<and> patience \<le> Suc (d_epochs_without_improvement st)))"
    by (simp add: st' early_stopping_g_def early_stopping_d_def Let_def c)
  from main r f fr show ?thesis
    by (intro exI[of _ row] exI[of _ g] exI[of _ d]) simp
qed

lemma gan_epochs_stopped:
  "stop_training_g st \<Longrightarrow> stop_training_d st \<Longrightarrow>
   gan_epochs env lambda_gp lambda_rec patience data_loader es st = Inr st"
  by (cases es) simp_all

lemma gan_epochs_log:
  "gan_epochs env lambda_gp lambda_rec patience data_loader es st = Inr st' \<Longrightarrow>
   \<exists>k rows. k \<le> length es \<and> gan_log st' = gan_log st @ rows
        \<and> map row_epoch rows = map Suc (take k es) \<and> list_all is_data_row rows
        \<and> (\<not> (stop_training_g st' \<and> stop_training_d st') \<longrightarrow> k = length es)"
proof (induction es arbitrary: st)
  case Nil
  then show ?case by simp
next
  case (Cons e es)
  show ?case
  proof (cases "stop_training_g st \<and> stop_training_d st")
    case True
    with Cons.prems have "st' = st" by simp
    with True show ?thesis
      by (intro exI[of _ 0] exI[of _ "[]"]) simp
  next
    case False
    with Cons.prems obtain st1 where
      1: "gan_epoch env lambda_gp lambda_rec patience data_loader e st = Inr st1"
      and 2: "gan_epochs env lambda_gp lambda_rec patience data_loader es st1 = Inr st'"
      by (auto split: sum.splits)
    from gan_epoch_effect[OF 1] obtain row where
      row: "gan_log st1 = gan_log st @ [row]" "row_epoch row = e + 1" "is_data_row row"
      by blast
    from Cons.IH[OF 2] obtain k rows where
      k: "k \<le> length es" "gan_log st' = gan_log st1 @ rows"
         "map row_epoch rows = map Suc (take k es)" "list_all is_data_row rows"
         "\<not> (stop_training_g st' \<and> stop_training_d st') \<longrightarrow> k = length es"
      by blast
    with row show ?thesis
      by (intro exI[of _ "Suc k"] exI[of _ "row # rows"]) simp
  qed
qed

lemma pretraining_log_rows:
  assumes "train_gan env nets rng data_loader epochs lambda_gp lambda_rec patience = Inr st"
  shows "\<exists>N \<le> epochs. map row_epoch (data_rows (gan_log st)) = [1..<Suc N]
           \<and> length (data_rows (gan_log st)) = N
           \<and> (\<not> (stop_training_g st \<and> stop_training_d st) \<longrightarrow> N = epochs)"
proof -
  from assms have run: "gan_epochs env lambda_gp lambda_rec patience data_loader [0..<epochs]
      (gan_initial nets rng) = Inr st"
    by (simp add: train_gan_def)
  from gan_epochs_log[OF run] obtain k rows where
    k0: "k \<le> length [0..<epochs]" "gan_log st = gan_log (gan_initial nets rng) @ rows"
       "map row_epoch rows = map Suc (take k [0..<epochs])" "list_all is_data_row rows"
       "\<not> (stop_training_g st \<and> stop_training_d st) \<longrightarrow> k = length [0..<epochs]"
    by blast
  then have k: "k \<le> epochs" "\<not> (stop_training_g st \<and> stop_training_d st) \<longrightarrow> k = epochs"
    by simp_all
  have d: "data_rows (gan_log st) = rows"
    using k0(2,4) by (simp add: data_rows_def gan_initial_def list_all_iff filter_id_conv)
  have m: "map row_epoch rows = [Suc 0..<Suc k]"
    using k(1) k0(3) by (simp add: take_upt map_Suc_upt)
  then have "length rows = k"
    by (metis length_map length_upt diff_Suc_Suc diff_zero)
  with m d k show ?thesis
    by (intro exI[of _ k]) simp
qed

lemma gan_epoch_is_gan_row:
  assumes "gan_epoch env lambda_gp lambda_rec patience data_loader epoch st = Inr st'"
  shows "\<exists>row. gan_log st' = gan_log st @ [row] \<and> is_gan_row row"
proof -
  let ?st0 = "st\<lparr>total_g_loss := 0, total_d_loss := 0, total_reconstruction_loss := 0,
                 correct_real := 0, correct_fake := 0, total_real := 0, total_fake := 0\<rparr>"
  from assms obtain st1 where
    b: "gan_batches env lambda_gp lambda_rec data_loader ?st0 = Inr st1"
    by (auto simp: gan_epoch_def split: sum.splits)
  from gan_batches_frame[OF b] have f: "gan_log st1 = gan_log st"
    by (simp add: gan_control_def)
  from assms b have ne: "length data_loader \<noteq> 0"
    by (auto simp: gan_epoch_def split: if_splits)
  from assms b ne f show ?thesis
    by (auto simp: gan_epoch_def Let_def early_stopping_g_def early_stopping_d_def)
qed

lemma gan_epochs_gan_rows:
  "gan_epochs env lambda_gp lambda_rec patience data_loader es st = Inr st' \<Longrightarrow>
   \<exists>rows. gan_log st' = gan_log st @ rows \<and> length rows \<le> length es \<and> list_all is_gan_row rows"
proof (induction es arbitrary: st)
  case Nil
  then show ?case by simp
next
  case (Cons e es)
  show ?case
  proof (cases "stop_training_g st \<and> stop_training_d st")
    case True
    with Cons.prems have "st' = st" by simp
    then show ?thesis by (intro exI[of _ "[]"]) simp
  next
    case False
    with Cons.prems obtain st1 where
      1: "gan_epoch env lambda_gp lambda_rec patience data_loader e st = Inr st1"
      and 2: "gan_epochs env lambda_gp lambda_rec patience data_loader es st1 = Inr st'"
      by (auto split: sum.splits)
    from gan_epoch_is_gan_row[OF 1] obtain row where
      row: "gan_log st1 = gan_log st @ [row]" "is_gan_row row" by blast
    from Cons.IH[OF 2] obtain rows where
      "gan_log st' = gan_log st1 @ rows" "length rows \<le> length es" "list_all is_gan_row rows"
      by blast
    with row show ?thesis by (intro exI[of _ "row # rows"]) simp
  qed
qed

lemma is_gan_row_losses:
  "is_gan_row r \<Longrightarrow> \<exists>g d. row_generator_loss r = Some g \<and> row_discriminator_loss r = Some d"
  by (cases r) simp_all

lemma is_gan_row_data: "is_gan_row r \<Longrightarrow> is_data_row r"
  by (cases r) simp_all

lemma generator_losses_mem:
  "r \<in> set rows \<Longrightarrow> row_generator_loss r = Some g \<Longrightarrow> g \<in> set (generator_losses rows)"
  by (induction rows) (auto simp: generator_losses_def map_filter_simps split: option.splits)

lemma discriminator_losses_mem:
  "r \<in> set rows \<Longrightarrow> row_discriminator_loss r = Some d \<Longrightarrow> d \<in> set (discriminator_losses rows)"
  by (induction rows) (auto simp: discriminator_losses_def map_filter_simps split: option.splits)

lemma gan_epochs_no_improvement_g:
  assumes "gan_epochs env lambda_gp lambda_rec patience data_loader es st = Inr st'"
    and "gan_log st' = gan_log st @ rows" "length rows = length es"
    and "best_g_loss st = Some b"
    and "\<forall>r \<in> set rows. \<exists>g. row_generator_loss r = Some g \<and> b < g"
  shows "g_epochs_without_improvement st' = g_epochs_without_improvement st + length es
       \<and> best_g_loss st' = Some b
       \<and> stop_training_g st' =
           (stop_training_g st \<or> (es \<noteq> [] \<and> patience \<le> g_epochs_without_improvement st + length es))"
  using assms
proof (induction es arbitrary: st rows)
  case Nil
  then show ?case by simp
next
  case (Cons e es)
  have nb: "\<not> (stop_training_g st \<and> stop_training_d st)"
  proof
    assume "stop_training_g st \<and> stop_training_d st"
    with Cons.prems(1) have "st' = st" by simp
    with Cons.prems(2,3) show False by simp
  qed
  with Cons.prems(1) obtain st1 where
    1: "gan_epoch env lambda_gp lambda_rec patience data_loader e st = Inr st1"
    and 2: "gan_epochs env lambda_gp lambda_rec patience data_loader es st1 = Inr st'"
    by (auto split: sum.splits)
  from gan_epoch_effect[OF 1] obtain row g where
    row: "gan_log st1 = gan_log st @ [row]" "row_generator_loss row = Some g"
    and eff: "best_g_loss st1 = (if improves g (best_g_loss st) then Some g else best_g_loss st)"
      "g_epochs_without_improvement st1 =
             (if improves g (best_g_loss st) then 0 else Suc (g_epochs_without_improvement st))"
      "stop_training_g st1 =
             (stop_training_g st
              \<or> (\<not> improves g (best_g_loss st) \<and> patience \<le> Suc (g_epochs_without_improvement st)))"
    by blast
  from gan_epochs_gan_rows[OF 2] obtain rows' where
    rows': "gan_log st' = gan_log st1 @ rows'" "length rows' \<le> length es"
    by blast
  from Cons.prems(2) row(1) rows'(1) have split: "rows = row # rows'" by simp
  with Cons.prems(3) have len: "length rows' = length es" by simp
  from split Cons.prems(5) row(2) have "b < g" by auto
  then have ni: "\<not> improves g (best_g_loss st)" by (simp add: improves_def Cons.prems(4))
  from split Cons.prems(5) have all': "\<forall>r \<in> set rows'. \<exists>g. row_generator_loss r = Some g \<and> b < g"
    by simp
  have b1: "best_g_loss st1 = Some b" using eff(1) ni Cons.prems(4) by simp
  from Cons.IH[OF 2 rows'(1) len b1 all'] eff ni show ?case by auto
qed

lemma gan_epochs_no_improvement_d:
  assumes "gan_epochs env lambda_gp lambda_rec patience data_loader es st = Inr st'"
    and "gan_log st' = gan_log st @ rows" "length rows = length es"
    and "best_d_loss st = Some b"
    and "\<forall>r \<in> set rows. \<exists>d. row_discriminator_loss r = Some d \<and> b < d"
  shows "d_epochs_without_improvement st' = d_epochs_without_improvement st + length es
       \<and> best_d_loss st' = Some b
       \<and> stop_training_d st' =
           (stop_training_d st \<or> (es \<noteq> [] \<and> patience \<le> d_epochs_without_improvement st + length es))"
  using assms
proof (induction es arbitrary: st rows)
  case Nil
  then show ?case by simp
next
  case (Cons e es)
  have nb: "\<not> (stop_training_g st \<and> stop_training_d st)"
  proof
    assume "stop_training_g st \<and> stop_training_d st"
    with Cons.prems(1) have "st' = st" by simp
    with Cons.prems(2,3) show False by simp
  qed
  with Cons.prems(1) obtain st1 where
    1: "gan_epoch env lambda_gp lambda_rec patience data_loader e st = Inr st1"
    and 2: "gan_epochs env lambda_gp lambda_rec patience data_loader es st1 = Inr st'"
    by (auto split: sum.splits)
  from gan_epoch_effect[OF 1] obtain row d where
    row: "gan_log st1 = gan_log st @ [row]" "row_discriminator_loss row = Some d"
    and eff: "best_d_loss st1 = (if improves d (best_d_loss st) then Some d else best_d_loss st)"
      "d_epochs_without_improvement st1 =
             (if improves d (best_d_loss st) then 0 else Suc (d_epochs_without_improvement st))"
      "stop_training_d st1 =
             (stop_training_d st
              \<or> (\<not> improves d (best_d_loss st) \<and> patience \<le> Suc (d_epochs_without_improvement st)))"
    by blast
  from gan_epochs_gan_rows[OF 2] obtain rows' where
    rows': "gan_log st' = gan_log st1 @ rows'" "length rows' \<le> length es"
    by blast
  from Cons.prems(2) row(1) rows'(1) have split: "rows = row # rows'" by simp
  with Cons.prems(3) have len: "length rows' = length es" by simp
  from split Cons.prems(5) row(2) have "b < d" by auto
  then have ni: "\<not> improves d (best_d_loss st)" by (simp add: improves_def Cons.prems(4))
  from split Cons.prems(5) have all': "\<forall>r \<in> set rows'. \<exists>d. row_discriminator_loss r = Some d \<and> b < d"
    by simp
  have b1: "best_d_loss st1 = Some b" using eff(1) ni Cons.prems(4) by simp
  from Cons.IH[OF 2 rows'(1) len b1 all'] eff ni show ?case by auto
qed

lemmas demo_gan_simps =
  gan_epoch_def gan_batch_def gan_batch_body_def gan_critic_step_def gan_accuracy_step_def
  gan_generator_step_def early_stopping_g_def early_stopping_d_def improves_def
  compute_gradient_penalty_def same_shape3_def has_shape3_def size1_def interpolate_samples_def
  interpolate_adj_def mse_loss_def mean_t_def median_t_def l2_norm_def derive_num_nodes_def
  non_zero_nodes_mask_def demo_env_def demo_nets_def demo_batch_def Let_def

lemma demo_gan_first_epoch:
  "gan_epoch demo_env 1 100 patience [demo_batch] 0 (gan_initial demo_nets 0) = Inr demo_gan_epoch1"
  by (simp add: demo_gan_simps gan_initial_def demo_gan_epoch1_def)

lemma demo_gan_second_epoch:
  "gan_epoch demo_env 1 100 1 [demo_batch] 1 demo_gan_epoch1 = Inr demo_gan_epoch2"
  by (simp add: demo_gan_simps demo_gan_epoch1_def demo_gan_epoch2_def)


lemma demo_train_gan_one:
  "train_gan demo_env demo_nets 0 [demo_batch] 1 1 100 patience = Inr demo_gan_epoch1"
  by (simp add: train_gan_def demo_gan_first_epoch gan_initial_def[of demo_nets 0, symmetric])
    (simp add: gan_initial_def)

lemma demo_train_gan_two:
  "train_gan demo_env demo_nets 0 [demo_batch] 2 1 100 1 = Inr demo_gan_epoch2"
proof -
  have u: "[0..<2] = [0, 1]" by (simp add: upt_rec)
  have i: "\<not> (stop_training_g (gan_initial demo_nets 0) \<and> stop_training_d (gan_initial demo_nets 0))"
    by (simp add: gan_initial_def)
  have j: "\<not> (stop_training_g demo_gan_epoch1 \<and> stop_training_d demo_gan_epoch1)"
    by (simp add: demo_gan_epoch1_def)
  show ?thesis
    unfolding train_gan_def u
    by (simp only: gan_epochs.simps i j if_False demo_gan_first_epoch demo_gan_second_epoch
        sum.case)
qed

lemma gan_epochs_frozen:
  "gan_epochs env lambda_gp lambda_rec patience data_loader es st = Inr st' \<Longrightarrow>
   (stop_training_g st \<longrightarrow> stop_training_g st' \<and> gan_frozen_g st' = gan_frozen_g st)
   \<and> (stop_training_d st \<longrightarrow> stop_training_d st' \<and> gan_frozen_d st' = gan_frozen_d st)"
proof (induction es arbitrary: st)
  case Nil
  then show ?case by simp
next
  case (Cons e es)
  show ?case
  proof (cases "stop_training_g st \<and> stop_training_d st")
    case True
    with Cons.prems have "st' = st" by simp
    then show ?thesis by simp
  next
    case False
    with Cons.prems obtain st1 where
      1: "gan_epoch env lambda_gp lambda_rec patience data_loader e st = Inr st1"
      and 2: "gan_epochs env lambda_gp lambda_rec patience data_loader es st1 = Inr st'"
      by (auto split: sum.splits)
    from gan_epoch_effect[OF 1] have
      "stop_training_g st \<longrightarrow> stop_training_g st1 \<and> gan_frozen_g st1 = gan_frozen_g st"
      "stop_training_d st \<longrightarrow> stop_training_d st1 \<and> gan_frozen_d st1 = gan_frozen_d st"
      by auto
    with Cons.IH[OF 2] show ?thesis by auto
  qed
qed

lemma sorted_wrt_head_less:
  "sorted_wrt (<) (x # xs) \<Longrightarrow> y \<in> set xs \<Longrightarrow> x < (y::real)"
  by simp

lemma data_rows_gan_rows: "list_all is_gan_row rows \<Longrightarrow> data_rows rows = rows"
  by (induction rows) (simp_all add: data_rows_def is_gan_row_data)

lemma strictly_increasing_sets_flag_g:
  assumes run: "train_gan env nets rng data_loader k lambda_gp lambda_rec patience = Inr fin"
    and p: "1 \<le> patience"
    and len: "length (data_rows (gan_log fin)) = k"
    and inc: "sorted_wrt (<) (generator_losses (gan_log fin))"
  shows "stop_training_g fin \<longleftrightarrow> patience + 1 \<le> k"
proof (cases k)
  case 0
  with run have "fin = gan_initial nets rng" by (simp add: train_gan_def)
  with 0 show ?thesis by (simp add: gan_initial_def)
next
  case (Suc m)
  let ?init = "gan_initial nets rng"
  have u: "[0..<k] = 0 # [1..<Suc m]" by (simp add: Suc upt_conv_Cons)
  have "\<not> (stop_training_g ?init \<and> stop_training_d ?init)" by (simp add: gan_initial_def)
  with run obtain st1 where
    1: "gan_epoch env lambda_gp lambda_rec patience data_loader 0 ?init = Inr st1"
    and 2: "gan_epochs env lambda_gp lambda_rec patience data_loader [1..<Suc m] st1 = Inr fin"
    by (auto simp: train_gan_def u split: sum.splits)
  from gan_epoch_effect[OF 1] obtain row g where
    row: "gan_log st1 = gan_log ?init @ [row]" "is_data_row row" "row_generator_loss row = Some g"
    and eff: "best_g_loss st1 = (if improves g (best_g_loss ?init) then Some g else best_g_loss ?init)"
      "g_epochs_without_improvement st1 =
             (if improves g (best_g_loss ?init) then 0 else Suc (g_epochs_without_improvement ?init))"
      "stop_training_g st1 =
             (stop_training_g ?init
              \<or> (\<not> improves g (best_g_loss ?init) \<and> patience \<le> Suc (g_epochs_without_improvement ?init)))"
    by blast
  have im: "improves g (best_g_loss ?init)" by (simp add: improves_def gan_initial_def)
  from eff im have st1: "best_g_loss st1 = Some g" "g_epochs_without_improvement st1 = 0"
    "\<not> stop_training_g st1"
    by (simp_all add: gan_initial_def)
  from gan_epochs_gan_rows[OF 2] obtain rows where
    rows: "gan_log fin = gan_log st1 @ rows" "length rows \<le> length [1..<Suc m]"
      "list_all is_gan_row rows"
    by blast
  have log: "gan_log fin = gan_log ?init @ row # rows" using rows(1) row(1) by simp
  have dr: "data_rows (gan_log fin) = row # rows"
    using row(2) data_rows_gan_rows[OF rows(3)]
    by (simp add: log data_rows_def gan_initial_def)
  with len Suc have l: "length rows = length [1..<Suc m]" by simp
  have gl: "generator_losses (gan_log fin) = g # generator_losses rows"
    by (simp add: log generator_losses_def gan_initial_def map_filter_simps row(3))
  have all: "\<forall>r \<in> set rows. \<exists>g'. row_generator_loss r = Some g' \<and> g < g'"
  proof
    fix r assume r: "r \<in> set rows"
    with rows(3) have "is_gan_row r" by (simp add: list_all_iff)
    from is_gan_row_losses[OF this] obtain g' where g': "row_generator_loss r = Some g'" by blast
    from generator_losses_mem[OF r g'] inc gl have "g < g'"
      using sorted_wrt_head_less by metis
    with g' show "\<exists>g'. row_generator_loss r = Some g' \<and> g < g'" by simp
  qed
  from gan_epochs_no_improvement_g[OF 2 rows(1) l st1(1) all] st1 p Suc
  show ?thesis by auto
qed

lemma strictly_increasing_sets_flag_d:
  assumes run: "train_gan env nets rng data_loader k lambda_gp lambda_rec patience = Inr fin"
    and p: "1 \<le> patience"
    and len: "length (data_rows (gan_log fin)) = k"
    and inc: "sorted_wrt (<) (discriminator_losses (gan_log fin))"
  shows "stop_training_d fin \<longleftrightarrow> patience + 1 \<le> k"
proof (cases k)
  case 0
  with run have "fin = gan_initial nets rng" by (simp add: train_gan_def)
  with 0 show ?thesis by (simp add: gan_initial_def)
next
  case (Suc m)
  let ?init = "gan_initial nets rng"
  have u: "[0..<k] = 0 # [1..<Suc m]" by (simp add: Suc upt_conv_Cons)
  have "\<not> (stop_training_g ?init \<and> stop_training_d ?init)" by (simp add: gan_initial_def)
  with run obtain st1 where
    1: "gan_epoch env lambda_gp lambda_rec patience data_loader 0 ?init = Inr st1"
    and 2: "gan_epochs env lambda_gp lambda_rec patience data_loader [1..<Suc m] st1 = Inr fin"
    by (auto simp: train_gan_def u split: sum.splits)
  from gan_epoch_effect[OF 1] obtain row d where
    row: "gan_log st1 = gan_log ?init @ [row]" "is_data_row row" "row_discriminator_loss row = Some d"
    and eff: "best_d_loss st1 = (if improves d (best_d_loss ?init) then Some d else best_d_loss ?init)"
      "d_epochs_without_improvement st1 =
             (if improves d (best_d_loss ?init) then 0 else Suc (d_epochs_without_improvement ?init))"
      "stop_training_d st1 =
             (stop_training_d ?init
              \<or> (\<not> improves d (best_d_loss ?init) \<and> patience \<le> Suc (d_epochs_without_improvement ?init)))"
    by blast
  have im: "improves d (best_d_loss ?init)" by (simp add: improves_def gan_initial_def)
  from eff im have st1: "best_d_loss st1 = Some d" "d_epochs_without_improvement st1 = 0"
    "\<not> stop_training_d st1"
    by (simp_all add: gan_initial_def)
  from gan_epochs_gan_rows[OF 2] obtain rows where
    rows: "gan_log fin = gan_log st1 @ rows" "length rows \<le> length [1..<Suc m]"
      "list_all is_gan_row rows"
    by blast
  have log: "gan_log fin = gan_log ?init @ row # rows" using rows(1) row(1) by simp
  have dr: "data_rows (gan_log fin) = row # rows"
    using row(2) data_rows_gan_rows[OF rows(3)]
    by (simp add: log data_rows_def gan_initial_def)
  with len Suc have l: "length rows = length [1..<Suc m]" by simp
  have gl: "discriminator_losses (gan_log fin) = d # discriminator_losses rows"
    by (simp add: log discriminator_losses_def gan_initial_def map_filter_simps row(3))
  have all: "\<forall>r \<in> set rows. \<exists>d'. row_discriminator_loss r = Some d' \<and> d < d'"
  proof
    fix r assume r: "r \<in> set rows"
    with rows(3) have "is_gan_row r" by (simp add: list_all_iff)
    from is_gan_row_losses[OF this] obtain d' where d': "row_discriminator_loss r = Some d'" by blast
    from discriminator_losses_mem[OF r d'] inc gl have "d < d'"
      using sorted_wrt_head_less by metis
    with d' show "\<exists>d'. row_discriminator_loss r = Some d' \<and> d < d'" by simp
  qed
  from gan_epochs_no_improvement_d[OF 2 rows(1) l st1(1) all] st1 p Suc
  show ?thesis by auto
qed

text \<open>
  Claim C4, as the code has it. For a patience of at least 1, and for each network on its
  own: when a pretraining run of \<open>k\<close> epochs has executed all of them and the
  network's epoch-average losses in the metrics file are strictly
  increasing, the network's stop flag is set at the end of the run exactly when
  \<open>k \<ge> patience + 1\<close>: not after \<open>patience\<close> epochs, and after \<open>patience + 1\<close>. Any
  epoch whose average loss is below the best so far resets the network's counter to 0 and
  stores the loss as the new minimum. A flag that is set stays set through every later
  epoch, and the network's optimizer step count, parameters and optimizer state no longer
  change. From a state with both flags set the epoch loop returns at once.
\<close>

theorem pretraining_early_stopping:
  "(train_gan env nets rng data_loader k lambda_gp lambda_rec patience = Inr fin
      \<and> 1 \<le> patience \<and> length (data_rows (gan_log fin)) = k \<longrightarrow>
        (sorted_wrt (<) (generator_losses (gan_log fin)) \<longrightarrow>
           (stop_training_g fin \<longleftrightarrow> patience + 1 \<le> k))
      \<and> (sorted_wrt (<) (discriminator_losses (gan_log fin)) \<longrightarrow>
           (stop_training_d fin \<longleftrightarrow> patience + 1 \<le> k)))
   \<and> (gan_epoch env lambda_gp lambda_rec patience data_loader epoch st = Inr st' \<longrightarrow>
        (\<exists>row g d. gan_log st' = gan_log st @ [row]
           \<and> row_generator_loss row = Some g \<and> row_discriminator_loss row = Some d
           \<and> (improves g (best_g_loss st) \<longrightarrow>
                best_g_loss st' = Some g \<and> g_epochs_without_improvement st' = 0)
           \<and> (improves d (best_d_loss st) \<longrightarrow>
                best_d_loss st' = Some d \<and> d_epochs_without_improvement st' = 0)))
   \<and> (gan_epochs env lambda_gp lambda_rec patience data_loader es st = Inr st'' \<longrightarrow>
        (stop_training_g st \<longrightarrow> stop_training_g st'' \<and> gan_frozen_g st'' = gan_frozen_g st)
      \<and> (stop_training_d st \<longrightarrow> stop_training_d st'' \<and> gan_frozen_d st'' = gan_frozen_d st))
   \<and> (stop_training_g st \<and> stop_training_d st \<longrightarrow>
        gan_epochs env lambda_gp lambda_rec patience data_loader es st = Inr st)"
proof -
  have A: "train_gan env nets rng data_loader k lambda_gp lambda_rec patience = Inr fin
      \<and> 1 \<le> patience \<and> length (data_rows (gan_log fin)) = k \<longrightarrow>
        (sorted_wrt (<) (generator_losses (gan_log fin)) \<longrightarrow>
           (stop_training_g fin \<longleftrightarrow> patience + 1 \<le> k))
      \<and> (sorted_wrt (<) (discriminator_losses (gan_log fin)) \<longrightarrow>
           (stop_training_d fin \<longleftrightarrow> patience + 1 \<le> k))"
    using strictly_increasing_sets_flag_g[of env nets rng data_loader k lambda_gp lambda_rec
        patience fin]
      strictly_increasing_sets_flag_d[of env nets rng data_loader k lambda_gp lambda_rec
        patience fin]
    by blast
  have B: "gan_epoch env lambda_gp lambda_rec patience data_loader epoch st = Inr st' \<longrightarrow>
        (\<exists>row g d. gan_log st' = gan_log st @ [row]
           \<and> row_generator_loss row = Some g \<and> row_discriminator_loss row = Some d
           \<and> (improves g (best_g_loss st) \<longrightarrow>
                best_g_loss st' = Some g \<and> g_epochs_without_improvement st' = 0)
           \<and> (improves d (best_d_loss st) \<longrightarrow>
                best_d_loss st' = Some d \<and> d_epochs_without_improvement st' = 0))"
  proof
    assume e: "gan_epoch env lambda_gp lambda_rec patience data_loader epoch st = Inr st'"
    from gan_epoch_effect[OF e] obtain row g d where
      "gan_log st' = gan_log st @ [row]" "row_generator_loss row = Some g"
      "row_discriminator_loss row = Some d"
      "best_g_loss st' = (if improves g (best_g_loss st) then Some g else best_g_loss st)"
      "g_epochs_without_improvement st' =
               (if improves g (best_g_loss st) then 0 else Suc (g_epochs_without_improvement st))"
      "best_d_loss st' = (if improves d (best_d_loss st) then Some d else best_d_loss st)"
      "d_epochs_without_improvement st' =
               (if improves d (best_d_loss st) then 0 else Suc (d_epochs_without_improvement st))"
      by blast
    then show "\<exists>row g d. gan_log st' = gan_log st @ [row]
             \<and> row_generator_loss row = Some g \<and> row_discriminator_loss row = Some d
             \<and> (improves g (best_g_loss st) \<longrightarrow>
                  best_g_loss st' = Some g \<and> g_epochs_without_improvement st' = 0)
             \<and> (improves d (best_d_loss st) \<longrightarrow>
                  best_d_loss st' = Some d \<and> d_epochs_without_improvement st' = 0)"
      by (intro exI[of _ row] exI[of _ g] exI[of _ d]) simp
  qed
  have C: "gan_epochs env lambda_gp lambda_rec patience data_loader es st = Inr st'' \<longrightarrow>
        (stop_training_g st \<longrightarrow> stop_training_g st'' \<and> gan_frozen_g st'' = gan_frozen_g st)
      \<and> (stop_training_d st \<longrightarrow> stop_training_d st'' \<and> gan_frozen_d st'' = gan_frozen_d st)"
    using gan_epochs_frozen[of env lambda_gp lambda_rec patience data_loader es st st''] by blast
  have D: "stop_training_g st \<and> stop_training_d st \<longrightarrow>
        gan_epochs env lambda_gp lambda_rec patience data_loader es st = Inr st"
    by (simp add: gan_epochs_stopped)
  show ?thesis by (rule conjI[OF A conjI[OF B conjI[OF C D]]])
qed


text \<open>
  The concrete run with patience 1: after one epoch neither flag is set, after two both
  are, with losses 1, 902 for the generator and 1, 2 for the critic; two more epochs from
  there leave the state as it is.
\<close>

theorem pretraining_early_stopping_witness:
  "train_gan demo_env demo_nets 0 [demo_batch] 2 1 100 1 = Inr demo_gan_epoch2
   \<and> generator_losses (gan_log demo_gan_epoch2) = [1, 902]
   \<and> discriminator_losses (gan_log demo_gan_epoch2) = [1, 2]
   \<and> stop_training_g demo_gan_epoch2 \<and> stop_training_d demo_gan_epoch2
   \<and> train_gan demo_env demo_nets 0 [demo_batch] 1 1 100 1 = Inr demo_gan_epoch1
   \<and> \<not> stop_training_g demo_gan_epoch1 \<and> \<not> stop_training_d demo_gan_epoch1
   \<and> best_g_loss demo_gan_epoch1 = Some 1 \<and> g_epochs_without_improvement demo_gan_epoch1 = 0
   \<and> best_d_loss demo_gan_epoch1 = Some 1 \<and> d_epochs_without_improvement demo_gan_epoch1 = 0
   \<and> gan_epochs demo_env 1 100 1 [demo_batch] [2, 3] demo_gan_epoch2 = Inr demo_gan_epoch2
   \<and> gan_frozen_g demo_gan_epoch2 = (2, 2, 2)"
proof -
  have l2: "generator_losses (gan_log demo_gan_epoch2) = [1, 902]"
    "discriminator_losses (gan_log demo_gan_epoch2) = [1, 2]"
    "length (data_rows (gan_log demo_gan_epoch2)) = 2"
    by (simp_all add: generator_losses_def discriminator_losses_def map_filter_simps
        data_rows_def demo_gan_epoch2_def)
  have l1: "sorted_wrt (<) (generator_losses (gan_log demo_gan_epoch1))"
    "sorted_wrt (<) (discriminator_losses (gan_log demo_gan_epoch1))"
    "length (data_rows (gan_log demo_gan_epoch1)) = 1"
    by (simp_all add: generator_losses_def discriminator_losses_def map_filter_simps
        data_rows_def demo_gan_epoch1_def)
  have i: "improves 1 (best_g_loss (gan_initial demo_nets 0))"
    "improves 1 (best_d_loss (gan_initial demo_nets 0))"
    by (simp_all add: improves_def gan_initial_def)
  note t2 = pretraining_early_stopping[where env = demo_env and nets = demo_nets and rng = 0
      and data_loader = "[demo_batch]" and k = 2 and lambda_gp = 1 and lambda_rec = 100
      and patience = 1 and fin = demo_gan_epoch2 and st = demo_gan_epoch2 and es = "[2, 3]"
      and st'' = demo_gan_epoch2]
  note t1 = pretraining_early_stopping[where env = demo_env and nets = demo_nets and rng = 0
      and data_loader = "[demo_batch]" and k = 1 and lambda_gp = 1 and lambda_rec = 100
      and patience = 1 and fin = demo_gan_epoch1 and st = "gan_initial demo_nets 0"
      and epoch = 0 and st' = demo_gan_epoch1]
  have a: "stop_training_g demo_gan_epoch2 \<and> stop_training_d demo_gan_epoch2"
    using t2[THEN conjunct1] demo_train_gan_two l2 by simp
  have b: "gan_epochs demo_env 1 100 1 [demo_batch] [2, 3] demo_gan_epoch2 = Inr demo_gan_epoch2"
    using t2[THEN conjunct2, THEN conjunct2, THEN conjunct2] a by simp
  have c: "\<not> stop_training_g demo_gan_epoch1 \<and> \<not> stop_training_d demo_gan_epoch1"
    using t1[THEN conjunct1] demo_train_gan_one[of 1] l1 by simp
  have d: "best_g_loss demo_gan_epoch1 = Some 1 \<and> g_epochs_without_improvement demo_gan_epoch1 = 0
      \<and> best_d_loss demo_gan_epoch1 = Some 1 \<and> d_epochs_without_improvement demo_gan_epoch1 = 0"
    using t1[THEN conjunct2, THEN conjunct1] demo_gan_first_epoch[of 1]
    by (simp add: demo_gan_epoch1_def)
  have e: "gan_frozen_g demo_gan_epoch2 = (2, 2, 2)"
    using t2[THEN conjunct2, THEN conjunct2, THEN conjunct1] b
    by (simp add: gan_frozen_g_def demo_gan_epoch2_def)
  from a b c d e l2 demo_train_gan_two demo_train_gan_one[of 1] show ?thesis by simp
qed

text \<open>
  With patience 0 the claim's epoch \<open>patience + 1\<close> is the first one. The first average
  is below the initial infinity, so the epoch counts as an improvement and the test
  against the patience, which stands in the other branch, is not reached: after one epoch
  no flag is set.
\<close>

theorem pretraining_patience_zero_counterexample:
  "train_gan demo_env demo_nets 0 [demo_batch] 1 1 100 0 = Inr demo_gan_epoch1
   \<and> length (data_rows (gan_log demo_gan_epoch1)) = 1
   \<and> sorted_wrt (<) (generator_losses (gan_log demo_gan_epoch1))
   \<and> sorted_wrt (<) (discriminator_losses (gan_log demo_gan_epoch1))
   \<and> \<not> stop_training_g demo_gan_epoch1 \<and> \<not> stop_training_d demo_gan_epoch1"
  using demo_train_gan_one[of 0]
  by (simp add: generator_losses_def discriminator_losses_def map_filter_simps
      data_rows_def demo_gan_epoch1_def)

section \<open>Checkpoints and rows of the combined loop\<close>

lemma demo_forward_pass_any:
  "forward_pass demo_env nets [[[1, 0]]] [[[1]]] [Suc 0] (randn demo_env k (length [[[1, 0 :: real]]]))
     = Inr [(0, 1 + 2 * real k)]"
  by (simp add: forward_pass_def demo_env_def render_images_def)

lemma demo_predict_batch:
  "predict_batch demo_env nets 5 [[[1, 0]]] [[[1]]] rng = Inr ([1], rng + 5)"
proof -
  define outs where "outs = (\<lambda>k. [(0 :: real, 1 + 2 * real (rng + k))])"
  define total where "total = (\<Sum>k<5. snd (outs k ! 0))"
  have h: "\<forall>k<5. forward_pass demo_env nets [[[1, 0]]] [[[1]]] [Suc 0]
                   (randn demo_env (rng + k) (length [[[1, 0 :: real]]])) = Inr (outs k)
               \<and> length (outs k) = length [(0 :: real, 0 :: real)]"
    using demo_forward_pass_any by (simp add: outs_def)
  have z: "(\<Sum>k<5. fst (outs k ! 0)) = 0" by (simp add: outs_def)
  have pos: "0 < total"
    unfolding total_def by (rule sum_pos) (simp_all add: lessThan_empty_iff outs_def)
  have a: "accumulate_logits demo_env nets [[[1, 0]]] [[[1]]] [Suc 0] 5 rng [(0, 0)] =
             Inr ([(0, total)], rng + 5)"
    using accumulate_logits_sum[OF h] by (simp add: z total_def)
  show ?thesis
    using pos
    by (simp add: predict_batch_def predict_batch_body_def demo_num_nodes a argmax2_def)
qed

lemma demo_evaluate_model:
  "evaluate_model demo_env nets [demo_batch] 5 rng = Inr ((100, demo_f1), rng + 5)"
  by (simp add: evaluate_model_def evaluate_batch_def demo_batch_def demo_predict_batch
      count_equal_def broadcast_zip_def demo_calculate_f1 demo_f1_def case_prod_beta)


lemma demo_scheduler_step: "scheduler_step demo_env = (\<lambda>which p. p)"
  by (simp add: demo_env_def)

lemmas demo_cgan_simps =
  cgan_batch_def cgan_batch_body_def cgan_critic_step_def cgan_generator_step_def
  numeral_2_eq_2 stack_mean_def mean_t_def compute_gradient_penalty_def same_shape3_def
  has_shape3_def size1_def interpolate_samples_def interpolate_adj_def l2_norm_def
  render_images_def calculate_f1_def tensor_mul_def count_equal_def broadcast_zip_def
  argmax2_def derive_num_nodes_def non_zero_nodes_mask_def demo_env_def demo_nets_def
  demo_batch_def demo_f1_def Let_def case_prod_beta

lemma demo_cgan_batch_second:
  "cgan_batch demo_env 5 30 2 demo_batch
     (demo_cgan_epoch1\<lparr>c_total_g_loss := 0, c_total_d_loss := 0, c_total_c_loss := 0,
                        correct_train := 0, total_train := 0, total_f1_train := 0\<rparr>) =
     Inr (demo_cgan_epoch1
            \<lparr>c_nets := \<lparr>generator_sd = 2, discriminator_sd = 2, classifier_sd = 2,
                        optimizer_g_sd = 2, optimizer_d_sd = 2, optimizer_c_sd = 2\<rparr>,
             c_rng := 37, c_steps_g := 2, c_steps_d := 2, c_steps_c := 2,
             c_total_g_loss := 1952, c_total_d_loss := 6, c_total_c_loss := 65,
             correct_train := 1, total_train := 1, total_f1_train := demo_f1\<rparr>)"
  by (simp add: demo_cgan_simps demo_cgan_epoch1_def)

lemma demo_cgan_first_epoch:
  "cgan_epoch demo_env 5 30 2 [demo_batch] [demo_batch] [demo_batch] 0 demo_cgan_state =
     Inr demo_cgan_epoch1"
proof -
  have r: "demo_cgan_state\<lparr>c_total_g_loss := 0, c_total_d_loss := 0, c_total_c_loss := 0,
                        correct_train := 0, total_train := 0, total_f1_train := 0\<rparr>
           = demo_cgan_state"
    by (simp add: demo_cgan_state_def cgan_initial_def)
  show ?thesis
    unfolding cgan_epoch_def r
    by (simp only: cgan_batches.simps demo_cgan_batch sum.case)
      (simp add: demo_evaluate_model demo_scheduler_step check_improvement_def Let_def
        demo_cgan_epoch1_def demo_cgan_state_def cgan_initial_def)
qed

lemma demo_cgan_second_epoch:
  "cgan_epoch demo_env 5 30 2 [demo_batch] [demo_batch] [demo_batch] 1 demo_cgan_epoch1 =
     Inr demo_cgan_epoch2"
  unfolding cgan_epoch_def
  by (simp only: cgan_batches.simps demo_cgan_batch_second sum.case)
    (simp add: demo_evaluate_model demo_scheduler_step check_improvement_def Let_def
      demo_cgan_epoch1_def demo_cgan_epoch2_def demo_cgan_state_def cgan_initial_def)

lemma demo_train_combined:
  "train_combined_cgan demo_env demo_nets 0 [demo_batch] [demo_batch] [demo_batch] 2 5 5 30 2 =
     Inr demo_cgan_epoch2"
proof -
  have u: "[0..<2] = [0, 1]" by (simp add: upt_rec)
  have e: "\<not> 5 \<le> epochs_without_improvement demo_cgan_epoch1"
    "\<not> 5 \<le> epochs_without_improvement demo_cgan_epoch2"
    by (simp_all add: demo_cgan_epoch1_def demo_cgan_epoch2_def)
  have i: "cgan_initial demo_nets 15
       (CombinedRow 0 None None None 100 demo_f1 100 demo_f1 100 demo_f1) = demo_cgan_state"
    by (simp add: demo_cgan_state_def)
  have n: "(0::nat) + 5 = 5" "(5::nat) + 5 = 10" "(10::nat) + 5 = 15" by simp_all
  show ?thesis
    unfolding train_combined_cgan_def u
    by (simp only: demo_evaluate_model sum.case prod.case n i cgan_epochs.simps
        demo_cgan_first_epoch demo_cgan_second_epoch e if_False)
qed

lemma demo_evaluate_model_neg:
  "evaluate_model demo_env nets [demo_batch_neg] 5 rng = Inr ((0, 0), rng + 5)"
  by (simp add: evaluate_model_def evaluate_batch_def demo_batch_neg_def demo_predict_batch
      count_equal_def broadcast_zip_def calculate_f1_def tensor_mul_def demo_f1_neg
      case_prod_beta)

lemma demo_cgan_saved_epoch:
  "cgan_epoch demo_env 5 30 2 [demo_batch] [demo_batch] [demo_batch_neg] 0 demo_cgan_state =
     Inr demo_ckpt_saved"
proof -
  have r: "demo_cgan_state\<lparr>c_total_g_loss := 0, c_total_d_loss := 0, c_total_c_loss := 0,
                        correct_train := 0, total_train := 0, total_f1_train := 0\<rparr>
           = demo_cgan_state"
    by (simp add: demo_cgan_state_def cgan_initial_def)
  show ?thesis
    unfolding cgan_epoch_def r
    by (simp only: cgan_batches.simps demo_cgan_batch sum.case)
      (simp add: demo_evaluate_model demo_evaluate_model_neg demo_scheduler_step
        check_improvement_def Let_def demo_ckpt_saved_def demo_cgan_state_def cgan_initial_def)
qed

lemma demo_cgan_skipped_epoch:
  "cgan_epoch demo_env 5 30 2 [demo_batch] [demo_batch_neg] [demo_batch] 0 demo_cgan_state =
     Inr demo_ckpt_skipped"
proof -
  have r: "demo_cgan_state\<lparr>c_total_g_loss := 0, c_total_d_loss := 0, c_total_c_loss := 0,
                        correct_train := 0, total_train := 0, total_f1_train := 0\<rparr>
           = demo_cgan_state"
    by (simp add: demo_cgan_state_def cgan_initial_def)
  show ?thesis
    unfolding cgan_epoch_def r
    by (simp only: cgan_batches.simps demo_cgan_batch sum.case)
      (simp add: demo_evaluate_model demo_evaluate_model_neg demo_scheduler_step
        check_improvement_def Let_def demo_ckpt_skipped_def demo_cgan_state_def cgan_initial_def)
qed

text \<open>
  Claim C5. An epoch of the combined loop that completes evaluates the model of the
  epoch's end on the validation loader and then on the test loader, and appends one row
  with both results to the metrics file. With \<open>va\<close> the accuracy that
  \<open>evaluate_model\<close> returns on the validation loader and \<open>ta\<close> the one it returns on
  the test loader, a checkpoint is written if and only if \<open>va\<close> exceeds the best
  accuracy so far. The checkpoint written holds the six state dicts of the epoch's end,
  the epoch index, \<open>va\<close> and \<open>ta\<close>, the best accuracy becomes \<open>va\<close> and the shared
  counter 0. Otherwise the checkpoint history and the best accuracy are unchanged and the
  counter grows by 1. The loop returns the state of this epoch, running no further one, as
  soon as the counter has reached the patience. For a whole run that returns, the best
  accuracy, the counter and the checkpoints of the final state are those of the gate
  replayed from best accuracy 0 and counter 0 over the rows of the epochs run, each of
  which holds accuracies returned by \<open>evaluate_model\<close> on the validation and on the test
  loader; the counter was below the patience after every epoch but the last, and has
  reached it when fewer than \<^verbatim>\<open>epochs\<close> epochs ran.
\<close>

theorem combined_checkpoint_on_improvement:
  "(cgan_epoch env lambda_gp alpha n train_loader val_loader test_loader epoch st = Inr st' \<longrightarrow>
      (\<exists>st1 va va_f1 rng1 ta ta_f1 rng2.
           cgan_batches env lambda_gp alpha n train_loader
             (st\<lparr>c_total_g_loss := 0, c_total_d_loss := 0, c_total_c_loss := 0,
                 correct_train := 0, total_train := 0, total_f1_train := 0\<rparr>) = Inr st1
         \<and> evaluate_model env (c_nets st1) val_loader 5 (c_rng st1) = Inr ((va, va_f1), rng1)
         \<and> evaluate_model env (c_nets st1) test_loader 5 rng1 = Inr ((ta, ta_f1), rng2)
         \<and> c_log st' = c_log st @
             [CombinedRow (epoch + 1)
                (Some (c_total_g_loss st1 / real (length train_loader)))
                (Some (c_total_d_loss st1 / real (length train_loader)))
                (Some (c_total_c_loss st1 / real (length train_loader)))
                (100 * real (correct_train st1) / real (total_train st1))
                (total_f1_train st1 / real (length train_loader)) va va_f1 ta ta_f1]
         \<and> c_nets st' = (c_nets st1)
              \<lparr>optimizer_g_sd := scheduler_step env Generator (optimizer_g_sd (c_nets st1)),
               optimizer_d_sd := scheduler_step env Discriminator (optimizer_d_sd (c_nets st1)),
               optimizer_c_sd := scheduler_step env Classifier (optimizer_c_sd (c_nets st1))\<rparr>
         \<and> (saved_models st' \<noteq> saved_models st \<longleftrightarrow> va > best_accuracy st)
         \<and> (va > best_accuracy st \<longrightarrow>
              saved_models st' = saved_models st @
                [\<lparr>ck_nets = c_nets st', ck_epoch = epoch, ck_val_accuracy = va,
                  ck_test_accuracy = ta\<rparr>]
              \<and> best_accuracy st' = va \<and> epochs_without_improvement st' = 0)
         \<and> (\<not> va > best_accuracy st \<longrightarrow>
              saved_models st' = saved_models st \<and> best_accuracy st' = best_accuracy st
              \<and> epochs_without_improvement st' = epochs_without_improvement st + 1)
         \<and> cgan_epochs env lambda_gp alpha n patience train_loader val_loader test_loader
              (epoch # rest) st =
             (if patience \<le> epochs_without_improvement st' then Inr st'
              else cgan_epochs env lambda_gp alpha n patience train_loader val_loader test_loader
                     rest st')))
   \<and> (train_combined_cgan env nets rng train_loader val_loader test_loader epochs patience
        lambda_gp alpha n = Inr fin \<longrightarrow>
      (\<exists>base rows. data_rows (c_log fin) = base # rows \<and> row_epoch base = 0
        \<and> length rows \<le> epochs
        \<and> gate_of fin = replay_gate (0, 0, []) rows
        \<and> (\<forall>k. 0 < k \<and> k < length rows \<longrightarrow>
              gate_counter (replay_gate (0, 0, []) (take k rows)) < patience)
        \<and> (length rows < epochs \<longrightarrow> patience \<le> epochs_without_improvement fin)
        \<and> (\<forall>row\<in>set rows. \<exists>e g d c tr trf va vf ta tf nets' r r' r''.
                  row = CombinedRow e g d c tr trf va vf ta tf
                \<and> evaluate_model env nets' val_loader 5 r = Inr ((va, vf), r')
                \<and> evaluate_model env nets' test_loader 5 r' = Inr ((ta, tf), r''))))"
proof (intro conjI impI)
  assume a: "cgan_epoch env lambda_gp alpha n train_loader val_loader test_loader epoch st = Inr st'"
  from cgan_epoch_full[OF a] obtain st1 va va_f1 rng1 ta ta_f1 rng2 where
    b: "cgan_batches env lambda_gp alpha n train_loader
             (st\<lparr>c_total_g_loss := 0, c_total_d_loss := 0, c_total_c_loss := 0,
                 correct_train := 0, total_train := 0, total_f1_train := 0\<rparr>) = Inr st1"
    and v: "evaluate_model env (c_nets st1) val_loader 5 (c_rng st1) = Inr ((va, va_f1), rng1)"
    and t: "evaluate_model env (c_nets st1) test_loader 5 rng1 = Inr ((ta, ta_f1), rng2)"
    and l: "c_log st' = c_log st @
             [CombinedRow (epoch + 1)
                (Some (c_total_g_loss st1 / real (length train_loader)))
                (Some (c_total_d_loss st1 / real (length train_loader)))
                (Some (c_total_c_loss st1 / real (length train_loader)))
                (100 * real (correct_train st1) / real (total_train st1))
                (total_f1_train st1 / real (length train_loader)) va va_f1 ta ta_f1]"
    and ns: "c_nets st' = (c_nets st1)
              \<lparr>optimizer_g_sd := scheduler_step env Generator (optimizer_g_sd (c_nets st1)),
               optimizer_d_sd := scheduler_step env Discriminator (optimizer_d_sd (c_nets st1)),
               optimizer_c_sd := scheduler_step env Classifier (optimizer_c_sd (c_nets st1))\<rparr>"
    and g: "if va > best_accuracy st
              then saved_models st' = saved_models st @
                     [\<lparr>ck_nets = c_nets st', ck_epoch = epoch, ck_val_accuracy = va,
                       ck_test_accuracy = ta\<rparr>]
                   \<and> best_accuracy st' = va \<and> epochs_without_improvement st' = 0
              else saved_models st' = saved_models st
                   \<and> best_accuracy st' = best_accuracy st
                   \<and> epochs_without_improvement st' = epochs_without_improvement st + 1"
    by blast
  have g1: "saved_models st' \<noteq> saved_models st \<longleftrightarrow> va > best_accuracy st"
    using g by (auto split: if_splits)
  have g2: "va > best_accuracy st \<longrightarrow>
              saved_models st' = saved_models st @
                [\<lparr>ck_nets = c_nets st', ck_epoch = epoch, ck_val_accuracy = va,
                  ck_test_accuracy = ta\<rparr>]
              \<and> best_accuracy st' = va \<and> epochs_without_improvement st' = 0"
    using g by (simp split: if_splits)
  have g3: "\<not> va > best_accuracy st \<longrightarrow>
              saved_models st' = saved_models st \<and> best_accuracy st' = best_accuracy st
              \<and> epochs_without_improvement st' = epochs_without_improvement st + 1"
    using g by (simp split: if_splits)
  have lp: "cgan_epochs env lambda_gp alpha n patience train_loader val_loader test_loader
              (epoch # rest) st =
             (if patience \<le> epochs_without_improvement st' then Inr st'
              else cgan_epochs env lambda_gp alpha n patience train_loader val_loader test_loader
                     rest st')"
    by (simp add: a)
  from b v t l ns g1 g2 g3 lp
  show "\<exists>st1 va va_f1 rng1 ta ta_f1 rng2.
           cgan_batches env lambda_gp alpha n train_loader
             (st\<lparr>c_total_g_loss := 0, c_total_d_loss := 0, c_total_c_loss := 0,
                 correct_train := 0, total_train := 0, total_f1_train := 0\<rparr>) = Inr st1
         \<and> evaluate_model env (c_nets st1) val_loader 5 (c_rng st1) = Inr ((va, va_f1), rng1)
         \<and> evaluate_model env (c_nets st1) test_loader 5 rng1 = Inr ((ta, ta_f1), rng2)
         \<and> c_log st' = c_log st @
             [CombinedRow (epoch + 1)
                (Some (c_total_g_loss st1 / real (length train_loader)))
                (Some (c_total_d_loss st1 / real (length train_loader)))
                (Some (c_total_c_loss st1 / real (length train_loader)))
                (100 * real (correct_train st1) / real (total_train st1))
                (total_f1_train st1 / real (length train_loader)) va va_f1 ta ta_f1]
         \<and> c_nets st' = (c_nets st1)
              \<lparr>optimizer_g_sd := scheduler_step env Generator (optimizer_g_sd (c_nets st1)),
               optimizer_d_sd := scheduler_step env Discriminator (optimizer_d_sd (c_nets st1)),
               optimizer_c_sd := scheduler_step env Classifier (optimizer_c_sd (c_nets st1))\<rparr>
         \<and> (saved_models st' \<noteq> saved_models st \<longleftrightarrow> va > best_accuracy st)
         \<and> (va > best_accuracy st \<longrightarrow>
              saved_models st' = saved_models st @
                [\<lparr>ck_nets = c_nets st', ck_epoch = epoch, ck_val_accuracy = va,
                  ck_test_accuracy = ta\<rparr>]
              \<and> best_accuracy st' = va \<and> epochs_without_improvement st' = 0)
         \<and> (\<not> va > best_accuracy st \<longrightarrow>
              saved_models st' = saved_models st \<and> best_accuracy st' = best_accuracy st
              \<and> epochs_without_improvement st' = epochs_without_improvement st + 1)
         \<and> cgan_epochs env lambda_gp alpha n patience train_loader val_loader test_loader
              (epoch # rest) st =
             (if patience \<le> epochs_without_improvement st' then Inr st'
              else cgan_epochs env lambda_gp alpha n patience train_loader val_loader test_loader
                     rest st')"
    by (intro exI[of _ st1] exI[of _ va] exI[of _ va_f1] exI[of _ rng1] exI[of _ ta]
        exI[of _ ta_f1] exI[of _ rng2] conjI)
next
  assume "train_combined_cgan env nets rng train_loader val_loader test_loader epochs patience
        lambda_gp alpha n = Inr fin"
  from combined_gate_run[OF this]
  show "\<exists>base rows. data_rows (c_log fin) = base # rows \<and> row_epoch base = 0
        \<and> length rows \<le> epochs
        \<and> gate_of fin = replay_gate (0, 0, []) rows
        \<and> (\<forall>k. 0 < k \<and> k < length rows \<longrightarrow>
              gate_counter (replay_gate (0, 0, []) (take k rows)) < patience)
        \<and> (length rows < epochs \<longrightarrow> patience \<le> epochs_without_improvement fin)
        \<and> (\<forall>row\<in>set rows. \<exists>e g d c tr trf va vf ta tf nets' r r' r''.
                  row = CombinedRow e g d c tr trf va vf ta tf
                \<and> evaluate_model env nets' val_loader 5 r = Inr ((va, vf), r')
                \<and> evaluate_model env nets' test_loader 5 r' = Inr ((ta, tf), r''))" .
qed

theorem combined_checkpoint_on_improvement_witness:
  "cgan_epoch demo_env 5 30 2 [demo_batch] [demo_batch] [demo_batch_neg] 0 demo_cgan_state =
     Inr demo_ckpt_saved
   \<and> evaluate_model demo_env demo_nets [demo_batch] 5 0 = Inr ((100, demo_f1), 5)
   \<and> evaluate_model demo_env demo_nets [demo_batch_neg] 5 0 = Inr ((0, 0), 5)
   \<and> best_accuracy demo_cgan_state = 0
   \<and> saved_models demo_cgan_state = []
   \<and> saved_models demo_ckpt_saved =
       [\<lparr>ck_nets = c_nets demo_ckpt_saved, ck_epoch = 0, ck_val_accuracy = 100,
         ck_test_accuracy = 0\<rparr>]
   \<and> best_accuracy demo_ckpt_saved = 100
   \<and> epochs_without_improvement demo_ckpt_saved = 0
   \<and> cgan_epoch demo_env 5 30 2 [demo_batch] [demo_batch_neg] [demo_batch] 0 demo_cgan_state =
       Inr demo_ckpt_skipped
   \<and> saved_models demo_ckpt_skipped = []
   \<and> best_accuracy demo_ckpt_skipped = 0
   \<and> epochs_without_improvement demo_ckpt_skipped = 1
   \<and> cgan_epochs demo_env 5 30 2 1 [demo_batch] [demo_batch_neg] [demo_batch] [0, 1]
        demo_cgan_state = Inr demo_ckpt_skipped
   \<and> train_combined_cgan demo_env demo_nets 0 [demo_batch] [demo_batch] [demo_batch] 2 5 5 30 2 =
       Inr demo_cgan_epoch2
   \<and> gate_of demo_cgan_epoch2 = replay_gate (0, 0, []) (tl (data_rows (c_log demo_cgan_epoch2)))
   \<and> gate_of demo_cgan_epoch2 = (100, 1, [(0, 100, 100)])"
proof -
  have s0: "saved_models demo_cgan_state = []" "best_accuracy demo_cgan_state = 0"
    "epochs_without_improvement demo_cgan_state = 0"
    by (simp_all add: demo_cgan_state_def cgan_initial_def)
  note saved = combined_checkpoint_on_improvement[where env = demo_env and lambda_gp = 5 and alpha = 30
      and n = 2 and train_loader = "[demo_batch]" and val_loader = "[demo_batch]"
      and test_loader = "[demo_batch_neg]" and epoch = 0 and st = demo_cgan_state
      and st' = demo_ckpt_saved and patience = 1 and rest = "[1]",
      THEN conjunct1, THEN mp, OF demo_cgan_saved_epoch]
  then obtain st1 va va_f1 rng1 ta ta_f1 rng2 where
    a: "cgan_batches demo_env 5 30 2 [demo_batch]
             (demo_cgan_state\<lparr>c_total_g_loss := 0, c_total_d_loss := 0, c_total_c_loss := 0,
                 correct_train := 0, total_train := 0, total_f1_train := 0\<rparr>) = Inr st1"
       "evaluate_model demo_env (c_nets st1) [demo_batch] 5 (c_rng st1) = Inr ((va, va_f1), rng1)"
       "evaluate_model demo_env (c_nets st1) [demo_batch_neg] 5 rng1 = Inr ((ta, ta_f1), rng2)"
       "va > best_accuracy demo_cgan_state \<longrightarrow>
              saved_models demo_ckpt_saved = saved_models demo_cgan_state @
                [\<lparr>ck_nets = c_nets demo_ckpt_saved, ck_epoch = 0, ck_val_accuracy = va,
                  ck_test_accuracy = ta\<rparr>]
              \<and> best_accuracy demo_ckpt_saved = va
              \<and> epochs_without_improvement demo_ckpt_saved = 0"
    by blast
  from a(2) have va: "va = 100" by (simp add: demo_evaluate_model)
  from a(3) have ta: "ta = 0" by (simp add: demo_evaluate_model_neg)
  from a(4) va ta s0 have first:
    "saved_models demo_ckpt_saved =
       [\<lparr>ck_nets = c_nets demo_ckpt_saved, ck_epoch = 0, ck_val_accuracy = 100,
         ck_test_accuracy = 0\<rparr>]
     \<and> best_accuracy demo_ckpt_saved = 100 \<and> epochs_without_improvement demo_ckpt_saved = 0"
    by simp
  note skipped = combined_checkpoint_on_improvement[where env = demo_env and lambda_gp = 5 and alpha = 30
      and n = 2 and train_loader = "[demo_batch]" and val_loader = "[demo_batch_neg]"
      and test_loader = "[demo_batch]" and epoch = 0 and st = demo_cgan_state
      and st' = demo_ckpt_skipped and patience = 1 and rest = "[1]",
      THEN conjunct1, THEN mp, OF demo_cgan_skipped_epoch]
  then obtain st1' va' va_f1' rng1' where
    b: "cgan_batches demo_env 5 30 2 [demo_batch]
             (demo_cgan_state\<lparr>c_total_g_loss := 0, c_total_d_loss := 0, c_total_c_loss := 0,
                 correct_train := 0, total_train := 0, total_f1_train := 0\<rparr>) = Inr st1'"
       "evaluate_model demo_env (c_nets st1') [demo_batch_neg] 5 (c_rng st1')
          = Inr ((va', va_f1'), rng1')"
       "\<not> va' > best_accuracy demo_cgan_state \<longrightarrow>
              saved_models demo_ckpt_skipped = saved_models demo_cgan_state
              \<and> best_accuracy demo_ckpt_skipped = best_accuracy demo_cgan_state
              \<and> epochs_without_improvement demo_ckpt_skipped =
                  epochs_without_improvement demo_cgan_state + 1"
       "cgan_epochs demo_env 5 30 2 1 [demo_batch] [demo_batch_neg] [demo_batch] [0, 1]
            demo_cgan_state =
             (if 1 \<le> epochs_without_improvement demo_ckpt_skipped then Inr demo_ckpt_skipped
              else cgan_epochs demo_env 5 30 2 1 [demo_batch] [demo_batch_neg] [demo_batch] [1]
                     demo_ckpt_skipped)"
    by blast
  from b(2) have va': "va' = 0" by (simp add: demo_evaluate_model_neg)
  from b(3) va' s0 have second:
    "saved_models demo_ckpt_skipped = []
     \<and> best_accuracy demo_ckpt_skipped = 0 \<and> epochs_without_improvement demo_ckpt_skipped = 1"
    by simp
  with b(4) have stop: "cgan_epochs demo_env 5 30 2 1 [demo_batch] [demo_batch_neg] [demo_batch]
       [0, 1] demo_cgan_state = Inr demo_ckpt_skipped"
    by simp
  from combined_checkpoint_on_improvement[where env = demo_env and nets = demo_nets and rng = 0
      and train_loader = "[demo_batch]" and val_loader = "[demo_batch]"
      and test_loader = "[demo_batch]" and epochs = 2 and patience = 5 and lambda_gp = 5
      and alpha = 30 and n = 2 and fin = demo_cgan_epoch2,
      THEN conjunct2, THEN mp, OF demo_train_combined]
  obtain base rows where
    c: "data_rows (c_log demo_cgan_epoch2) = base # rows"
       "gate_of demo_cgan_epoch2 = replay_gate (0, 0, []) rows"
    by blast
  from c have run: "gate_of demo_cgan_epoch2
      = replay_gate (0, 0, []) (tl (data_rows (c_log demo_cgan_epoch2)))"
    by simp
  have val: "gate_of demo_cgan_epoch2 = (100, 1, [(0, 100, 100)])"
    by (simp add: gate_of_def demo_cgan_epoch2_def demo_cgan_epoch1_def)
  have ev: "evaluate_model demo_env demo_nets [demo_batch] 5 0 = Inr ((100, demo_f1), 5)"
    "evaluate_model demo_env demo_nets [demo_batch_neg] 5 0 = Inr ((0, 0), 5)"
    by (simp_all add: demo_evaluate_model demo_evaluate_model_neg)
  from first second stop run val ev s0 demo_cgan_saved_epoch demo_cgan_skipped_epoch
    demo_train_combined
  show ?thesis by simp
qed

text \<open>
  Claim C8. A combined run that returns has written the data rows of epochs
  \<open>0, 1, \<dots>, N\<close> for some \<open>N\<close> up to \<^verbatim>\<open>epochs\<close>, that is \<open>N + 1\<close> rows, and \<open>N\<close> is
  \<^verbatim>\<open>epochs\<close> when the run did not stop early (the counter is below the patience). A
  pretraining run that returns has written the data rows of epochs \<open>1, \<dots>, N\<close>, one per
  epoch run and none for epoch 0, and \<open>N\<close> is \<^verbatim>\<open>epochs\<close> unless both stop flags are
  set.
\<close>

theorem csv_row_counts:
  "(train_combined_cgan env nets rng train_loader val_loader test_loader epochs patience
        lambda_gp alpha n = Inr cst \<longrightarrow>
      (\<exists>N \<le> epochs. map row_epoch (data_rows (c_log cst)) = [0..<Suc N]
           \<and> length (data_rows (c_log cst)) = N + 1
           \<and> (epochs_without_improvement cst < patience \<longrightarrow> N = epochs)))
   \<and> (train_gan env nets grng data_loader gepochs glambda_gp lambda_rec gpatience = Inr gst \<longrightarrow>
      (\<exists>N \<le> gepochs. map row_epoch (data_rows (gan_log gst)) = [1..<Suc N]
           \<and> length (data_rows (gan_log gst)) = N
           \<and> (\<not> (stop_training_g gst \<and> stop_training_d gst) \<longrightarrow> N = gepochs)))"
  using combined_log_rows[of env nets rng train_loader val_loader test_loader epochs patience
      lambda_gp alpha n cst]
    pretraining_log_rows[of env nets grng data_loader gepochs glambda_gp lambda_rec gpatience gst]
  by blast

theorem csv_row_counts_witness:
  "train_combined_cgan demo_env demo_nets 0 [demo_batch] [demo_batch] [demo_batch] 2 5 5 30 2 =
     Inr demo_cgan_epoch2
   \<and> map row_epoch (data_rows (c_log demo_cgan_epoch2)) = [0, 1, 2]
   \<and> length (data_rows (c_log demo_cgan_epoch2)) = 3
   \<and> train_gan demo_env demo_nets 0 [demo_batch] 1 1 100 1 = Inr demo_gan_epoch1
   \<and> map row_epoch (data_rows (gan_log demo_gan_epoch1)) = [1]
   \<and> length (data_rows (gan_log demo_gan_epoch1)) = 1"
proof -
  note t = csv_row_counts[where env = demo_env and nets = demo_nets and rng = 0
      and train_loader = "[demo_batch]" and val_loader = "[demo_batch]"
      and test_loader = "[demo_batch]" and epochs = 2 and patience = 5 and lambda_gp = 5
      and alpha = 30 and n = 2 and cst = demo_cgan_epoch2 and grng = 0
      and data_loader = "[demo_batch]" and gepochs = 1 and glambda_gp = 1 and lambda_rec = 100
      and gpatience = 1 and gst = demo_gan_epoch1]
  have e: "epochs_without_improvement demo_cgan_epoch2 < 5"
    "\<not> (stop_training_g demo_gan_epoch1 \<and> stop_training_d demo_gan_epoch1)"
    by (simp_all add: demo_cgan_epoch2_def demo_gan_epoch1_def)
  from t[THEN conjunct1, THEN mp, OF demo_train_combined] e(1) obtain N where
    n: "map row_epoch (data_rows (c_log demo_cgan_epoch2)) = [0..<Suc N]"
       "length (data_rows (c_log demo_cgan_epoch2)) = N + 1" "N = 2"
    by blast
  from t[THEN conjunct2, THEN mp, OF demo_train_gan_one[of 1]] e(2) obtain M where
    m: "map row_epoch (data_rows (gan_log demo_gan_epoch1)) = [1..<Suc M]"
       "length (data_rows (gan_log demo_gan_epoch1)) = M" "M = 1"
    by blast
  have u: "[0..<Suc 2] = [0, 1, 2]" "[1..<Suc 1] = [1]" by (simp_all add: upt_rec)
  have a: "map row_epoch (data_rows (c_log demo_cgan_epoch2)) = [0, 1, 2]"
    using n(1,3) u(1) by (simp only:)
  have a2: "length (data_rows (c_log demo_cgan_epoch2)) = 3"
    using n(2,3) by simp
  have b: "map row_epoch (data_rows (gan_log demo_gan_epoch1)) = [1]"
    "length (data_rows (gan_log demo_gan_epoch1)) = 1"
    using m u(2) by (simp_all only:)
  from a a2 b demo_train_combined demo_train_gan_one[of 1] show ?thesis by simp
qed

end
